theory Spec2Isabelle
  imports Complex_Main "HOL-Library.AList"
begin

section \<open>Python values\<close>

text \<open>
  The configuration panel of \<^verbatim>\<open>yunohost/utils/config.py\<close> works on dynamically typed
  data read from TOML and YAML documents.  A value is one of the scalars, a list, or a
  dictionary with string keys kept in insertion order (an association list without
  duplicate keys).  A float stands for its exact rational value; \<^verbatim>\<open>nan\<close> and the
  infinities are outside the type.  Strings are lists of ASCII characters.
\<close>

datatype pyval =
    PNone
  | PBool bool
  | PInt int
  | PFloat rat
  | PStr string
  | PList "pyval list"
  | PDict "(string \<times> pyval) list"

type_synonym pydict = "(string \<times> pyval) list"

text \<open>Exceptions.  \<^verbatim>\<open>YunohostValidationError\<close> is a subclass of \<^verbatim>\<open>YunohostError\<close>;
  both carry the message key and the keyword arguments of the message.\<close>

datatype exn =
    YunohostError string pydict
  | YunohostValidationError string pydict
  | MoulinetteError string
  | KeyError string
  | IndexError
  | AttributeError string
  | TypeError string
  | ValueError string
  | AssertionError string
  | OSError string
  | KeyboardInterrupt
  | EOFError
  | OtherException string

fun is_YunohostError :: "exn \<Rightarrow> bool" where
  "is_YunohostError (YunohostError k a) = True"
| "is_YunohostError (YunohostValidationError k a) = True"
| "is_YunohostError e = False"

fun is_YunohostValidationError :: "exn \<Rightarrow> bool" where
  "is_YunohostValidationError (YunohostValidationError k a) = True"
| "is_YunohostValidationError e = False"

subsection \<open>Dictionaries\<close>

definition dict_get :: "pydict \<Rightarrow> string \<Rightarrow> pyval \<Rightarrow> pyval" where
  \<comment> \<open>\<^verbatim>\<open>d.get(k, default)\<close>\<close>
  "dict_get d k dflt = (case map_of d k of None \<Rightarrow> dflt | Some v \<Rightarrow> v)"

definition dict_set :: "pydict \<Rightarrow> string \<Rightarrow> pyval \<Rightarrow> pydict" where
  \<comment> \<open>\<^verbatim>\<open>d[k] = v\<close>: an existing key keeps its place, a new key goes last\<close>
  "dict_set d k v = AList.update k v d"

definition dict_setdefault :: "pydict \<Rightarrow> string \<Rightarrow> pyval \<Rightarrow> pydict" where
  "dict_setdefault d k v = (case map_of d k of None \<Rightarrow> d @ [(k, v)] | Some x \<Rightarrow> d)"

definition dict_update :: "pydict \<Rightarrow> pydict \<Rightarrow> pydict" where
  \<comment> \<open>\<^verbatim>\<open>d.update(other)\<close>, also \<^verbatim>\<open>{**d, **other}\<close>\<close>
  "dict_update d other = fold (\<lambda>(k, v) acc. dict_set acc k v) other d"

definition dict_getitem :: "pydict \<Rightarrow> string \<Rightarrow> exn + pyval" where
  \<comment> \<open>\<^verbatim>\<open>d[k]\<close>\<close>
  "dict_getitem d k = (case map_of d k of None \<Rightarrow> Inl (KeyError k) | Some v \<Rightarrow> Inr v)"

subsection \<open>Strings\<close>

definition lower_char :: "char \<Rightarrow> char" where
  "lower_char c =
     (case map_of (zip ''ABCDEFGHIJKLMNOPQRSTUVWXYZ'' ''abcdefghijklmnopqrstuvwxyz'') c of
        None \<Rightarrow> c | Some d \<Rightarrow> d)"

definition upper_char :: "char \<Rightarrow> char" where
  "upper_char c =
     (case map_of (zip ''abcdefghijklmnopqrstuvwxyz'' ''ABCDEFGHIJKLMNOPQRSTUVWXYZ'') c of
        None \<Rightarrow> c | Some d \<Rightarrow> d)"

definition lower :: "string \<Rightarrow> string" where
  "lower s = map lower_char s"

definition capitalize :: "string \<Rightarrow> string" where
  "capitalize s = (case s of [] \<Rightarrow> [] | c # cs \<Rightarrow> upper_char c # map lower_char cs)"

definition isspace :: "char \<Rightarrow> bool" where
  \<comment> \<open>tab, line feed, vertical tab, form feed, carriage return, the four separators
      \<^verbatim>\<open>0x1c..0x1f\<close> and the space\<close>
  "isspace c = ((of_char c :: nat) \<in> {9, 10, 11, 12, 13, 28, 29, 30, 31, 32})"

definition strip_chars :: "(char \<Rightarrow> bool) \<Rightarrow> string \<Rightarrow> string" where
  "strip_chars P s = rev (dropWhile P (rev (dropWhile P s)))"

definition strip :: "string \<Rightarrow> string" where
  \<comment> \<open>\<^verbatim>\<open>s.strip()\<close>\<close>
  "strip s = strip_chars isspace s"

definition digit_char :: "nat \<Rightarrow> char" where
  "digit_char n = ''0123456789'' ! n"

fun str_of_nat :: "nat \<Rightarrow> string" where
  "str_of_nat n = (if n < 10 then [digit_char n] else str_of_nat (n div 10) @ [digit_char (n mod 10)])"

declare str_of_nat.simps [simp del]

definition str_of_int :: "int \<Rightarrow> string" where
  "str_of_int i = (if i < 0 then CHR ''-'' # str_of_nat (nat (- i)) else str_of_nat (nat i))"

fun join :: "string \<Rightarrow> string list \<Rightarrow> string" where
  "join sep [] = []"
| "join sep [x] = x"
| "join sep (x # y # ys) = x @ sep @ join sep (y # ys)"

fun split_on :: "char \<Rightarrow> string \<Rightarrow> string list" where
  \<comment> \<open>\<^verbatim>\<open>s.split(c)\<close> for a one-character separator: always at least one segment\<close>
  "split_on c [] = [[]]"
| "split_on c (x # xs) =
     (if x = c then [] # split_on c xs
      else (case split_on c xs of [] \<Rightarrow> [[x]] | seg # segs \<Rightarrow> (x # seg) # segs))"

definition count_char :: "char \<Rightarrow> string \<Rightarrow> nat" where
  \<comment> \<open>\<^verbatim>\<open>s.count(c)\<close>\<close>
  "count_char c s = length (filter (\<lambda>x. x = c) s)"

fun startswith :: "string \<Rightarrow> string \<Rightarrow> bool" where
  \<comment> \<open>\<^verbatim>\<open>s.startswith(p)\<close>\<close>
  "startswith s [] = True"
| "startswith [] (p # ps) = False"
| "startswith (c # cs) (p # ps) = (c = p \<and> startswith cs ps)"

fun contains_str :: "string \<Rightarrow> string \<Rightarrow> bool" where
  \<comment> \<open>\<^verbatim>\<open>t in s\<close> for two strings\<close>
  "contains_str [] t = (t = [])"
| "contains_str (c # cs) t = (startswith (c # cs) t \<or> contains_str cs t)"

definition rstrip_chars :: "(char \<Rightarrow> bool) \<Rightarrow> string \<Rightarrow> string" where
  "rstrip_chars P s = rev (dropWhile P (rev s))"

fun replace_str :: "string \<Rightarrow> string \<Rightarrow> string \<Rightarrow> string" where
  \<comment> \<open>\<^verbatim>\<open>s.replace(old, new)\<close> for a non-empty \<^verbatim>\<open>old\<close>\<close>
  "replace_str [] old new = []"
| "replace_str (c # cs) old new =
     (if old \<noteq> [] \<and> startswith (c # cs) old
      then new @ replace_str (drop (length old) (c # cs)) old new
      else c # replace_str cs old new)"

definition isdigit :: "string \<Rightarrow> bool" where
  \<comment> \<open>\<^verbatim>\<open>s.isdigit()\<close>\<close>
  "isdigit s = (s \<noteq> [] \<and> list_all (\<lambda>c. c \<in> set ''0123456789'') s)"

definition digit_val :: "char \<Rightarrow> nat" where
  "digit_val c = (case map_of (zip ''0123456789'' [0, 1, 2, 3, 4, 5, 6, 7, 8, 9]) c of
                    None \<Rightarrow> 0 | Some n \<Rightarrow> n)"

definition nat_of_digits :: "string \<Rightarrow> nat" where
  \<comment> \<open>\<^verbatim>\<open>int(s)\<close> for a string of digits\<close>
  "nat_of_digits s = foldl (\<lambda>acc c. 10 * acc + digit_val c) 0 s"

definition dirname :: "string \<Rightarrow> string" where
  \<comment> \<open>\<^verbatim>\<open>os.path.dirname\<close>; there are no symbolic links, so \<^verbatim>\<open>realpath\<close> changes nothing\<close>
  "dirname p =
     (let hd_part = rev (dropWhile (\<lambda>c. c \<noteq> CHR ''/'') (rev p))
      in if hd_part \<noteq> [] \<and> \<not> list_all (\<lambda>c. c = CHR ''/'') hd_part
         then rstrip_chars (\<lambda>c. c = CHR ''/'') hd_part else hd_part)"

subsection \<open>The built-in functions on values\<close>

text \<open>
  What the program calls outside this repository is a parameter of the model: the record
  \<open>env\<close> holds the interface the program runs under and the library functions it calls,
  and every theorem holds for any such environment.
\<close>

record env =
  interface_type :: string  \<comment> \<open>\<^verbatim>\<open>Moulinette.interface.type\<close>\<close>
  isatty :: bool  \<comment> \<open>\<^verbatim>\<open>os.isatty(1)\<close>\<close>
  py_repr :: "pyval \<Rightarrow> string"  \<comment> \<open>\<^verbatim>\<open>str\<close> of a float, a list or a dictionary\<close>
  float_of_str :: "string \<Rightarrow> rat option"  \<comment> \<open>\<^verbatim>\<open>float(s)\<close>, \<open>None\<close> where it raises\<close>
  m18n_n :: "string \<Rightarrow> pydict \<Rightarrow> string"  \<comment> \<open>translation of a message key\<close>
  m18n_g :: "string \<Rightarrow> string"
  value_for_locale :: "pyval \<Rightarrow> pyval"  \<comment> \<open>\<^verbatim>\<open>_value_for_locale\<close>\<close>
  colorize :: "string \<Rightarrow> string \<Rightarrow> string"
  re_match :: "string \<Rightarrow> string \<Rightarrow> bool"  \<comment> \<open>\<^verbatim>\<open>re.match(regexp, s)\<close> finds a match\<close>
  strptime_ok :: "string \<Rightarrow> bool"  \<comment> \<open>\<^verbatim>\<open>datetime.strptime(s, "%Y-%m-%d")\<close> returns\<close>
  assert_password_is_strong_enough :: "string \<Rightarrow> pyval \<Rightarrow> exn option"
  quote :: "string \<Rightarrow> string"  \<comment> \<open>\<^verbatim>\<open>urllib.parse.quote\<close>\<close>
  parse_qs :: "string \<Rightarrow> (string \<times> string list) list"
  parse_qsl :: "string \<Rightarrow> (string \<times> string) list"
  read_yaml_args :: "string \<Rightarrow> exn + pydict"  \<comment> \<open>\<^verbatim>\<open>read_yaml(args_file)\<close>\<close>
  domain_list :: "string list"
  get_maindomain :: string
  user_list :: "string list"
  user_mail_aliases :: "string \<Rightarrow> string list"
  b64decode :: "pyval \<Rightarrow> exn + string"
  write_fault :: "exn option"  \<comment> \<open>what \<^verbatim>\<open>write_to_yaml\<close> raises, if it does\<close>
  service_reload_or_restart :: "string \<Rightarrow> exn option"
  rmtree_fault :: "string \<Rightarrow> exn option"  \<comment> \<open>what \<^verbatim>\<open>shutil.rmtree\<close> raises on a directory, if it does\<close>

definition py_str :: "env \<Rightarrow> pyval \<Rightarrow> string" where
  \<comment> \<open>\<^verbatim>\<open>str(v)\<close>\<close>
  "py_str E v =
     (case v of
        PNone \<Rightarrow> ''None''
      | PBool b \<Rightarrow> (if b then ''True'' else ''False'')
      | PInt i \<Rightarrow> str_of_int i
      | PStr s \<Rightarrow> s
      | _ \<Rightarrow> py_repr E v)"

primrec num_norm :: "pyval \<Rightarrow> pyval" where
  "num_norm PNone = PNone"
| "num_norm (PBool b) = PInt (if b then 1 else 0)"
| "num_norm (PInt i) = PInt i"
| "num_norm (PFloat r) = (if r = of_int \<lfloor>r\<rfloor> then PInt \<lfloor>r\<rfloor> else PFloat r)"
| "num_norm (PStr s) = PStr s"
| "num_norm (PList xs) = PList (map num_norm xs)"
| "num_norm (PDict d) = PDict (map (map_prod id num_norm) d)"

definition py_eq :: "pyval \<Rightarrow> pyval \<Rightarrow> bool" where
  \<comment> \<open>\<^verbatim>\<open>a == b\<close>: numbers and booleans compare by value (\<^verbatim>\<open>1 == True == 1.0\<close>);
      dictionaries are compared in order, as two \<^verbatim>\<open>OrderedDict\<close> are\<close>
  "py_eq a b = (num_norm a = num_norm b)"

definition py_in_list :: "pyval \<Rightarrow> pyval list \<Rightarrow> bool" where
  \<comment> \<open>\<^verbatim>\<open>v in [..]\<close>\<close>
  "py_in_list v xs = list_ex (py_eq v) xs"

definition is_empty_value :: "pyval \<Rightarrow> bool" where
  \<comment> \<open>\<^verbatim>\<open>v in [None, ""]\<close>\<close>
  "is_empty_value v = py_in_list v [PNone, PStr []]"

definition py_in :: "pyval \<Rightarrow> pyval \<Rightarrow> exn + bool" where
  \<comment> \<open>\<^verbatim>\<open>v in c\<close>: an element of a list, a key of a dictionary, a substring of a string\<close>
  "py_in v c =
     (case c of
        PList xs \<Rightarrow> Inr (py_in_list v xs)
      | PDict d \<Rightarrow>
          (case v of
             PStr k \<Rightarrow> Inr (k \<in> set (map fst d))
           | PList xs \<Rightarrow> Inl (TypeError ''unhashable type'')
           | PDict e \<Rightarrow> Inl (TypeError ''unhashable type'')
           | _ \<Rightarrow> Inr False)
      | PStr s \<Rightarrow>
          (case v of
             PStr t \<Rightarrow> Inr (contains_str s t)
           | _ \<Rightarrow> Inl (TypeError ''in <string> requires string as left operand''))
      | _ \<Rightarrow> Inl (TypeError ''argument is not iterable''))"

fun strs_of :: "pyval list \<Rightarrow> exn + string list" where
  "strs_of [] = Inr []"
| "strs_of (PStr s # xs) = (case strs_of xs of Inl e \<Rightarrow> Inl e | Inr ss \<Rightarrow> Inr (s # ss))"
| "strs_of (x # xs) = Inl (TypeError ''sequence item: expected str instance'')"

definition py_join :: "string \<Rightarrow> pyval \<Rightarrow> exn + string" where
  \<comment> \<open>\<^verbatim>\<open>sep.join(c)\<close>\<close>
  "py_join sep c =
     (case c of
        PList xs \<Rightarrow> (case strs_of xs of Inl e \<Rightarrow> Inl e | Inr ss \<Rightarrow> Inr (join sep ss))
      | PDict d \<Rightarrow> Inr (join sep (map fst d))
      | PStr s \<Rightarrow> Inr (join sep (map (\<lambda>c. [c]) s))
      | _ \<Rightarrow> Inl (TypeError ''can only join an iterable''))"

definition num_of :: "pyval \<Rightarrow> rat option" where
  "num_of v = (case v of PInt i \<Rightarrow> Some (of_int i) | PBool b \<Rightarrow> Some (if b then 1 else 0)
               | PFloat r \<Rightarrow> Some r | _ \<Rightarrow> None)"

definition py_int :: "pyval \<Rightarrow> exn + int" where
  \<comment> \<open>\<^verbatim>\<open>int(v)\<close>; a string is a run of digits with an optional sign\<close>
  "py_int v =
     (case v of
        PInt i \<Rightarrow> Inr i
      | PBool b \<Rightarrow> Inr (if b then 1 else 0)
      | PFloat r \<Rightarrow> Inr (if r < 0 then - \<lfloor>- r\<rfloor> else \<lfloor>r\<rfloor>)
      | PStr s \<Rightarrow>
          (let t = strip s
           in if isdigit t then Inr (int (nat_of_digits t))
              else if startswith t ''-'' \<and> isdigit (tl t) then Inr (- int (nat_of_digits (tl t)))
              else if startswith t ''+'' \<and> isdigit (tl t) then Inr (int (nat_of_digits (tl t)))
              else Inl (ValueError ''invalid literal for int()''))
      | _ \<Rightarrow> Inl (TypeError ''int() argument must be a string or a number''))"

fun truthy :: "pyval \<Rightarrow> bool" where
  "truthy PNone = False"
| "truthy (PBool b) = b"
| "truthy (PInt i) = (i \<noteq> 0)"
| "truthy (PFloat r) = (r \<noteq> 0)"
| "truthy (PStr s) = (s \<noteq> [])"
| "truthy (PList xs) = (xs \<noteq> [])"
| "truthy (PDict d) = (d \<noteq> [])"

section \<open>The state outside the program\<close>

text \<open>
  The file system holds parsed documents; \<open>trace\<close> records, in order, the calls the
  program makes to the file system, the loggers, the prompt and the service manager.
  \<open>yes_answers\<close>, \<open>no_answers\<close> and \<open>upload_dirs\<close> are the class attributes
  \<^verbatim>\<open>BooleanQuestion.yes_answers\<close>, \<^verbatim>\<open>BooleanQuestion.no_answers\<close> and
  \<^verbatim>\<open>FileQuestion.upload_dirs\<close>, shared by every call in the process.
\<close>

datatype fsnode = Dir | Toml pydict | Yaml pyval | Raw string

datatype event =
    EvExists string
  | EvReadToml string
  | EvReadYaml string
  | EvWriteYaml string pydict
  | EvMkdir string
  | EvRmtree string
  | EvReadFile string
  | EvWriteFile string
  | EvLogError string
  | EvLogException exn  \<comment> \<open>\<^verbatim>\<open>logger.error(str(e))\<close>\<close>
  | EvDisplay pyval
  | EvPrompt pyval
  | EvOperationStart
  | EvOperationSuccess
  | EvReload string

record world =
  fs :: "string \<Rightarrow> fsnode option"
  trace :: "event list"
  inputs :: "string list"  \<comment> \<open>what the user will type at the next prompts\<close>
  tmp_names :: "string list"  \<comment> \<open>the names \<^verbatim>\<open>tempfile\<close> will hand out\<close>
  yes_answers :: "string list"
  no_answers :: "string list"
  upload_dirs :: "string list"
  data_to_redact :: "string list list"  \<comment> \<open>one list per \<^verbatim>\<open>OperationLogger._instances\<close>\<close>

definition emit :: "event \<Rightarrow> world \<Rightarrow> world" where
  "emit e w = w\<lparr>trace := trace w @ [e]\<rparr>"

definition initial_yes_answers :: "string list" where
  "initial_yes_answers = [''1'', ''yes'', ''y'', ''true'', ''t'', ''on'']"

definition initial_no_answers :: "string list" where
  "initial_no_answers = [''0'', ''no'', ''n'', ''false'', ''f'', ''off'']"

section \<open>Questions\<close>

subsection \<open>\<^verbatim>\<open>BooleanQuestion.normalize\<close>\<close>

definition choice_invalid :: "pyval \<Rightarrow> pyval \<Rightarrow> exn" where
  "choice_invalid nm v =
     YunohostValidationError ''app_argument_choice_invalid''
       [(''name'', nm), (''value'', v), (''choices'', PStr ''yes/no'')]"

definition BooleanQuestion_normalize ::
  "env \<Rightarrow> pyval \<Rightarrow> pydict \<Rightarrow> world \<Rightarrow> (exn + pyval) \<times> world" where
  "BooleanQuestion_normalize E val option w =
     (let val = (case val of PStr s \<Rightarrow> PStr (strip s) | _ \<Rightarrow> val);
          technical_yes = dict_get option ''yes'' (PInt 1);
          technical_no = dict_get option ''no'' (PInt 0)
      in if lower (py_str E technical_yes) \<in> set (no_answers w)
           then (Inl (AssertionError ''yes value can't be in no_answers''), w)
         else if lower (py_str E technical_no) \<in> set (yes_answers w)
           then (Inl (AssertionError ''no value can't be in yes_answers''), w)
         else
           let no_list = no_answers w @ [lower (py_str E technical_no)];
               yes_list = yes_answers w @ [lower (py_str E technical_yes)];
               w' = w\<lparr>yes_answers := yes_list, no_answers := no_list\<rparr>;
               strvalue = lower (py_str E val)
           in if strvalue \<in> set yes_list then (Inr technical_yes, w')
              else if strvalue \<in> set no_list then (Inr technical_no, w')
              else if strvalue \<in> set [''none'', ''''] then (Inr PNone, w')
              else (Inl (choice_invalid (dict_get option ''name'' PNone) (PStr strvalue)), w'))"

subsection \<open>Sequencing with exceptions\<close>

definition bindE ::
  "(exn + 'a) \<times> world \<Rightarrow> ('a \<Rightarrow> world \<Rightarrow> (exn + 'b) \<times> world) \<Rightarrow> (exn + 'b) \<times> world" where
  \<comment> \<open>run the second step unless the first one raised\<close>
  "bindE r f = (case r of (Inl e, w) \<Rightarrow> (Inl e, w) | (Inr x, w) \<Rightarrow> f x w)"

definition bindP :: "exn + 'a \<Rightarrow> ('a \<Rightarrow> exn + 'b) \<Rightarrow> exn + 'b" where
  "bindP r f = (case r of Inl e \<Rightarrow> Inl e | Inr x \<Rightarrow> f x)"

subsection \<open>The question classes\<close>

datatype qclass =
    StringQuestion | EmailQuestion | URLQuestion | DateQuestion | TimeQuestion
  | ColorQuestion | TagsQuestion | PasswordQuestion | PathQuestion | BooleanQuestion
  | DomainQuestion | UserQuestion | NumberQuestion | DisplayTextQuestion | FileQuestion

definition ARGUMENTS_TYPE_PARSERS :: "(string \<times> qclass) list" where
  "ARGUMENTS_TYPE_PARSERS =
     [(''string'', StringQuestion), (''text'', StringQuestion), (''select'', StringQuestion),
      (''tags'', TagsQuestion), (''email'', EmailQuestion), (''url'', URLQuestion),
      (''date'', DateQuestion), (''time'', TimeQuestion), (''color'', ColorQuestion),
      (''password'', PasswordQuestion), (''path'', PathQuestion),
      (''boolean'', BooleanQuestion), (''domain'', DomainQuestion), (''user'', UserQuestion),
      (''number'', NumberQuestion), (''range'', NumberQuestion),
      (''display_text'', DisplayTextQuestion), (''alert'', DisplayTextQuestion),
      (''markdown'', DisplayTextQuestion), (''file'', FileQuestion)]"

definition question_class_of :: "pyval \<Rightarrow> exn + qclass" where
  \<comment> \<open>\<^verbatim>\<open>ARGUMENTS_TYPE_PARSERS[t]\<close>\<close>
  "question_class_of t =
     (case t of
        PStr s \<Rightarrow> (case map_of ARGUMENTS_TYPE_PARSERS s of
                     None \<Rightarrow> Inl (KeyError s) | Some c \<Rightarrow> Inr c)
      | PList xs \<Rightarrow> Inl (TypeError ''unhashable type'')
      | PDict d \<Rightarrow> Inl (TypeError ''unhashable type'')
      | _ \<Rightarrow> Inl (KeyError ''type''))"

text \<open>The class attributes.\<close>

definition hide_user_input_in_prompt :: "qclass \<Rightarrow> bool" where
  "hide_user_input_in_prompt c = (c = PasswordQuestion)"

definition bsl :: string where
  \<comment> \<open>the backslash of the regular expressions\<close>
  "bsl = [CHR 0x5C]"

definition class_pattern :: "qclass \<Rightarrow> pyval" where
  "class_pattern c =
     (case c of
        EmailQuestion \<Rightarrow>
          PDict [(''regexp'', PStr ''^.+@.+''), (''error'', PStr ''config_validate_email'')]
      | URLQuestion \<Rightarrow>
          PDict [(''regexp'', PStr ''^https?://.*$''), (''error'', PStr ''config_validate_url'')]
      | DateQuestion \<Rightarrow>
          PDict [(''regexp'', PStr (''^'' @ bsl @ ''d{4}-'' @ bsl @ ''d'' @ bsl @ ''d-'' @ bsl @ ''d'' @ bsl @ ''d$'')),
                 (''error'', PStr ''config_validate_date'')]
      | TimeQuestion \<Rightarrow>
          PDict [(''regexp'', PStr (''^(1[12]|0?'' @ bsl @ ''d):[0-5]'' @ bsl @ ''d$'')),
                 (''error'', PStr ''config_validate_time'')]
      | ColorQuestion \<Rightarrow>
          PDict [(''regexp'', PStr (''^#[ABCDEFabcdef'' @ bsl @ ''d]{3,6}$'')),
                 (''error'', PStr ''config_validate_color'')]
      | _ \<Rightarrow> PNone)"

definition default_value :: "qclass \<Rightarrow> pyval" where
  \<comment> \<open>\<^verbatim>\<open>getattr(self, "default_value", None)\<close>\<close>
  "default_value c =
     (if c \<in> {StringQuestion, EmailQuestion, URLQuestion, DateQuestion, TimeQuestion,
               ColorQuestion, PasswordQuestion, PathQuestion} then PStr ''''
      else if c = BooleanQuestion then PInt 0
      else PNone)"

definition readonly :: "qclass \<Rightarrow> bool" where
  \<comment> \<open>\<^verbatim>\<open>getattr(self, "readonly", False)\<close>\<close>
  "readonly c = (c = DisplayTextQuestion)"

definition forbidden_chars :: string where
  "forbidden_chars = ''{}''"

text \<open>A question object: the attributes of \<^verbatim>\<open>Question.__init__\<close> and those its
  subclasses add (\<open>q_yes\<close>, \<open>q_no\<close> for booleans, \<open>q_min\<close>, \<open>q_max\<close>, \<open>q_step\<close> for
  numbers, \<open>q_style\<close> for display texts, \<open>q_accept\<close> for files).\<close>

record question =
  q_class :: qclass
  q_name :: pyval
  q_type :: pyval
  q_default :: pyval
  q_optional :: pyval
  q_choices :: pyval
  q_pattern :: pyval
  q_ask :: pyval
  q_help :: pyval
  q_redact :: pyval
  q_current_value :: pyval
  q_value :: pyval
  q_yes :: pyval
  q_no :: pyval
  q_min :: pyval
  q_max :: pyval
  q_step :: pyval
  q_style :: pyval
  q_accept :: pyval

definition Question_init :: "qclass \<Rightarrow> pydict \<Rightarrow> exn + question" where
  \<comment> \<open>\<^verbatim>\<open>Question.__init__\<close>\<close>
  "Question_init c question =
     bindP (dict_getitem question ''name'') (\<lambda>nm.
       let d = dict_get question ''default'' PNone
       in Inr \<lparr> q_class = c, q_name = nm,
             q_type = dict_get question ''type'' (PStr ''string''),
             q_default = (if py_eq d (PStr '''') then PNone else d),
             q_optional = dict_get question ''optional'' (PBool False),
             q_choices = dict_get question ''choices'' (PList []),
             q_pattern = dict_get question ''pattern'' (class_pattern c),
             q_ask = dict_get question ''ask'' (PDict [(''en'', nm)]),
             q_help = dict_get question ''help'' PNone,
             q_redact = dict_get question ''redact'' (PBool False),
             q_current_value = dict_get question ''current_value'' PNone,
             q_value = dict_get question ''value'' PNone,
             q_yes = PNone, q_no = PNone, q_min = PNone, q_max = PNone, q_step = PNone,
             q_style = PNone, q_accept = PNone \<rparr>)"

definition root_mail_user :: "env \<Rightarrow> string list \<Rightarrow> string option" where
  \<comment> \<open>the first user with the alias \<^verbatim>\<open>root@maindomain\<close>\<close>
  "root_mail_user E users =
     find (\<lambda>u. (''root@'' @ get_maindomain E) \<in> set (user_mail_aliases E u)) users"

definition new_question :: "env \<Rightarrow> qclass \<Rightarrow> pydict \<Rightarrow> exn + question" where
  \<comment> \<open>\<^verbatim>\<open>question_class(question)\<close>: the constructor of each class\<close>
  "new_question E c question =
     bindP (Question_init c question) (\<lambda>q.
       if c = PasswordQuestion then
         (if q_default q \<noteq> PNone
          then Inl (YunohostValidationError ''app_argument_password_no_default''
                      [(''name'', q_name q)])
          else Inr (q\<lparr>q_redact := PBool True\<rparr>))
       else if c = BooleanQuestion then
         (let q = q\<lparr>q_yes := dict_get question ''yes'' (PInt 1),
                     q_no := dict_get question ''no'' (PInt 0)\<rparr>
          in Inr (if q_default q = PNone then q\<lparr>q_default := q_no q\<rparr> else q))
       else if c = DomainQuestion then
         (let q = (if q_default q = PNone then q\<lparr>q_default := PStr (get_maindomain E)\<rparr> else q)
          in Inr (q\<lparr>q_choices := PList (map PStr (domain_list E))\<rparr>))
       else if c = UserQuestion then
         (let q = q\<lparr>q_choices := PList (map PStr (user_list E))\<rparr>
          in if user_list E = []
             then Inl (YunohostValidationError ''app_argument_invalid''
                         [(''name'', q_name q),
                          (''error'', PStr ''You should create a YunoHost user first.'')])
             else if q_default q = PNone
             then (case root_mail_user E (user_list E) of
                     None \<Rightarrow> Inr q | Some u \<Rightarrow> Inr (q\<lparr>q_default := PStr u\<rparr>))
             else Inr q)
       else if c = NumberQuestion then
         Inr (q\<lparr>q_min := dict_get question ''min'' PNone,
                q_max := dict_get question ''max'' PNone,
                q_step := dict_get question ''step'' PNone\<rparr>)
       else if c = DisplayTextQuestion then
         bindP (dict_getitem question ''type'') (\<lambda>t.
           Inr (q\<lparr>q_optional := PBool True,
                  q_style := dict_get question ''style''
                               (if py_eq t (PStr ''alert'') then PStr ''info'' else PStr '''')\<rparr>))
       else if c = FileQuestion then
         Inr (q\<lparr>q_accept := dict_get question ''accept'' (PStr '''')\<rparr>)
       else Inr q)"

definition question_dict :: "question \<Rightarrow> pydict" where
  \<comment> \<open>\<^verbatim>\<open>self.__dict__\<close>\<close>
  "question_dict q =
     [(''name'', q_name q), (''type'', q_type q), (''default'', q_default q),
      (''optional'', q_optional q), (''choices'', q_choices q), (''pattern'', q_pattern q),
      (''ask'', q_ask q), (''help'', q_help q), (''redact'', q_redact q),
      (''current_value'', q_current_value q), (''value'', q_value q)]
     @ (if q_class q = BooleanQuestion then [(''yes'', q_yes q), (''no'', q_no q)]
        else if q_class q = NumberQuestion
          then [(''min'', q_min q), (''max'', q_max q), (''step'', q_step q)]
        else if q_class q = DisplayTextQuestion then [(''style'', q_style q)]
        else if q_class q = FileQuestion then [(''accept'', q_accept q)]
        else [])"

subsection \<open>\<^verbatim>\<open>normalize\<close> and \<^verbatim>\<open>humanize\<close>\<close>

definition Question_normalize :: "pyval \<Rightarrow> pyval" where
  "Question_normalize val = (case val of PStr s \<Rightarrow> PStr (strip s) | _ \<Rightarrow> val)"

definition TagsQuestion_normalize :: "pyval \<Rightarrow> exn + pyval" where
  "TagsQuestion_normalize val =
     (case val of
        PList xs \<Rightarrow> bindP (py_join '','' (PList xs)) (\<lambda>s. Inr (PStr s))
      | PStr s \<Rightarrow> Inr (PStr (strip s))
      | _ \<Rightarrow> Inr val)"

definition PathQuestion_normalize :: "pyval \<Rightarrow> pydict \<Rightarrow> exn + pyval" where
  "PathQuestion_normalize val option =
     (case val of
        PStr s \<Rightarrow>
          (let path = PStr (''/'' @ strip_chars (\<lambda>c. c \<in> set '' /'') (strip s))
           in if strip s = [] then
                (if truthy (dict_get option ''optional'' PNone) then Inr (PStr '''')
                 else if dict_get option ''optional'' PNone = PBool False
                 then Inl (YunohostValidationError ''app_argument_invalid''
                             [(''name'', dict_get option ''name'' PNone),
                              (''error'', PStr ''Question is mandatory'')])
                 else Inr path)
              else Inr path)
      | _ \<Rightarrow> Inl (AttributeError ''strip''))"

definition DomainQuestion_normalize :: "pyval \<Rightarrow> exn + pyval" where
  "DomainQuestion_normalize val =
     (case val of
        PStr s \<Rightarrow>
          (let s = (if startswith s ''https://'' then drop (length ''https://'') s
                    else if startswith s ''http://'' then drop (length ''http://'') s
                    else s)
           in Inr (PStr (lower (rstrip_chars (\<lambda>c. c = CHR ''/'') s))))
      | _ \<Rightarrow> Inl (AttributeError ''startswith''))"

definition NumberQuestion_normalize :: "env \<Rightarrow> pyval \<Rightarrow> pydict \<Rightarrow> exn + pyval" where
  "NumberQuestion_normalize E val option =
     (case val of
        PInt i \<Rightarrow> Inr val
      | PBool b \<Rightarrow> Inr val
      | _ \<Rightarrow>
        (let val = (case val of PStr s \<Rightarrow> PStr (strip s) | _ \<Rightarrow> val)
         in case val of
              PStr s \<Rightarrow>
                (if isdigit s then Inr (PInt (int (nat_of_digits s)))
                 else if s = [] then Inr val
                 else Inl (YunohostValidationError ''app_argument_invalid''
                             [(''name'', dict_get option ''name'' PNone),
                              (''error'', PStr (m18n_n E ''invalid_number'' []))]))
            | PNone \<Rightarrow> Inr val
            | _ \<Rightarrow> Inl (YunohostValidationError ''app_argument_invalid''
                           [(''name'', dict_get option ''name'' PNone),
                            (''error'', PStr (m18n_n E ''invalid_number'' []))])))"

definition normalize ::
  "env \<Rightarrow> qclass \<Rightarrow> pyval \<Rightarrow> pydict \<Rightarrow> world \<Rightarrow> (exn + pyval) \<times> world" where
  \<comment> \<open>\<^verbatim>\<open>question_class.normalize(value, option)\<close>, by class\<close>
  "normalize E c val option w =
     (if c = TagsQuestion then (TagsQuestion_normalize val, w)
      else if c = PathQuestion then (PathQuestion_normalize val option, w)
      else if c = BooleanQuestion then BooleanQuestion_normalize E val option w
      else if c = DomainQuestion then (DomainQuestion_normalize val, w)
      else if c = NumberQuestion then (NumberQuestion_normalize E val option, w)
      else (Inr (Question_normalize val), w))"

definition BooleanQuestion_humanize ::
  "env \<Rightarrow> pyval \<Rightarrow> pydict \<Rightarrow> world \<Rightarrow> (exn + pyval) \<times> world" where
  "BooleanQuestion_humanize E val option w =
     (let yes = dict_get option ''yes'' (PInt 1);
          no = dict_get option ''no'' (PInt 0)
      in bindE (BooleanQuestion_normalize E val option w) (\<lambda>val w.
           if py_eq val yes then (Inr (PStr ''yes''), w)
           else if py_eq val no then (Inr (PStr ''no''), w)
           else if val = PNone then (Inr (PStr ''''), w)
           else (Inl (choice_invalid (dict_get option ''name'' PNone) val), w)))"

definition humanize ::
  "env \<Rightarrow> qclass \<Rightarrow> pyval \<Rightarrow> pydict \<Rightarrow> world \<Rightarrow> (exn + pyval) \<times> world" where
  \<comment> \<open>\<^verbatim>\<open>question_class.humanize(value, option)\<close>, by class\<close>
  "humanize E c val option w =
     (if c = TagsQuestion then
        (case val of
           PList xs \<Rightarrow> (bindP (py_join '','' (PList xs)) (\<lambda>s. Inr (PStr s)), w)
         | _ \<Rightarrow> (Inr val, w))
      else if c = BooleanQuestion then BooleanQuestion_humanize E val option w
      else (Inr (PStr (py_str E val)), w))"

subsection \<open>\<^verbatim>\<open>_prevalidate\<close>\<close>

definition app_argument_invalid :: "pyval \<Rightarrow> string \<Rightarrow> exn" where
  "app_argument_invalid nm err =
     YunohostValidationError ''app_argument_invalid'' [(''name'', nm), (''error'', PStr err)]"

definition check_choices :: "question \<Rightarrow> exn + unit" where
  "check_choices q =
     (if truthy (q_choices q) then
        bindP (py_in (q_value q) (q_choices q)) (\<lambda>found.
          if found then Inr ()
          else bindP (py_join '', '' (q_choices q)) (\<lambda>cs.
            Inl (YunohostValidationError ''app_argument_choice_invalid''
                   [(''name'', q_name q), (''value'', q_value q), (''choices'', PStr cs)])))
      else Inr ())"

definition check_pattern :: "env \<Rightarrow> question \<Rightarrow> exn + unit" where
  "check_pattern E q =
     (if truthy (q_pattern q) then
        (case q_pattern q of
           PDict d \<Rightarrow>
             bindP (dict_getitem d ''regexp'') (\<lambda>r.
               case r of
                 PStr regexp \<Rightarrow>
                   (if re_match E regexp (py_str E (q_value q)) then Inr ()
                    else bindP (dict_getitem d ''error'') (\<lambda>err.
                      Inl (YunohostValidationError (py_str E err)
                             [(''name'', q_name q), (''value'', q_value q)])))
               | _ \<Rightarrow> Inl (TypeError ''first argument must be string or compiled pattern''))
         | _ \<Rightarrow> Inl (TypeError ''pattern is not a mapping''))
      else Inr ())"

definition Question_prevalidate :: "env \<Rightarrow> question \<Rightarrow> exn + unit" where
  \<comment> \<open>\<^verbatim>\<open>Question._prevalidate\<close>\<close>
  "Question_prevalidate E q =
     (if is_empty_value (q_value q) \<and> \<not> truthy (q_optional q)
      then Inl (YunohostValidationError ''app_argument_required'' [(''name'', q_name q)])
      else if \<not> is_empty_value (q_value q)
      then bindP (check_choices q) (\<lambda>u. check_pattern E q)
      else Inr ())"

definition DateQuestion_prevalidate :: "env \<Rightarrow> question \<Rightarrow> exn + unit" where
  "DateQuestion_prevalidate E q =
     bindP (Question_prevalidate E q) (\<lambda>u.
       if \<not> is_empty_value (q_value q) then
         (case q_value q of
            PStr s \<Rightarrow> (if strptime_ok E s then Inr ()
                         else Inl (YunohostValidationError ''config_validate_date'' []))
          | _ \<Rightarrow> Inl (TypeError ''strptime() argument 1 must be str''))
       else Inr ())"

definition py_iter :: "pyval \<Rightarrow> exn + pyval list" where
  \<comment> \<open>the elements a \<^verbatim>\<open>for\<close> loop goes through\<close>
  "py_iter v =
     (case v of
        PList xs \<Rightarrow> Inr xs
      | PDict d \<Rightarrow> Inr (map (\<lambda>(k, x). PStr k) d)
      | PStr s \<Rightarrow> Inr (map (\<lambda>c. PStr [c]) s)
      | _ \<Rightarrow> Inl (TypeError ''object is not iterable''))"

fun Tags_each :: "env \<Rightarrow> question \<Rightarrow> pyval list \<Rightarrow> exn + unit" where
  \<comment> \<open>the loop of \<^verbatim>\<open>TagsQuestion._prevalidate\<close>: the base check on every tag\<close>
  "Tags_each E q [] = Inr ()"
| "Tags_each E q (v # vs) =
     bindP (Question_prevalidate E (q\<lparr>q_value := v\<rparr>)) (\<lambda>u. Tags_each E q vs)"

definition TagsQuestion_prevalidate :: "env \<Rightarrow> question \<Rightarrow> exn + question" where
  "TagsQuestion_prevalidate E q =
     (let vals = (case q_value q of
                    PStr s \<Rightarrow> PList (map PStr (split_on CHR '','' s))
                  | PNone \<Rightarrow> PList []
                  | v \<Rightarrow> v)
      in bindP (py_iter vals) (\<lambda>vs.
           bindP (Tags_each E q vs) (\<lambda>u. Inr (q\<lparr>q_value := vals\<rparr>))))"

definition PasswordQuestion_prevalidate :: "env \<Rightarrow> question \<Rightarrow> exn + unit" where
  "PasswordQuestion_prevalidate E q =
     bindP (Question_prevalidate E q) (\<lambda>u.
       if \<not> is_empty_value (q_value q) then
         bindP (py_in (PStr [forbidden_chars ! 0]) (q_value q)) (\<lambda>a.
           bindP (if a then Inr True else py_in (PStr [forbidden_chars ! 1]) (q_value q)) (\<lambda>b.
             if b then Inl (YunohostValidationError ''pattern_password_app''
                              [(''forbidden_chars'', PStr forbidden_chars)])
             else (case assert_password_is_strong_enough E ''user'' (q_value q) of
                     Some e \<Rightarrow> Inl e | None \<Rightarrow> Inr ())))
       else Inr ())"

definition num_less :: "pyval \<Rightarrow> pyval \<Rightarrow> exn + bool" where
  \<comment> \<open>\<^verbatim>\<open>a < b\<close> on numbers\<close>
  "num_less a b =
     (case (num_of a, num_of b) of
        (Some x, Some y) \<Rightarrow> Inr (x < y)
      | _ \<Rightarrow> Inl (TypeError ''< not supported between these instances''))"

definition NumberQuestion_prevalidate :: "env \<Rightarrow> question \<Rightarrow> exn + unit" where
  "NumberQuestion_prevalidate E q =
     bindP (Question_prevalidate E q) (\<lambda>u.
       if is_empty_value (q_value q) then Inr ()
       else
         bindP (if q_min q \<noteq> PNone
                then bindP (py_int (q_value q)) (\<lambda>i. num_less (PInt i) (q_min q))
                else Inr False) (\<lambda>too_small.
           if too_small
           then Inl (app_argument_invalid (q_name q)
                       (m18n_n E ''invalid_number_min'' [(''min'', q_min q)]))
           else
             bindP (if q_max q \<noteq> PNone
                    then bindP (py_int (q_value q)) (\<lambda>i. num_less (q_max q) (PInt i))
                    else Inr False) (\<lambda>too_big.
               if too_big
               then Inl (app_argument_invalid (q_name q)
                           (m18n_n E ''invalid_number_max'' [(''max'', q_max q)]))
               else Inr ())))"

definition path_exists :: "string \<Rightarrow> world \<Rightarrow> bool \<times> world" where
  \<comment> \<open>\<^verbatim>\<open>os.path.exists(p)\<close>\<close>
  "path_exists p w = (fs w p \<noteq> None, emit (EvExists p) w)"

definition FileQuestion_prevalidate ::
  "env \<Rightarrow> question \<Rightarrow> world \<Rightarrow> (exn + question) \<times> world" where
  "FileQuestion_prevalidate E q w =
     (let q = (if q_value q = PNone then q\<lparr>q_value := q_current_value q\<rparr> else q)
      in case Question_prevalidate E q of
           Inl e \<Rightarrow> (Inl e, w)
         | Inr u \<Rightarrow>
             if interface_type E \<noteq> ''api'' then
               (let missing = app_argument_invalid (q_name q)
                      (m18n_n E ''file_does_not_exist'' [(''path'', PStr (py_str E (q_value q)))])
                in if \<not> truthy (q_value q) then (Inl missing, w)
                   else (case path_exists (py_str E (q_value q)) w of
                           (found, w') \<Rightarrow> if found then (Inr q, w') else (Inl missing, w')))
             else (Inr q, w))"

definition prevalidate :: "env \<Rightarrow> question \<Rightarrow> world \<Rightarrow> (exn + question) \<times> world" where
  \<comment> \<open>\<^verbatim>\<open>self._prevalidate()\<close>, by class; it may change \<^verbatim>\<open>self.value\<close>\<close>
  "prevalidate E q w =
     (if q_class q = DateQuestion then (bindP (DateQuestion_prevalidate E q) (\<lambda>u. Inr q), w)
      else if q_class q = TagsQuestion then (TagsQuestion_prevalidate E q, w)
      else if q_class q = PasswordQuestion
        then (bindP (PasswordQuestion_prevalidate E q) (\<lambda>u. Inr q), w)
      else if q_class q = NumberQuestion
        then (bindP (NumberQuestion_prevalidate E q) (\<lambda>u. Inr q), w)
      else if q_class q = FileQuestion then FileQuestion_prevalidate E q w
      else (bindP (Question_prevalidate E q) (\<lambda>u. Inr q), w))"

subsection \<open>Prompting\<close>

definition str_add :: "pyval \<Rightarrow> string \<Rightarrow> exn + pyval" where
  \<comment> \<open>\<^verbatim>\<open>text += s\<close>\<close>
  "str_add text s =
     (case text of PStr t \<Rightarrow> Inr (PStr (t @ s))
      | _ \<Rightarrow> Inl (TypeError ''unsupported operand type(s) for +=''))"

definition Question_format_text :: "env \<Rightarrow> question \<Rightarrow> exn + pyval" where
  \<comment> \<open>\<^verbatim>\<open>Question._format_text_for_user_input_in_cli\<close>\<close>
  "Question_format_text E q =
     (let text = value_for_locale E (q_ask q)
      in if truthy (q_choices q) then
           bindP (case q_choices q of
                    PDict d \<Rightarrow> Inr (map snd d)
                  | PList xs \<Rightarrow> Inr xs
                  | PStr s \<Rightarrow> (if length s \<le> 20 then Inr (map (\<lambda>c. PStr [c]) s)
                                else Inl (TypeError ''can only concatenate str to str''))
                  | _ \<Rightarrow> Inl (TypeError ''object is not subscriptable'')) (\<lambda>choices.
             let remaining_choices = length (drop 20 choices);
                 choices_to_display = take 20 choices
                   @ (if remaining_choices > 0
                      then [PStr (m18n_n E ''other_available_options''
                                    [(''n'', PInt (int remaining_choices))])]
                      else [])
             in bindP (py_join '' | '' (PList choices_to_display)) (\<lambda>shown.
                  str_add text ('' ['' @ shown @ '']'')))
         else Inr text)"

definition DisplayTextQuestion_format_text :: "env \<Rightarrow> question \<Rightarrow> exn + pyval" where
  "DisplayTextQuestion_format_text E q =
     (let text = value_for_locale E (q_ask q);
          colors = [(''success'', ''green''), (''info'', ''cyan''), (''warning'', ''yellow''),
                    (''danger'', ''red'')]
      in case q_style q of
           PStr style \<Rightarrow>
             (case map_of colors style of
                Some color \<Rightarrow>
                  (let prompt = (if style \<noteq> ''danger'' then m18n_g E style
                                 else m18n_n E ''danger'' [])
                   in Inr (PStr (colorize E prompt color @ '' '' @ py_str E text)))
              | None \<Rightarrow> Inr text)
         | _ \<Rightarrow> Inr text)"

definition format_text_for_user_input_in_cli :: "env \<Rightarrow> question \<Rightarrow> exn + pyval" where
  "format_text_for_user_input_in_cli E q =
     (if q_class q = BooleanQuestion
      then bindP (Question_format_text E q) (\<lambda>text. str_add text '' [yes | no]'')
      else if q_class q = DisplayTextQuestion then DisplayTextQuestion_format_text E q
      else Question_format_text E q)"

definition Moulinette_prompt :: "pyval \<Rightarrow> world \<Rightarrow> (exn + string) \<times> world" where
  \<comment> \<open>the next line the user types; at the end of the input the prompt raises\<close>
  "Moulinette_prompt text w =
     (case inputs w of
        [] \<Rightarrow> (Inl EOFError, emit (EvPrompt text) w)
      | x # xs \<Rightarrow> (Inr x, (emit (EvPrompt text) w)\<lparr>inputs := xs\<rparr>))"

definition Question_prompt ::
  "env \<Rightarrow> question \<Rightarrow> pyval \<Rightarrow> world \<Rightarrow> (exn + question) \<times> world" where
  \<comment> \<open>\<^verbatim>\<open>Question._prompt\<close>\<close>
  "Question_prompt E q text w =
     bindE (if q_current_value q \<noteq> PNone
              then humanize E (q_class q) (q_current_value q) (question_dict q) w
            else if q_default q \<noteq> PNone
              then humanize E (q_class q) (q_default q) (question_dict q) w
            else (Inr (PStr ''''), w)) (\<lambda>prefill w.
       bindE (Moulinette_prompt text w) (\<lambda>answer w.
         (Inr (q\<lparr>q_value := PStr answer\<rparr>), w)))"

subsection \<open>\<^verbatim>\<open>_post_parse_value\<close>\<close>

definition redactable :: "pyval \<Rightarrow> string list" where
  \<comment> \<open>\<^verbatim>\<open>[v] if v and isinstance(v, str) else []\<close>\<close>
  "redactable v = (case v of PStr s \<Rightarrow> (if s \<noteq> [] then [s] else []) | _ \<Rightarrow> [])"

definition Question_post_parse_value :: "env \<Rightarrow> question \<Rightarrow> world \<Rightarrow> pyval \<times> world" where
  "Question_post_parse_value E q w =
     (if \<not> truthy (q_redact q) then (q_value q, w)
      else
        let plain = redactable (q_value q) @ redactable (q_current_value q);
            data = plain @ map (quote E) (filter (\<lambda>d. quote E d \<noteq> d) plain)
        in (q_value q, w\<lparr>data_to_redact := map (\<lambda>l. l @ data) (data_to_redact w)\<rparr>))"

definition read_file :: "string \<Rightarrow> world \<Rightarrow> (exn + string) \<times> world" where
  \<comment> \<open>only a file of raw content can be read as such\<close>
  "read_file p w =
     (case fs w p of
        Some (Raw content) \<Rightarrow> (Inr content, emit (EvReadFile p) w)
      | _ \<Rightarrow> (Inl (MoulinetteError ''file_not_exist''), emit (EvReadFile p) w))"

definition FileQuestion_post_parse_value ::
  "env \<Rightarrow> question \<Rightarrow> world \<Rightarrow> (exn + pyval) \<times> world" where
  "FileQuestion_post_parse_value E q w =
     (if \<not> truthy (q_value q) then (Inr (q_value q), w)
      else
        (case tmp_names w of
           [] \<Rightarrow> (Inl (OSError ''mkdtemp''), w)
         | [d] \<Rightarrow> (Inl (OSError ''mkstemp''),
                    (emit (EvMkdir d) w)\<lparr>tmp_names := [], fs := (fs w)(d \<mapsto> Dir)\<rparr>)
         | d # f # rest \<Rightarrow>
             (let upload_dir = d;
                  file_path = d @ ''/'' @ f;
                  w = (emit (EvMkdir d) w)
                        \<lparr>tmp_names := rest,
                         fs := (fs w)(upload_dir \<mapsto> Dir, file_path \<mapsto> Raw ''''),
                         upload_dirs := upload_dirs w @ [upload_dir]\<rparr>
              in bindE (if interface_type E \<noteq> ''api''
                        then read_file (py_str E (q_value q)) w
                        else (b64decode E (q_value q), w)) (\<lambda>content w.
                   (Inr (PStr file_path),
                    (emit (EvWriteFile file_path) w)
                      \<lparr>fs := (fs w)(file_path \<mapsto> Raw content)\<rparr>)))))"

definition post_parse_value :: "env \<Rightarrow> question \<Rightarrow> world \<Rightarrow> (exn + pyval) \<times> world" where
  \<comment> \<open>\<^verbatim>\<open>self._post_parse_value()\<close>, by class\<close>
  "post_parse_value E q w =
     (if q_class q = FileQuestion then FileQuestion_post_parse_value E q w
      else if q_class q = TagsQuestion then
        (case (case q_value q of
                 PList xs \<Rightarrow> bindP (py_join '','' (PList xs)) (\<lambda>s. Inr (PStr s))
               | v \<Rightarrow> Inr v) of
           Inl e \<Rightarrow> (Inl e, w)
         | Inr v \<Rightarrow> (case Question_post_parse_value E (q\<lparr>q_value := v\<rparr>) w of
                       (v', w') \<Rightarrow> (Inr v', w')))
      else (case Question_post_parse_value E q w of (v, w') \<Rightarrow> (Inr v, w')))"

subsection \<open>The resolution loop\<close>

definition interactive :: "env \<Rightarrow> bool" where
  \<comment> \<open>\<^verbatim>\<open>Moulinette.interface.type == "cli" and os.isatty(1)\<close>\<close>
  "interactive E = (interface_type E = ''cli'' \<and> isatty E)"

definition display_or_prompt ::
  "env \<Rightarrow> question \<Rightarrow> world \<Rightarrow> (exn + question) \<times> world" where
  \<comment> \<open>display the question if no value is filled or if it is a read-only message\<close>
  "display_or_prompt E q w =
     (if interactive E then
        (case format_text_for_user_input_in_cli E q of
           Inl e \<Rightarrow> (Inl e, w)
         | Inr text \<Rightarrow>
             if readonly (q_class q) then (Inr q, emit (EvDisplay text) w)
             else if q_value q = PNone then Question_prompt E q text w
             else (Inr q, w))
      else (Inr q, w))"

definition apply_default :: "question \<Rightarrow> question" where
  "apply_default q =
     (let class_default = default_value (q_class q)
      in if is_empty_value (q_value q) \<and> (q_default q \<noteq> PNone \<or> class_default \<noteq> PNone)
         then q\<lparr>q_value := (if q_default q = PNone then class_default else q_default q)\<rparr>
         else q)"

definition normalize_and_validate ::
  "env \<Rightarrow> question \<Rightarrow> world \<Rightarrow> (exn + question) \<times> world" where
  \<comment> \<open>the body of the \<^verbatim>\<open>try\<close>\<close>
  "normalize_and_validate E q w =
     bindE (normalize E (q_class q) (q_value q) (question_dict q) w) (\<lambda>v w.
       prevalidate E (q\<lparr>q_value := v\<rparr>) w)"

fun ask_attempts ::
  "env \<Rightarrow> nat list \<Rightarrow> question \<Rightarrow> world \<Rightarrow> (exn + question) \<times> world" where
  \<comment> \<open>\<^verbatim>\<open>for i in range(5)\<close>, with \<^verbatim>\<open>continue\<close>, \<^verbatim>\<open>raise\<close> and \<^verbatim>\<open>break\<close>\<close>
  "ask_attempts E [] q w = (Inr q, w)"
| "ask_attempts E (i # rest) q w =
     (case display_or_prompt E q w of
        (Inl e, w1) \<Rightarrow> (Inl e, w1)
      | (Inr q1, w1) \<Rightarrow>
          (let q2 = apply_default q1
           in case normalize_and_validate E q2 w1 of
                (Inr q3, w2) \<Rightarrow> (Inr q3, w2)
              | (Inl e, w2) \<Rightarrow>
                  if is_YunohostValidationError e \<and> i < 4 \<and> interactive E
                  then ask_attempts E rest (q2\<lparr>q_value := PNone\<rparr>) (emit (EvLogException e) w2)
                  else (Inl e, w2)))"

definition ask_if_needed :: "env \<Rightarrow> question \<Rightarrow> world \<Rightarrow> (exn + question) \<times> world" where
  "ask_if_needed E q w =
     bindE (ask_attempts E [0 ..< 5] q w) (\<lambda>q w.
       bindE (post_parse_value E q w) (\<lambda>v w. (Inr (q\<lparr>q_value := v\<rparr>), w)))"

subsection \<open>\<^verbatim>\<open>ask_questions_and_parse_answers\<close>\<close>

definition prefilled_get :: "pyval \<Rightarrow> pydict \<Rightarrow> exn + pyval" where
  \<comment> \<open>\<^verbatim>\<open>prefilled_answers.get(question["name"])\<close>: the method is looked up first,
      then the name\<close>
  "prefilled_get answers question =
     (case answers of
        PDict d \<Rightarrow>
          bindP (dict_getitem question ''name'') (\<lambda>nm.
            case nm of
              PStr k \<Rightarrow> Inr (dict_get d k PNone)
            | PList xs \<Rightarrow> Inl (TypeError ''unhashable type'')
            | PDict e \<Rightarrow> Inl (TypeError ''unhashable type'')
            | _ \<Rightarrow> Inr PNone)
      | _ \<Rightarrow> Inl (AttributeError ''get''))"

definition ask_one :: "env \<Rightarrow> pyval \<Rightarrow> pyval \<Rightarrow> world \<Rightarrow> (exn + question) \<times> world" where
  \<comment> \<open>the body of the loop over the questions\<close>
  "ask_one E answers question w =
     (case question of
        PDict d \<Rightarrow>
          (case bindP (question_class_of (dict_get d ''type'' (PStr ''string''))) (\<lambda>c.
                  bindP (prefilled_get answers d) (\<lambda>v.
                    new_question E c (dict_set d ''value'' v))) of
             Inl e \<Rightarrow> (Inl e, w)
           | Inr q \<Rightarrow> ask_if_needed E q w)
      | _ \<Rightarrow> (Inl (AttributeError ''get''), w))"

fun ask_each ::
  "env \<Rightarrow> pyval \<Rightarrow> pyval list \<Rightarrow> world \<Rightarrow> (exn + question list) \<times> world" where
  "ask_each E answers [] w = (Inr [], w)"
| "ask_each E answers (question # rest) w =
     bindE (ask_one E answers question w) (\<lambda>q w.
       bindE (ask_each E answers rest w) (\<lambda>out w. (Inr (q # out), w)))"

definition ask_questions_and_parse_answers ::
  "env \<Rightarrow> pyval \<Rightarrow> pyval \<Rightarrow> world \<Rightarrow> (exn + question list) \<times> world" where
  "ask_questions_and_parse_answers E questions prefilled_answers w =
     (let answers = (case prefilled_answers of
                       PStr s \<Rightarrow> PDict (dict_update [] (map (\<lambda>(k, v). (k, PStr v)) (parse_qsl E s)))
                     | a \<Rightarrow> a);
          answers = (if \<not> truthy answers then PDict [] else answers)
      in case py_iter questions of
           Inl e \<Rightarrow> (Inl e, w)
         | Inr qs \<Rightarrow> ask_each E answers qs w)"

section \<open>The configuration panel\<close>

text \<open>
  A \<^verbatim>\<open>ConfigPanel\<close> object.  \<open>save_mode\<close> and \<open>app\<close> are attributes that
  \<^verbatim>\<open>ConfigPanel.__init__\<close> does not set: they are \<open>None\<close> where the object has no such
  attribute, as on every object the constructor has just built, and \<open>Some\<close> once
  something (a subclass, the caller) has set them.  \<^verbatim>\<open>_apply\<close> reads \<^verbatim>\<open>self.save_mode\<close>
  and \<^verbatim>\<open>_reload_services\<close> tests \<^verbatim>\<open>hasattr(self, "app")\<close>.  The object is not observed
  after one of its methods has raised, so a method returns the updated object only when
  it returns.
\<close>

record ConfigPanel =
  config_path :: string
  save_path :: "string option"
  config :: pydict
  cp_values :: pydict
  new_values :: pydict
  filter_key :: string
  args :: pydict
  save_mode :: "string option"
  app :: "string option"

definition ConfigPanel_init :: "string \<Rightarrow> string option \<Rightarrow> ConfigPanel" where
  \<comment> \<open>\<^verbatim>\<open>ConfigPanel.__init__(config_path, save_path=None)\<close>; \<open>filter_key\<close> and \<open>args\<close>
      are set by \<^verbatim>\<open>get\<close> and \<^verbatim>\<open>set\<close> before they are read\<close>
  "ConfigPanel_init cpath spath =
     \<lparr> config_path = cpath, save_path = spath, config = [], cp_values = [], new_values = [],
       filter_key = '''', args = [], save_mode = None, app = None \<rparr>"

definition CONFIG_PANEL_VERSION_SUPPORTED :: rat where
  "CONFIG_PANEL_VERSION_SUPPORTED = 1"

subsection \<open>The schema loader\<close>

datatype level = Root | Panels | Sections | Options

definition level_name :: "level \<Rightarrow> string" where
  "level_name l = (case l of Root \<Rightarrow> ''root'' | Panels \<Rightarrow> ''panels''
                   | Sections \<Rightarrow> ''sections'' | Options \<Rightarrow> ''options'')"

definition level_index :: "level \<Rightarrow> nat" where
  \<comment> \<open>\<^verbatim>\<open>list(format_description).index(level)\<close>\<close>
  "level_index l = (case l of Root \<Rightarrow> 0 | Panels \<Rightarrow> 1 | Sections \<Rightarrow> 2 | Options \<Rightarrow> 3)"

definition sublevel :: "level \<Rightarrow> level option" where
  "sublevel l = (case l of Root \<Rightarrow> Some Panels | Panels \<Rightarrow> Some Sections
                 | Sections \<Rightarrow> Some Options | Options \<Rightarrow> None)"

definition properties :: "level \<Rightarrow> string list" where
  \<comment> \<open>\<^verbatim>\<open>format_description[level]["properties"]\<close>\<close>
  "properties l =
     (case l of
        Root \<Rightarrow> [''version'', ''i18n'']
      | Panels \<Rightarrow> [''name'', ''services'', ''actions'', ''help'']
      | Sections \<Rightarrow> [''name'', ''services'', ''optional'', ''help'', ''visible'']
      | Options \<Rightarrow>
          [''ask'', ''type'', ''bind'', ''help'', ''example'', ''default'', ''style'', ''icon'',
           ''placeholder'', ''visible'', ''optional'', ''choices'', ''yes'', ''no'', ''pattern'',
           ''limit'', ''min'', ''max'', ''step'', ''accept'', ''redact''])"

definition defaults :: "level \<Rightarrow> pydict" where
  \<comment> \<open>\<^verbatim>\<open>format_description[level]["defaults"]\<close>\<close>
  "defaults l =
     (case l of
        Root \<Rightarrow> [(''version'', PFloat 1)]
      | Panels \<Rightarrow>
          [(''services'', PList []),
           (''actions'', PDict [(''apply'', PDict [(''en'', PStr ''Apply'')])])]
      | Sections \<Rightarrow>
          [(''name'', PStr ''''), (''services'', PList []), (''optional'', PBool True)]
      | Options \<Rightarrow> [])"

definition append_child :: "pydict \<Rightarrow> string \<Rightarrow> pyval \<Rightarrow> exn + pydict" where
  \<comment> \<open>\<^verbatim>\<open>out.setdefault(sublevel, []).append(subnode)\<close>\<close>
  "append_child out k node =
     (case map_of out k of
        None \<Rightarrow> Inr (out @ [(k, PList [node])])
      | Some (PList xs) \<Rightarrow> Inr (dict_set out k (PList (xs @ [node])))
      | Some v \<Rightarrow> Inl (AttributeError ''append''))"

definition search_key :: "string list \<Rightarrow> level \<Rightarrow> string" where
  \<comment> \<open>\<^verbatim>\<open>filter_key[i] if len(filter_key) > i else False\<close>; it is only tested for truth
      and compared with a key, so the empty string stands for \<^verbatim>\<open>False\<close> as well\<close>
  "search_key fk l = (if length fk > level_index l then fk ! level_index l else '''')"

definition finish_subnode :: "level \<Rightarrow> pydict \<Rightarrow> string \<Rightarrow> pydict \<Rightarrow> pydict" where
  \<comment> \<open>what the loop adds to a child it has built\<close>
  "finish_subnode l raw_infos key subnode =
     (let subnode = dict_set subnode ''id'' (PStr key)
      in if l = Root
           then dict_setdefault subnode ''name'' (PDict [(''en'', PStr (capitalize key))])
         else if l = Sections
           then dict_setdefault (dict_set subnode ''name'' (PStr key)) ''optional''
                  (dict_get raw_infos ''optional'' (PBool True))
         else subnode)"

definition set_property :: "pydict \<Rightarrow> string \<Rightarrow> pyval \<Rightarrow> pydict" where
  "set_property out key val =
     dict_set out key (if key \<notin> set [''ask'', ''help'', ''name''] then val
                       else PDict [(''en'', val)])"

function build_internal_config_panel ::
    "string list \<Rightarrow> level \<Rightarrow> pydict \<Rightarrow> exn + pydict"
  and build_children ::
    "string list \<Rightarrow> level \<Rightarrow> pydict \<Rightarrow> pydict \<Rightarrow> pydict \<Rightarrow> exn + pydict"
where
  "build_internal_config_panel fk l raw_infos =
     build_children fk l raw_infos raw_infos
       (map (\<lambda>(key, val). (key, dict_get raw_infos key val)) (defaults l))"
| "build_children fk l raw_infos [] out = Inr out"
| "build_children fk l raw_infos ((key, val) # rest) out =
     (case val of
        PDict sub_infos \<Rightarrow>
          (case sublevel l of
             Some sub \<Rightarrow>
               if key \<notin> set (properties l) then
                 (if search_key fk l \<noteq> '''' \<and> key \<noteq> search_key fk l
                  then build_children fk l raw_infos rest out
                  else
                    (case build_internal_config_panel fk sub sub_infos of
                       Inl e \<Rightarrow> Inl e
                     | Inr subnode \<Rightarrow>
                         (case append_child out (level_name sub)
                                 (PDict (finish_subnode l raw_infos key subnode)) of
                            Inl e \<Rightarrow> Inl e
                          | Inr out' \<Rightarrow> build_children fk l raw_infos rest out')))
               else build_children fk l raw_infos rest (set_property out key val)
           | None \<Rightarrow> build_children fk l raw_infos rest (set_property out key val))
      | _ \<Rightarrow> build_children fk l raw_infos rest (set_property out key val))"
  by pat_completeness auto
termination
  by (relation "measure (\<lambda>x. case x of
        Inl (fk, l, raw_infos) \<Rightarrow> 2 * size (PDict raw_infos) + 1
      | Inr (fk, l, raw_infos, items, out) \<Rightarrow> 2 * size (PDict items))") auto

definition py_float :: "env \<Rightarrow> pyval \<Rightarrow> exn + rat" where
  \<comment> \<open>\<^verbatim>\<open>float(v)\<close>\<close>
  "py_float E v =
     (case v of
        PFloat r \<Rightarrow> Inr r
      | PInt i \<Rightarrow> Inr (of_int i)
      | PBool b \<Rightarrow> Inr (if b then 1 else 0)
      | PStr s \<Rightarrow> (case float_of_str E s of
                     None \<Rightarrow> Inl (ValueError ''could not convert string to float'')
                   | Some r \<Rightarrow> Inr r)
      | _ \<Rightarrow> Inl (TypeError ''float() argument must be a string or a number''))"

definition subscript_key :: "pyval \<Rightarrow> string \<Rightarrow> exn + pyval" where
  \<comment> \<open>\<^verbatim>\<open>v[k]\<close> for a string \<^verbatim>\<open>k\<close>\<close>
  "subscript_key v k =
     (case v of
        PDict d \<Rightarrow> dict_getitem d k
      | PStr s \<Rightarrow> Inl (TypeError ''string indices must be integers'')
      | PList xs \<Rightarrow> Inl (TypeError ''list indices must be integers or slices'')
      | _ \<Rightarrow> Inl (TypeError ''object is not subscriptable''))"

definition subscript_0 :: "pyval \<Rightarrow> exn + pyval" where
  \<comment> \<open>\<^verbatim>\<open>v[0]\<close>\<close>
  "subscript_0 v =
     (case v of
        PList xs \<Rightarrow> (case xs of [] \<Rightarrow> Inl IndexError | x # r \<Rightarrow> Inr x)
      | PStr s \<Rightarrow> (case s of [] \<Rightarrow> Inl IndexError | c # r \<Rightarrow> Inr (PStr [c]))
      | PDict d \<Rightarrow> Inl (KeyError ''0'')
      | _ \<Rightarrow> Inl (TypeError ''object is not subscriptable''))"

definition first_option :: "pydict \<Rightarrow> exn + pyval" where
  \<comment> \<open>\<^verbatim>\<open>self.config["panels"][0]["sections"][0]["options"][0]\<close>\<close>
  "first_option cfg =
     bindP (dict_getitem cfg ''panels'') (\<lambda>ps. bindP (subscript_0 ps) (\<lambda>p.
       bindP (subscript_key p ''sections'') (\<lambda>ss. bindP (subscript_0 ss) (\<lambda>s.
         bindP (subscript_key s ''options'') (\<lambda>os. subscript_0 os)))))"

definition forbidden_keywords :: "string list" where
  \<comment> \<open>the last two are the keys of \<^verbatim>\<open>format_description["sections"]\<close>, which is what
      \<^verbatim>\<open>+=\<close> of a dictionary appends\<close>
  "forbidden_keywords =
     [''old'', ''app'', ''changed'', ''file_hash'', ''binds'', ''types'', ''formats'',
      ''getter'', ''setter'', ''short_setting'', ''type'', ''bind'', ''nothing_changed'',
      ''changes_validated'', ''result'', ''max_progression'']
     @ [''properties'', ''defaults'']"

subsection \<open>\<^verbatim>\<open>_iterate\<close>\<close>

text \<open>
  The generator yields triples of nodes; \<open>it_path\<close> is the place of the node in the
  tree (the indices of its panel, section and option).  The generator may raise after
  it has yielded some items: the second component of the result is that exception.
\<close>

record item =
  it_panel :: pyval
  it_section :: pyval
  it_obj :: pyval
  it_path :: "nat \<times> nat \<times> nat"

definition py_get :: "pyval \<Rightarrow> string \<Rightarrow> pyval \<Rightarrow> exn + pyval" where
  \<comment> \<open>\<^verbatim>\<open>obj.get(k, default)\<close>\<close>
  "py_get obj k dflt =
     (case obj of PDict d \<Rightarrow> Inr (dict_get d k dflt) | _ \<Rightarrow> Inl (AttributeError ''get''))"

fun iterate_options :: "pyval \<Rightarrow> pyval \<Rightarrow> nat \<Rightarrow> nat \<Rightarrow> nat \<Rightarrow> pyval list \<Rightarrow> item list" where
  "iterate_options panel section pidx sidx oidx [] = []"
| "iterate_options panel section pidx sidx oidx (option # rest) =
     \<lparr> it_panel = panel, it_section = section, it_obj = option, it_path = (pidx, sidx, oidx) \<rparr>
     # iterate_options panel section pidx sidx (Suc oidx) rest"

fun iterate_sections ::
  "string list \<Rightarrow> pyval \<Rightarrow> nat \<Rightarrow> nat \<Rightarrow> pyval list \<Rightarrow> item list \<times> exn option" where
  "iterate_sections trigger panel pidx sidx [] = ([], None)"
| "iterate_sections trigger panel pidx sidx (section # rest) =
     (let here = (if ''section'' \<in> set trigger
                  then [\<lparr> it_panel = panel, it_section = section, it_obj = section,
                          it_path = (pidx, sidx, 0) \<rparr>]
                  else [])
      in if ''option'' \<in> set trigger then
           (case bindP (py_get section ''options'' (PList [])) py_iter of
              Inl e \<Rightarrow> (here, Some e)
            | Inr opts \<Rightarrow>
                (case iterate_sections trigger panel pidx (Suc sidx) rest of
                   (later, err) \<Rightarrow>
                     (here @ iterate_options panel section pidx sidx 0 opts @ later, err)))
         else (case iterate_sections trigger panel pidx (Suc sidx) rest of
                 (later, err) \<Rightarrow> (here @ later, err)))"

fun iterate_panels ::
  "string list \<Rightarrow> nat \<Rightarrow> pyval list \<Rightarrow> item list \<times> exn option" where
  "iterate_panels trigger pidx [] = ([], None)"
| "iterate_panels trigger pidx (panel # rest) =
     (let here = (if ''panel'' \<in> set trigger
                  then [\<lparr> it_panel = panel, it_section = PNone, it_obj = panel,
                          it_path = (pidx, 0, 0) \<rparr>]
                  else [])
      in case bindP (py_get panel ''sections'' (PList [])) py_iter of
           Inl e \<Rightarrow> (here, Some e)
         | Inr secs \<Rightarrow>
             (case iterate_sections trigger panel pidx 0 secs of
                (items, Some e) \<Rightarrow> (here @ items, Some e)
              | (items, None) \<Rightarrow>
                  (case iterate_panels trigger (Suc pidx) rest of
                     (later, err) \<Rightarrow> (here @ items @ later, err))))"

definition iterate :: "string list \<Rightarrow> pydict \<Rightarrow> item list \<times> exn option" where
  \<comment> \<open>\<^verbatim>\<open>self._iterate(trigger)\<close>\<close>
  "iterate trigger cfg =
     (case py_iter (dict_get cfg ''panels'' (PList [])) of
        Inl e \<Rightarrow> ([], Some e)
      | Inr panels \<Rightarrow> iterate_panels trigger 0 panels)"

definition upd_key :: "string \<Rightarrow> (pyval \<Rightarrow> pyval) \<Rightarrow> pyval \<Rightarrow> pyval" where
  "upd_key k f v =
     (case v of
        PDict d \<Rightarrow> (case map_of d k of None \<Rightarrow> v | Some x \<Rightarrow> PDict (dict_set d k (f x)))
      | _ \<Rightarrow> v)"

definition upd_nth :: "nat \<Rightarrow> (pyval \<Rightarrow> pyval) \<Rightarrow> pyval \<Rightarrow> pyval" where
  "upd_nth n f v =
     (case v of
        PList xs \<Rightarrow> (if n < length xs then PList (xs[n := f (xs ! n)]) else v)
      | _ \<Rightarrow> v)"

definition update_option :: "pydict \<Rightarrow> nat \<times> nat \<times> nat \<Rightarrow> pyval \<Rightarrow> pydict" where
  \<comment> \<open>the option at a path is replaced: the in-place change of a yielded option\<close>
  "update_option cfg path option =
     (case path of
        (pidx, sidx, oidx) \<Rightarrow>
          (case upd_key ''panels'' (upd_nth pidx (upd_key ''sections''
                  (upd_nth sidx (upd_key ''options'' (upd_nth oidx (\<lambda>old. option)))))) (PDict cfg) of
             PDict cfg' \<Rightarrow> cfg'
           | _ \<Rightarrow> cfg))"

subsection \<open>\<^verbatim>\<open>_get_config_panel\<close>\<close>

definition read_toml :: "string \<Rightarrow> world \<Rightarrow> (exn + pydict) \<times> world" where
  "read_toml p w =
     (case fs w p of
        Some (Toml d) \<Rightarrow> (Inr d, emit (EvReadToml p) w)
      | _ \<Rightarrow> (Inl (MoulinetteError ''corrupted_toml''), emit (EvReadToml p) w))"

fun check_forbidden :: "item list \<Rightarrow> exn option \<Rightarrow> exn + unit" where
  \<comment> \<open>the loop over the options that looks for a forbidden keyword\<close>
  "check_forbidden [] err = (case err of None \<Rightarrow> Inr () | Some e \<Rightarrow> Inl e)"
| "check_forbidden (it # rest) err =
     bindP (subscript_key (it_obj it) ''id'') (\<lambda>ident.
       if py_in_list ident (map PStr forbidden_keywords)
       then Inl (YunohostError ''config_forbidden_keyword'' [(''keyword'', ident)])
       else check_forbidden rest err)"

definition check_version :: "env \<Rightarrow> pydict \<Rightarrow> exn + unit" where
  \<comment> \<open>the check that the panel is in a supported version\<close>
  "check_version E toml_config_panel =
     bindP (dict_getitem toml_config_panel ''version'') (\<lambda>v.
       bindP (py_float E v) (\<lambda>r.
         if r < CONFIG_PANEL_VERSION_SUPPORTED
         then Inl (YunohostError ''config_version_not_supported'' [(''version'', v)])
         else Inr ()))"

definition load_schema :: "env \<Rightarrow> string \<Rightarrow> pydict \<Rightarrow> exn + pydict" where
  \<comment> \<open>\<^verbatim>\<open>_get_config_panel\<close> from the parsed document on: version check, internal format,
      first option reachable, forbidden keywords\<close>
  "load_schema E fkey toml_config_panel =
     (let fk = (if fkey \<noteq> '''' then split_on CHR ''.'' fkey else [])
      in bindP (check_version E toml_config_panel) (\<lambda>u.
           bindP (build_internal_config_panel fk Root toml_config_panel) (\<lambda>cfg.
             bindP (case first_option cfg of
                      Inl (KeyError k) \<Rightarrow>
                        Inl (YunohostValidationError ''config_unknown_filter_key''
                               [(''filter_key'', PStr fkey)])
                    | Inl IndexError \<Rightarrow>
                        Inl (YunohostValidationError ''config_unknown_filter_key''
                               [(''filter_key'', PStr fkey)])
                    | Inl e \<Rightarrow> Inl e
                    | Inr opt \<Rightarrow> Inr ()) (\<lambda>u.
               case iterate [''option''] cfg of
                 (items, err) \<Rightarrow> bindP (check_forbidden items err) (\<lambda>u. Inr cfg)))))"

definition get_config_panel ::
  "env \<Rightarrow> ConfigPanel \<Rightarrow> world \<Rightarrow> (exn + ConfigPanel) \<times> world" where
  \<comment> \<open>\<^verbatim>\<open>ConfigPanel._get_config_panel\<close>; where the file does not exist the object is
      left as it is\<close>
  "get_config_panel E self w =
     (let fk = (if filter_key self \<noteq> '''' then split_on CHR ''.'' (filter_key self) else [])
      in if length fk > 3
         then (Inl (YunohostError
                      ''The filter key has too many sub-levels, the max is 3.''
                      [(''filter_key'', PList (map PStr fk))]), w)
         else
           (case path_exists (config_path self) w of
              (found, w) \<Rightarrow>
                if \<not> found then (Inr self, w)
                else bindE (read_toml (config_path self) w) (\<lambda>toml_config_panel w.
                       case load_schema E (filter_key self) toml_config_panel of
                         Inl e \<Rightarrow> (Inl e, w)
                       | Inr cfg \<Rightarrow> (Inr (self\<lparr>config := cfg\<rparr>), w))))"

subsection \<open>Values\<close>

definition dict_contains :: "pydict \<Rightarrow> pyval \<Rightarrow> exn + bool" where
  \<comment> \<open>\<^verbatim>\<open>k in d\<close>\<close>
  "dict_contains d k =
     (case k of
        PStr s \<Rightarrow> Inr (s \<in> set (map fst d))
      | PList xs \<Rightarrow> Inl (TypeError ''unhashable type'')
      | PDict e \<Rightarrow> Inl (TypeError ''unhashable type'')
      | _ \<Rightarrow> Inr False)"

definition dict_subscript :: "pydict \<Rightarrow> pyval \<Rightarrow> exn + pyval" where
  \<comment> \<open>\<^verbatim>\<open>d[k]\<close> for any key\<close>
  "dict_subscript d k =
     (case k of
        PStr s \<Rightarrow> dict_getitem d s
      | PList xs \<Rightarrow> Inl (TypeError ''unhashable type'')
      | PDict e \<Rightarrow> Inl (TypeError ''unhashable type'')
      | _ \<Rightarrow> Inl (KeyError ''key''))"

fun default_values_of :: "item list \<Rightarrow> exn option \<Rightarrow> pydict \<Rightarrow> exn + pydict" where
  "default_values_of [] err acc = (case err of None \<Rightarrow> Inr acc | Some e \<Rightarrow> Inl e)"
| "default_values_of (it # rest) err acc =
     (case it_obj it of
        PDict option \<Rightarrow>
          (if ''default'' \<in> set (map fst option) then
             bindP (dict_getitem option ''id'') (\<lambda>ident.
               case ident of
                 PStr k \<Rightarrow> default_values_of rest err
                              (dict_set acc k (dict_get option ''default'' PNone))
               | _ \<Rightarrow> Inl (TypeError ''option id is not a string''))
           else default_values_of rest err acc)
      | _ \<Rightarrow> Inl (TypeError ''option is not a mapping''))"

definition get_default_values :: "ConfigPanel \<Rightarrow> exn + pydict" where
  \<comment> \<open>\<^verbatim>\<open>ConfigPanel._get_default_values\<close>\<close>
  "get_default_values self =
     (case iterate [''option''] (config self) of (items, err) \<Rightarrow> default_values_of items err [])"

definition load_current_values ::
  "ConfigPanel \<Rightarrow> world \<Rightarrow> (exn + ConfigPanel) \<times> world" where
  \<comment> \<open>\<^verbatim>\<open>ConfigPanel._load_current_values\<close>\<close>
  "load_current_values self w =
     (case save_path self of
        None \<Rightarrow> (Inl (TypeError ''stat: path should be string, not NoneType''), w)
      | Some sp \<Rightarrow>
          (case path_exists sp w of
             (found, w) \<Rightarrow>
               bindE (if found \<and> fs w sp \<noteq> Some Dir then
                        (case fs w sp of
                           Some (Yaml v) \<Rightarrow>
                             (Inr (if truthy v then v else PDict []), emit (EvReadYaml sp) w)
                         | _ \<Rightarrow> (Inl (MoulinetteError ''corrupted_yaml''), emit (EvReadYaml sp) w))
                      else (Inr (PDict []), w)) (\<lambda>on_disk_settings w.
                 case get_default_values self of
                   Inl e \<Rightarrow> (Inl e, w)
                 | Inr dflts \<Rightarrow>
                     (case on_disk_settings of
                        PDict d \<Rightarrow> (Inr (self\<lparr>cp_values := dict_update dflts d\<rparr>), w)
                      | _ \<Rightarrow> (Inl (TypeError ''cannot update a dictionary from this value''), w)))))"

definition allowed_empty_types :: "string list" where
  "allowed_empty_types = [''alert'', ''display_text'', ''markdown'', ''file'']"

definition not_initialized :: "env \<Rightarrow> pyval \<Rightarrow> exn" where
  "not_initialized E ident =
     YunohostError (''Config panel question '' @ [CHR 0x27] @ py_str E ident @ [CHR 0x27]
                    @ '' should be initialized with a value during install or upgrade.'') []"

definition hydrate_option :: "env \<Rightarrow> pydict \<Rightarrow> pydict \<Rightarrow> exn + pydict" where
  \<comment> \<open>the body of the loop of \<^verbatim>\<open>_hydrate\<close>: the option with its value, or unchanged
      where the loop continues\<close>
  "hydrate_option E vals option =
     bindP (dict_getitem option ''id'') (\<lambda>ident.
       bindP (dict_contains vals ident) (\<lambda>present.
         bindP (if \<not> present then
                  bindP (dict_getitem option ''type'') (\<lambda>t.
                    if py_in_list t (map PStr allowed_empty_types)
                       \<or> py_eq (dict_get option ''bind'' PNone) (PStr ''null'')
                    then Inr True
                    else Inl (not_initialized E ident))
                else Inr False) (\<lambda>skip.
           if skip then Inr option
           else bindP (dict_getitem option ''name'') (\<lambda>nm.
                  bindP (dict_subscript vals nm) (\<lambda>v.
                    Inr (dict_update option
                           (case v of PDict d \<Rightarrow> d | _ \<Rightarrow> [(''current_value'', v)])))))))"

fun hydrate_items :: "env \<Rightarrow> pydict \<Rightarrow> item list \<Rightarrow> exn option \<Rightarrow> pydict \<Rightarrow> exn + pydict" where
  "hydrate_items E vals [] err cfg = (case err of None \<Rightarrow> Inr cfg | Some e \<Rightarrow> Inl e)"
| "hydrate_items E vals (it # rest) err cfg =
     (case it_obj it of
        PDict option \<Rightarrow>
          bindP (hydrate_option E vals option) (\<lambda>option'.
            hydrate_items E vals rest err (update_option cfg (it_path it) (PDict option')))
      | _ \<Rightarrow> Inl (TypeError ''option is not a mapping''))"

definition hydrate :: "env \<Rightarrow> ConfigPanel \<Rightarrow> exn + ConfigPanel" where
  \<comment> \<open>\<^verbatim>\<open>ConfigPanel._hydrate\<close>\<close>
  "hydrate E self =
     (case iterate [''option''] (config self) of
        (items, err) \<Rightarrow>
          bindP (hydrate_items E (cp_values self) items err (config self)) (\<lambda>cfg.
            Inr (self\<lparr>config := cfg\<rparr>)))"

subsection \<open>\<^verbatim>\<open>_ask\<close>\<close>

definition i18n_key :: "pydict \<Rightarrow> pydict \<Rightarrow> exn + string" where
  \<comment> \<open>\<^verbatim>\<open>self.config["i18n"] + "_" + option["id"]\<close>\<close>
  "i18n_key cfg option =
     bindP (dict_getitem cfg ''i18n'') (\<lambda>base.
       case base of
         PStr b \<Rightarrow> bindP (dict_getitem option ''id'') (\<lambda>ident.
                     case ident of
                       PStr i \<Rightarrow> Inr (b @ ''_'' @ i)
                     | _ \<Rightarrow> Inl (TypeError ''can only concatenate str to str''))
       | _ \<Rightarrow> Inl (TypeError ''unsupported operand type(s) for +''))"

fun fill_asks :: "env \<Rightarrow> item list \<Rightarrow> exn option \<Rightarrow> pydict \<Rightarrow> exn + pydict" where
  \<comment> \<open>the first loop of \<^verbatim>\<open>_ask\<close>: every option without \<^verbatim>\<open>ask\<close> gets the translated one\<close>
  "fill_asks E [] err cfg = (case err of None \<Rightarrow> Inr cfg | Some e \<Rightarrow> Inl e)"
| "fill_asks E (it # rest) err cfg =
     (case it_obj it of
        PDict option \<Rightarrow>
          (if ''ask'' \<notin> set (map fst option) then
             bindP (i18n_key cfg option) (\<lambda>k.
               fill_asks E rest err
                 (update_option cfg (it_path it)
                    (PDict (dict_set option ''ask'' (PStr (m18n_n E k []))))))
           else fill_asks E rest err cfg)
      | _ \<Rightarrow> Inl (TypeError ''option is not a mapping''))"

definition display_header :: "env \<Rightarrow> ConfigPanel \<Rightarrow> string \<Rightarrow> world \<Rightarrow> world" where
  "display_header E self message w =
     (if interface_type E = ''cli'' \<and> count_char CHR ''.'' (filter_key self) < 2
      then emit (EvDisplay (PStr (colorize E message ''purple''))) w
      else w)"

fun collect_new_values :: "question list \<Rightarrow> pydict \<Rightarrow> exn + pydict" where
  \<comment> \<open>\<^verbatim>\<open>{question.name: question.value for question in questions if question.value is not None}\<close>\<close>
  "collect_new_values [] acc = Inr acc"
| "collect_new_values (q # qs) acc =
     (if q_value q \<noteq> PNone then
        (case q_name q of
           PStr k \<Rightarrow> collect_new_values qs (dict_set acc k (q_value q))
         | _ \<Rightarrow> Inl (TypeError ''question name is not a string''))
      else collect_new_values qs acc)"

definition newline :: string where
  "newline = [CHR 0x0A]"

fun ask_items ::
  "env \<Rightarrow> item list \<Rightarrow> exn option \<Rightarrow> ConfigPanel \<Rightarrow> world \<Rightarrow> (exn + ConfigPanel) \<times> world" where
  \<comment> \<open>the second loop of \<^verbatim>\<open>_ask\<close>, over the panels and the sections\<close>
  "ask_items E [] err self w = (case err of None \<Rightarrow> (Inr self, w) | Some e \<Rightarrow> (Inl e, w))"
| "ask_items E (it # rest) err self w =
     (if py_eq (it_panel it) (it_obj it) then
        (case subscript_key (it_panel it) ''name'' of
           Inl e \<Rightarrow> (Inl e, w)
         | Inr nm \<Rightarrow>
             ask_items E rest err self
               (display_header E self
                  (newline @ replicate 40 CHR ''='' @ newline @ ''>>>> ''
                   @ py_str E (value_for_locale E nm) @ newline @ replicate 40 CHR ''='') w))
      else
        (case subscript_key (it_section it) ''name'' of
           Inl e \<Rightarrow> (Inl e, w)
         | Inr nm \<Rightarrow>
             (let name = value_for_locale E nm;
                  w = (if truthy name
                       then display_header E self (newline @ ''# '' @ py_str E name) w
                       else w)
              in case subscript_key (it_section it) ''options'' of
                   Inl e \<Rightarrow> (Inl e, w)
                 | Inr options \<Rightarrow>
                     bindE (ask_questions_and_parse_answers E options (PDict (args self)) w)
                       (\<lambda>questions w.
                          case collect_new_values questions [] of
                            Inl e \<Rightarrow> (Inl e, w)
                          | Inr nv \<Rightarrow>
                              ask_items E rest err
                                (self\<lparr>new_values := dict_update (new_values self) nv\<rparr>) w))))"

definition ask :: "env \<Rightarrow> ConfigPanel \<Rightarrow> world \<Rightarrow> (exn + ConfigPanel) \<times> world" where
  \<comment> \<open>\<^verbatim>\<open>ConfigPanel._ask\<close>.  The values the loop writes into the option dictionaries
      (\<^verbatim>\<open>question["value"]\<close>) are read by nothing afterwards and are not kept.\<close>
  "ask E self w =
     (case (if ''i18n'' \<in> set (map fst (config self))
            then (case iterate [''option''] (config self) of
                    (items, err) \<Rightarrow> fill_asks E items err (config self))
            else Inr (config self)) of
        Inl e \<Rightarrow> (Inl e, w)
      | Inr cfg \<Rightarrow>
          (case iterate [''panel'', ''section''] cfg of
             (items, err) \<Rightarrow> ask_items E items err (self\<lparr>config := cfg\<rparr>) w))"

subsection \<open>\<^verbatim>\<open>_apply\<close> and \<^verbatim>\<open>_reload_services\<close>\<close>

definition write_to_yaml :: "env \<Rightarrow> string \<Rightarrow> pydict \<Rightarrow> world \<Rightarrow> (exn + unit) \<times> world" where
  "write_to_yaml E p d w =
     (case write_fault E of
        Some e \<Rightarrow> (Inl e, w)
      | None \<Rightarrow> (Inr (), (emit (EvWriteYaml p d) w)\<lparr>fs := (fs w)(p \<mapsto> Yaml (PDict d))\<rparr>))"

definition ConfigPanel_apply :: "env \<Rightarrow> ConfigPanel \<Rightarrow> world \<Rightarrow> (exn + unit) \<times> world" where
  \<comment> \<open>\<^verbatim>\<open>ConfigPanel._apply\<close>\<close>
  "ConfigPanel_apply E self w =
     (case save_path self of
        None \<Rightarrow> (Inl (TypeError ''expected str, bytes or os.PathLike object, not NoneType''), w)
      | Some sp \<Rightarrow>
          (let dir_path = dirname sp
           in case path_exists dir_path w of
                (found, w) \<Rightarrow>
                  (let w = (if \<not> found
                            then (emit (EvMkdir dir_path) w)\<lparr>fs := (fs w)(dir_path \<mapsto> Dir)\<rparr>
                            else w);
                       values_to_save = dict_update (cp_values self) (new_values self)
                   in case save_mode self of
                        None \<Rightarrow>
                          (Inl (AttributeError ''ConfigPanel object has no attribute save_mode''), w)
                      | Some mode \<Rightarrow>
                          if mode = ''diff'' then
                            (case get_default_values self of
                               Inl e \<Rightarrow> (Inl e, w)
                             | Inr dflts \<Rightarrow>
                                 write_to_yaml E sp
                                   (filter (\<lambda>(k, v). \<not> py_eq (dict_get dflts k PNone) v)
                                      values_to_save) w)
                          else write_to_yaml E sp values_to_save w)))"

fun add_services :: "pyval list \<Rightarrow> string list \<Rightarrow> exn + string list" where
  \<comment> \<open>\<^verbatim>\<open>services_to_reload |= set(..)\<close>; the set is kept in the order of first occurrence\<close>
  "add_services [] acc = Inr acc"
| "add_services (PStr s # rest) acc = add_services rest (if s \<in> set acc then acc else acc @ [s])"
| "add_services (v # rest) acc = Inl (TypeError ''service name is not a string'')"

fun services_of :: "item list \<Rightarrow> exn option \<Rightarrow> string list \<Rightarrow> exn + string list" where
  "services_of [] err acc = (case err of None \<Rightarrow> Inr acc | Some e \<Rightarrow> Inl e)"
| "services_of (it # rest) err acc =
     bindP (py_get (it_obj it) ''services'' (PList [])) (\<lambda>ss.
       bindP (py_iter ss) (\<lambda>xs.
         bindP (add_services xs acc) (\<lambda>acc'. services_of rest err acc')))"

fun reload_each :: "env \<Rightarrow> ConfigPanel \<Rightarrow> string list \<Rightarrow> world \<Rightarrow> (exn + unit) \<times> world" where
  "reload_each E self [] w = (Inr (), w)"
| "reload_each E self (service # rest) w =
     (let service = (case app self of
                       Some a \<Rightarrow> replace_str service ''__APP__'' a | None \<Rightarrow> service);
          w = emit (EvReload service) w
      in case service_reload_or_restart E service of
           Some e \<Rightarrow> (Inl e, w)
         | None \<Rightarrow> reload_each E self rest w)"

definition reload_services :: "env \<Rightarrow> ConfigPanel \<Rightarrow> world \<Rightarrow> (exn + unit) \<times> world" where
  \<comment> \<open>\<^verbatim>\<open>ConfigPanel._reload_services\<close>; \<^verbatim>\<open>nginx\<close> is sorted last\<close>
  "reload_services E self w =
     (case iterate [''panel'', ''section'', ''option''] (config self) of
        (items, err) \<Rightarrow>
          (case services_of items err [] of
             Inl e \<Rightarrow> (Inl e, w)
           | Inr services \<Rightarrow>
               reload_each E self
                 (filter (\<lambda>s. s \<noteq> ''nginx'') services @ filter (\<lambda>s. s = ''nginx'') services) w))"

subsection \<open>\<^verbatim>\<open>FileQuestion.clean_upload_dirs\<close>\<close>

definition rmtree :: "env \<Rightarrow> string \<Rightarrow> world \<Rightarrow> (exn + unit) \<times> world" where
  \<comment> \<open>\<^verbatim>\<open>shutil.rmtree(d)\<close>: the directory goes, with everything below it, or the call
      raises; what a call that raises has removed by then is not modelled, the tree is
      left as it was\<close>
  "rmtree E d w =
     (case rmtree_fault E d of
        Some e \<Rightarrow> (Inl e, emit (EvRmtree d) w)
      | None \<Rightarrow>
          (Inr (), (emit (EvRmtree d) w)
                     \<lparr>fs := (\<lambda>p. if p = d \<or> startswith p (d @ ''/'') then None else fs w p)\<rparr>))"

fun clean_dirs :: "env \<Rightarrow> string list \<Rightarrow> world \<Rightarrow> (exn + unit) \<times> world" where
  \<comment> \<open>the loop over the upload directories; an exception of \<^verbatim>\<open>rmtree\<close> ends it\<close>
  "clean_dirs E [] w = (Inr (), w)"
| "clean_dirs E (upload_dir # rest) w =
     (case path_exists upload_dir w of
        (found, w) \<Rightarrow>
          if found then bindE (rmtree E upload_dir w) (\<lambda>u w. clean_dirs E rest w)
          else clean_dirs E rest w)"

definition clean_upload_dirs :: "env \<Rightarrow> world \<Rightarrow> (exn + unit) \<times> world" where
  "clean_upload_dirs E w = clean_dirs E (upload_dirs w) w"

subsection \<open>\<^verbatim>\<open>ConfigPanel.set\<close>\<close>

datatype operation_logger = OperationLogger

definition config_apply_failed :: "env \<Rightarrow> string \<Rightarrow> event" where
  \<comment> \<open>\<^verbatim>\<open>logger.error(m18n.n("config_apply_failed", error=error))\<close>\<close>
  "config_apply_failed E err =
     EvLogError (m18n_n E ''config_apply_failed'' [(''error'', PStr (m18n_n E err []))])"

definition apply_handled :: "env \<Rightarrow> ConfigPanel \<Rightarrow> world \<Rightarrow> (exn + unit) \<times> world" where
  \<comment> \<open>the \<^verbatim>\<open>try\<close> block of \<^verbatim>\<open>set\<close> with its \<^verbatim>\<open>except\<close> clauses: every handler raises
      again, two of them after they have logged an error\<close>
  "apply_handled E self w =
     (case ConfigPanel_apply E self w of
        (Inl e, w) \<Rightarrow>
          (Inl e, if is_YunohostError e then w
                  else if e = KeyboardInterrupt \<or> e = EOFError
                    then emit (config_apply_failed E ''operation_interrupted'') w
                  else emit (config_apply_failed E ''unexpected_error'') w)
      | (Inr u, w) \<Rightarrow> (Inr u, w))"

definition apply_guarded :: "env \<Rightarrow> ConfigPanel \<Rightarrow> world \<Rightarrow> (exn + unit) \<times> world" where
  \<comment> \<open>the whole \<^verbatim>\<open>try\<close> statement of \<^verbatim>\<open>set\<close>: the \<^verbatim>\<open>finally\<close> clause cleans the upload
      directories and then the statement ends as the \<^verbatim>\<open>try\<close> block and its handlers
      have; an exception raised in the \<^verbatim>\<open>finally\<close> clause takes the place of that
      outcome\<close>
  "apply_guarded E self w =
     (case apply_handled E self w of
        (r, w) \<Rightarrow>
          (case clean_upload_dirs E w of
             (Inl e, w) \<Rightarrow> (Inl e, w)
           | (Inr u, w) \<Rightarrow> (r, w)))"

definition parse_args ::
  "env \<Rightarrow> ConfigPanel \<Rightarrow> pyval \<Rightarrow> string option \<Rightarrow> string option \<Rightarrow> world
     \<Rightarrow> (exn + ConfigPanel) \<times> world" where
  \<comment> \<open>import and parse the pre-answered options\<close>
  "parse_args E self val args_str args_file w =
     (let parsed = parse_qs E (case args_str of None \<Rightarrow> '''' | Some a \<Rightarrow> a);
          self = self\<lparr>args := dict_update [] (map (\<lambda>(k, vs). (k, PStr (join '','' vs))) parsed)\<rparr>
      in bindE (case args_file of
                  None \<Rightarrow> (Inr self, w)
                | Some f \<Rightarrow>
                    if f = '''' then (Inr self, w)
                    else (case read_yaml_args E f of
                            Inl e \<Rightarrow> (Inl e, emit (EvReadYaml f) w)
                          | Inr d \<Rightarrow> (Inr (self\<lparr>args := dict_update d (args self)\<rparr>),
                                      emit (EvReadYaml f) w))) (\<lambda>self w.
           (Inr (if val \<noteq> PNone
                 then self\<lparr>args := [(last (split_on CHR ''.'' (filter_key self)), val)]\<rparr>
                 else self), w)))"

definition set_prepare ::
  "env \<Rightarrow> ConfigPanel \<Rightarrow> string option \<Rightarrow> pyval \<Rightarrow> string option \<Rightarrow> string option
     \<Rightarrow> operation_logger option \<Rightarrow> world \<Rightarrow> (exn + ConfigPanel) \<times> world" where
  \<comment> \<open>\<^verbatim>\<open>ConfigPanel.set\<close> up to \<^verbatim>\<open>operation_logger.start()\<close>: load, check the arguments,
      read the values, hydrate, ask\<close>
  "set_prepare E self key val args_str args_file oplog w =
     (let self = self\<lparr>filter_key := (case key of None \<Rightarrow> '''' | Some k \<Rightarrow> k)\<rparr>
      in bindE (get_config_panel E self w) (\<lambda>self w.
           if config self = [] then (Inl (YunohostValidationError ''config_no_panel'' []), w)
           else if (args_str \<noteq> None \<or> args_file \<noteq> None) \<and> val \<noteq> PNone then
             (Inl (YunohostValidationError
                     ''You should either provide a value, or a serie of args/args_file, but not both at the same time''
                     []), w)
           else if count_char CHR ''.'' (filter_key self) \<noteq> 2 \<and> val \<noteq> PNone then
             (Inl (YunohostValidationError ''config_cant_set_value_on_section'' []), w)
           else
             bindE (parse_args E self val args_str args_file w) (\<lambda>self w.
             bindE (load_current_values self w) (\<lambda>self w.
             bindE (hydrate E self, w) (\<lambda>self w.
             bindE (ask E self w) (\<lambda>self w.
               (Inr self, if oplog \<noteq> None then emit EvOperationStart w else w)))))))"

definition ConfigPanel_set ::
  "env \<Rightarrow> ConfigPanel \<Rightarrow> string option \<Rightarrow> pyval \<Rightarrow> string option \<Rightarrow> string option
     \<Rightarrow> operation_logger option \<Rightarrow> world \<Rightarrow> (exn + ConfigPanel) \<times> world" where
  \<comment> \<open>\<^verbatim>\<open>ConfigPanel.set(key, value, args, args_file, operation_logger)\<close>\<close>
  "ConfigPanel_set E self key val args_str args_file oplog w =
     bindE (set_prepare E self key val args_str args_file oplog w) (\<lambda>self w.
     bindE (apply_guarded E self w) (\<lambda>u w.
     bindE (reload_services E self w) (\<lambda>u w.
       case oplog of
         None \<Rightarrow> (Inl (AttributeError ''NoneType object has no attribute success''), w)
       | Some l \<Rightarrow> (Inr self, emit EvOperationSuccess w))))"

subsection \<open>\<^verbatim>\<open>ConfigPanel.get\<close>\<close>

definition option_key :: "env \<Rightarrow> item \<Rightarrow> exn + string" where
  \<comment> \<open>\<^verbatim>\<open>f"{panel['id']}.{section['id']}.{option['id']}"\<close>\<close>
  "option_key E it =
     bindP (subscript_key (it_panel it) ''id'') (\<lambda>p.
       bindP (subscript_key (it_section it) ''id'') (\<lambda>s.
         bindP (subscript_key (it_obj it) ''id'') (\<lambda>ident.
           Inr (py_str E p @ ''.'' @ py_str E s @ ''.'' @ py_str E ident))))"

definition option_ask :: "env \<Rightarrow> pydict \<Rightarrow> pydict \<Rightarrow> exn + pyval" where
  "option_ask E cfg option =
     (case map_of option ''ask'' of
        Some a \<Rightarrow> Inr (value_for_locale E a)
      | None \<Rightarrow>
          if ''i18n'' \<in> set (map fst cfg)
          then bindP (i18n_key cfg option) (\<lambda>k. Inr (PStr (m18n_n E k [])))
          else Inr PNone)"

definition classic_entry ::
  "env \<Rightarrow> pyval \<Rightarrow> pydict \<Rightarrow> world \<Rightarrow> (exn + pyval) \<times> world" where
  \<comment> \<open>the entry of one option in the result of the classic mode\<close>
  "classic_entry E ask_text option w =
     (case map_of option ''current_value'' of
        None \<Rightarrow> (Inr (PDict [(''ask'', ask_text)]), w)
      | Some cur \<Rightarrow>
          (case question_class_of (dict_get option ''type'' (PStr ''string'')) of
             Inl e \<Rightarrow> (Inl e, w)
           | Inr question_class \<Rightarrow>
               bindE (humanize E question_class cur option w) (\<lambda>shown w.
                 (Inr (PDict [(''ask'', ask_text),
                              (''value'', if hide_user_input_in_prompt question_class
                                          then PStr ''**************'' else shown)]), w))))"

fun format_items ::
  "env \<Rightarrow> string \<Rightarrow> item list \<Rightarrow> exn option \<Rightarrow> pydict \<Rightarrow> pydict \<Rightarrow> world
     \<Rightarrow> (exn + pydict \<times> pydict) \<times> world" where
  \<comment> \<open>the loop of \<^verbatim>\<open>get\<close> that formats the result; it returns the configuration too,
      which the mode \<^verbatim>\<open>full\<close> edits\<close>
  "format_items E mode [] err cfg result w =
     (case err of None \<Rightarrow> (Inr (cfg, result), w) | Some e \<Rightarrow> (Inl e, w))"
| "format_items E mode (it # rest) err cfg result w =
     (case option_key E it of
        Inl e \<Rightarrow> (Inl e, w)
      | Inr key \<Rightarrow>
          (case it_obj it of
             PDict option \<Rightarrow>
               if mode = ''export'' then
                 (case dict_getitem option ''id'' of
                    Inr (PStr k) \<Rightarrow>
                      format_items E mode rest err cfg
                        (dict_set result k (dict_get option ''current_value'' PNone)) w
                  | Inr v \<Rightarrow> (Inl (TypeError ''option id is not a string''), w)
                  | Inl e \<Rightarrow> (Inl e, w))
               else
                 (case option_ask E cfg option of
                    Inl e \<Rightarrow> (Inl e, w)
                  | Inr ask_text \<Rightarrow>
                      if mode = ''full'' then
                        format_items E mode rest err
                          (update_option cfg (it_path it) (PDict (dict_set option ''ask'' ask_text)))
                          result w
                      else
                        bindE (classic_entry E ask_text option w) (\<lambda>entry w.
                          format_items E mode rest err cfg (dict_set result key entry) w))
           | _ \<Rightarrow> (Inl (TypeError ''option is not a mapping''), w)))"

definition ConfigPanel_get ::
  "env \<Rightarrow> ConfigPanel \<Rightarrow> string option \<Rightarrow> string \<Rightarrow> world \<Rightarrow> (exn + pyval) \<times> world" where
  \<comment> \<open>\<^verbatim>\<open>ConfigPanel.get(key, mode)\<close>\<close>
  "ConfigPanel_get E self key mode w =
     (let self = self\<lparr>filter_key := (case key of None \<Rightarrow> '''' | Some k \<Rightarrow> k)\<rparr>
      in bindE (get_config_panel E self w) (\<lambda>self w.
           if config self = [] then (Inl (YunohostValidationError ''config_no_panel'' []), w)
           else
             bindE (load_current_values self w) (\<lambda>self w.
             bindE (hydrate E self, w) (\<lambda>self w.
               if count_char CHR ''.'' (filter_key self) = 2 \<and> mode = ''classic'' then
                 (let option = last (split_on CHR ''.'' (filter_key self))
                  in (Inr (dict_get (cp_values self) option PNone), w))
               else
                 (case iterate [''option''] (config self) of
                    (items, err) \<Rightarrow>
                      bindE (format_items E mode items err (config self) [] w) (\<lambda>(cfg, result) w.
                        if mode = ''full'' then (Inr (PDict cfg), w)
                        else (Inr (PDict result), w)))))))"

section \<open>Concrete environments\<close>

text \<open>A non-interactive API environment and the state of a freshly started process,
  used to evaluate the model on concrete inputs.\<close>

definition std_env :: env where
  "std_env = \<lparr> interface_type = ''api'', isatty = False,
     py_repr = (\<lambda>v. ''<repr>''), float_of_str = (\<lambda>s. None),
     m18n_n = (\<lambda>k a. k), m18n_g = (\<lambda>k. k),
     value_for_locale = (\<lambda>v. case v of PDict ((l, t) # r) \<Rightarrow> t | _ \<Rightarrow> v),
     colorize = (\<lambda>s c. s), re_match = (\<lambda>r s. True), strptime_ok = (\<lambda>s. True),
     assert_password_is_strong_enough = (\<lambda>p v. None), quote = (\<lambda>s. s),
     parse_qs = (\<lambda>s. []), parse_qsl = (\<lambda>s. []), read_yaml_args = (\<lambda>p. Inr []),
     domain_list = [], get_maindomain = ''example.org'', user_list = [],
     user_mail_aliases = (\<lambda>u. []), b64decode = (\<lambda>v. Inr []),
     write_fault = None, service_reload_or_restart = (\<lambda>s. None),
     rmtree_fault = (\<lambda>d. None) \<rparr>"

definition initial_world :: world where
  "initial_world = \<lparr> fs = (\<lambda>p. None), trace = [], inputs = [], tmp_names = [],
     yes_answers = initial_yes_answers, no_answers = initial_no_answers,
     upload_dirs = [], data_to_redact = [] \<rparr>"

definition raised :: "exn + 'a \<Rightarrow> exn option" where
  \<comment> \<open>the exception of a result, if it is one\<close>
  "raised r = (case r of Inl e \<Rightarrow> Some e | Inr x \<Rightarrow> None)"

text \<open>A schema with one panel \<^verbatim>\<open>p1\<close>, one section \<^verbatim>\<open>s1\<close> and one option, a panel
  object for it, and a file system that holds the schema and, possibly, saved settings.\<close>

definition one_option_toml :: "pyval \<Rightarrow> string \<Rightarrow> pydict \<Rightarrow> pydict" where
  "one_option_toml ver ident option =
     [(''version'', ver), (''p1'', PDict [(''s1'', PDict [(ident, PDict option)])])]"

definition the_panel :: ConfigPanel where
  \<comment> \<open>the constructor, then the attribute \<^verbatim>\<open>save_mode\<close> set to \<^verbatim>\<open>"full"\<close>\<close>
  "the_panel =
     (ConfigPanel_init ''/etc/panel.toml'' (Some ''/etc/settings.yml''))\<lparr>save_mode := Some ''full''\<rparr>"

definition world_with :: "pydict \<Rightarrow> pyval option \<Rightarrow> world" where
  "world_with toml settings =
     initial_world\<lparr>fs := (\<lambda>p. if p = ''/etc/panel.toml'' then Some (Toml toml)
                             else if p = ''/etc'' then Some Dir
                             else if p = ''/etc/settings.yml'' then map_option Yaml settings
                             else None)\<rparr>"

definition two_sections_toml :: pydict where
  \<comment> \<open>two sections, each with an option \<^verbatim>\<open>o1\<close>\<close>
  "two_sections_toml =
     [(''version'', PFloat 1),
      (''p1'', PDict [(''s1'', PDict [(''o1'', PDict [(''type'', PStr ''string'')])]),
                      (''s2'', PDict [(''o1'', PDict [(''type'', PStr ''number'')])])])]"

definition reserved_beside_toml :: pydict where
  \<comment> \<open>an option \<^verbatim>\<open>o1\<close> and, beside it, an option with the reserved id \<^verbatim>\<open>type\<close>\<close>
  "reserved_beside_toml =
     [(''version'', PFloat 1),
      (''p1'', PDict [(''s1'', PDict [(''o1'', PDict [(''type'', PStr ''string'')]),
                                      (''type'', PDict [(''type'', PStr ''string'')])])])]"

text \<open>Environments and schemas for file uploads: the API interface, a query-string parser
  that knows the two query strings used below, a decoder, and possibly a write failure.\<close>

definition upload_env :: "exn option \<Rightarrow> env" where
  "upload_env fault =
     std_env\<lparr>parse_qs := (\<lambda>s. if s = ''f1=aGk='' then [(''f1'', [''aGk=''])]
                             else if s = ''f1=aGk=&n1=abc''
                               then [(''f1'', [''aGk='']), (''n1'', [''abc''])]
                             else []),
             b64decode := (\<lambda>v. Inr ''hi''),
             write_fault := fault\<rparr>"

definition file_toml :: pydict where
  "file_toml =
     [(''version'', PFloat 1),
      (''p1'', PDict [(''s1'', PDict [(''f1'', PDict [(''type'', PStr ''file'')])])])]"

definition file_number_toml :: pydict where
  "file_number_toml =
     [(''version'', PFloat 1),
      (''p1'', PDict [(''s1'', PDict [(''f1'', PDict [(''type'', PStr ''file'')]),
                                      (''n1'', PDict [(''type'', PStr ''number'')])])])]"

definition upload_world :: "pydict \<Rightarrow> pyval option \<Rightarrow> world" where
  "upload_world toml settings =
     (world_with toml settings)\<lparr>tmp_names := [''/tmp/ynh_filequestion_0'', ''tmp0'']\<rparr>"

text \<open>Two file questions, and an environment in which the write of the settings fails
  and then the removal of the first upload directory fails too.\<close>

definition two_files_toml :: pydict where
  "two_files_toml =
     [(''version'', PFloat 1),
      (''p1'', PDict [(''s1'', PDict [(''f1'', PDict [(''type'', PStr ''file'')]),
                                      (''f2'', PDict [(''type'', PStr ''file'')])])])]"

definition busy_env :: env where
  "busy_env =
     (upload_env (Some (OSError ''No space left on device'')))
       \<lparr>parse_qs := (\<lambda>s. if s = ''f1=aGk=&f2=aGk=''
                            then [(''f1'', [''aGk='']), (''f2'', [''aGk=''])] else []),
        rmtree_fault := (\<lambda>d. if d = ''/tmp/ynh_filequestion_0''
                               then Some (OSError ''Device or resource busy'') else None)\<rparr>"

definition two_uploads_world :: world where
  "two_uploads_world =
     (world_with two_files_toml None)
       \<lparr>tmp_names := [''/tmp/ynh_filequestion_0'', ''tmp0'',
                      ''/tmp/ynh_filequestion_1'', ''tmp1'']\<rparr>"

definition logged_exceptions :: "event list \<Rightarrow> exn list" where
  \<comment> \<open>the exceptions that \<^verbatim>\<open>logger.error(str(e))\<close> has logged, in order\<close>
  "logged_exceptions t = concat (map (\<lambda>ev. case ev of EvLogException e \<Rightarrow> [e] | _ \<Rightarrow> []) t)"

definition operation_logger_calls :: "event list \<Rightarrow> event list" where
  \<comment> \<open>the calls of \<^verbatim>\<open>set\<close> on its operation logger, in order\<close>
  "operation_logger_calls t = filter (\<lambda>ev. ev = EvOperationStart \<or> ev = EvOperationSuccess) t"



definition bool_question :: "pyval \<Rightarrow> pyval \<Rightarrow> question" where
  \<comment> \<open>what \<^verbatim>\<open>BooleanQuestion\<close> builds from the option \<^verbatim>\<open>o1\<close> of type boolean, without
      a default, hydrated with the current value \<open>cur\<close> and given the answer \<open>val\<close>\<close>
  "bool_question cur val =
     \<lparr> q_class = BooleanQuestion, q_name = PStr ''o1'', q_type = PStr ''boolean'',
       q_default = PInt 0, q_optional = PBool True, q_choices = PList [], q_pattern = PNone,
       q_ask = PDict [(''en'', PStr ''o1'')], q_help = PNone, q_redact = PBool False,
       q_current_value = cur, q_value = val, q_yes = PInt 1, q_no = PInt 0, q_min = PNone,
       q_max = PNone, q_step = PNone, q_style = PNone, q_accept = PNone \<rparr>"

text \<open>The schema with the one boolean option \<^verbatim>\<open>o1\<close>, the option, the section, the
  panel and the configuration that \<^verbatim>\<open>_get_config_panel\<close> builds from it, the option as
  \<^verbatim>\<open>_hydrate\<close> leaves it, and a panel object as the constructor builds it with the
  attribute \<^verbatim>\<open>save_mode\<close> then set.\<close>

definition bool_toml :: pydict where
  "bool_toml = one_option_toml (PFloat 1) ''o1'' [(''type'', PStr ''boolean'')]"

definition bool_option :: pydict where
  "bool_option = [(''type'', PStr ''boolean''), (''id'', PStr ''o1''), (''name'', PStr ''o1''),
                  (''optional'', PBool True)]"

definition bool_section :: "pydict \<Rightarrow> pyval" where
  "bool_section option =
     PDict [(''name'', PStr ''''), (''services'', PList []), (''optional'', PBool True),
            (''options'', PList [PDict option]), (''id'', PStr ''s1'')]"

definition bool_panel :: "pydict \<Rightarrow> pyval" where
  "bool_panel option =
     PDict [(''services'', PList []),
            (''actions'', PDict [(''apply'', PDict [(''en'', PStr ''Apply'')])]),
            (''sections'', PList [bool_section option]), (''id'', PStr ''p1''),
            (''name'', PDict [(''en'', PStr ''P1'')])]"

definition bool_config :: "pydict \<Rightarrow> pydict" where
  "bool_config option = [(''version'', PFloat 1), (''panels'', PList [bool_panel option])]"

definition bool_panel_object :: "string \<Rightarrow> ConfigPanel" where
  "bool_panel_object mode =
     (ConfigPanel_init ''/etc/panel.toml'' (Some ''/etc/settings.yml''))\<lparr>save_mode := Some mode\<rparr>"

definition hydrated :: "pyval \<Rightarrow> pydict" where
  "hydrated v = bool_option @ [(''current_value'', v)]"

text \<open>A step that logs no exception: the trace grows by events that are not logged exceptions.\<close>

definition quiet :: "world \<Rightarrow> world \<Rightarrow> bool" where
  "quiet w w' = (\<exists>t. trace w' = trace w @ t \<and> logged_exceptions t = [])"

section \<open>Sequencing lemmas\<close>

lemma bindP_Inl [simp]: "bindP (Inl e) f = Inl e"
  by (simp add: bindP_def)

lemma bindP_Inr [simp]: "bindP (Inr x) f = f x"
  by (simp add: bindP_def)

lemma bindE_Inl [simp]: "bindE (Inl e, w) f = (Inl e, w)"
  by (simp add: bindE_def)

lemma bindE_Inr [simp]: "bindE (Inr x, w) f = f x w"
  by (simp add: bindE_def)

lemma bindE_Inr_iff:
  "bindE r f = (Inr y, w') \<longleftrightarrow> (\<exists>x w1. r = (Inr x, w1) \<and> f x w1 = (Inr y, w'))"
  by (cases r; cases "fst r") (auto simp: bindE_def)

section \<open>The schema version\<close>

text \<open>
  C4 (as the code has it).  A schema whose declared version is below the supported one is
  rejected with the version error; a declared version equal to the supported one or
  above it passes the version check.
\<close>

theorem version_below_supported_rejected:
  assumes "dict_getitem toml ''version'' = Inr v" and "py_float E v = Inr r"
  shows "(r < CONFIG_PANEL_VERSION_SUPPORTED \<longrightarrow>
            load_schema E fkey toml
              = Inl (YunohostError ''config_version_not_supported'' [(''version'', v)]))
       \<and> (CONFIG_PANEL_VERSION_SUPPORTED \<le> r \<longrightarrow> check_version E toml = Inr ())"
  using assms by (simp add: load_schema_def check_version_def Let_def)

theorem version_below_supported_rejected_witness:
  "load_schema std_env ''p1.s1.o1''
       (one_option_toml (PFloat (1 / 2)) ''o1'' [(''type'', PStr ''boolean'')])
     = Inl (YunohostError ''config_version_not_supported'' [(''version'', PFloat (1 / 2))])
   \<and> check_version std_env (one_option_toml (PFloat 2) ''o1'' [(''type'', PStr ''boolean'')])
     = Inr ()"
proof -
  have v: "dict_getitem (one_option_toml (PFloat r) ''o1'' [(''type'', PStr ''boolean'')])
             ''version'' = Inr (PFloat r)" for r
    by (simp add: one_option_toml_def dict_getitem_def)
  have f: "py_float std_env (PFloat r) = Inr r" for r
    by (simp add: py_float_def)
  show ?thesis
    using version_below_supported_rejected [OF v f, of "1 / 2" "''p1.s1.o1''"]
      version_below_supported_rejected [OF v f, of 2 "''p1.s1.o1''"]
    by (simp add: CONFIG_PANEL_VERSION_SUPPORTED_def)
qed

text \<open>
  C4 (as stated) fails: a schema that declares version 2, newer than the supported
  version 1, is loaded without an error.
\<close>

theorem newer_version_accepted_counterexample:
  "raised (fst (get_config_panel std_env (the_panel\<lparr>filter_key := ''p1.s1.o1''\<rparr>)
                  (world_with (one_option_toml (PFloat 2) ''o1'' [(''type'', PStr ''boolean'')])
                     None))) = None
   \<and> CONFIG_PANEL_VERSION_SUPPORTED < 2"
  by code_simp

section \<open>Reserved option ids\<close>

lemma check_forbidden_hit:
  "it \<in> set items \<Longrightarrow> subscript_key (it_obj it) ''id'' = Inr (PStr k)
   \<Longrightarrow> k \<in> set forbidden_keywords \<Longrightarrow> \<exists>e. check_forbidden items err = Inl e"
proof (induction items)
  case Nil
  then show ?case by simp
next
  case (Cons a items)
  show ?case
  proof (cases "subscript_key (it_obj a) ''id''")
    case (Inl e)
    then show ?thesis by simp
  next
    case (Inr ident)
    show ?thesis
    proof (cases "py_in_list ident (map PStr forbidden_keywords)")
      case True
      with Inr show ?thesis by simp
    next
      case False
      have "it \<noteq> a"
      proof
        assume "it = a"
        with Cons.prems Inr have "ident = PStr k" by simp
        with Cons.prems(3) have "py_in_list ident (map PStr forbidden_keywords)"
          by (auto simp: py_in_list_def list_ex_iff py_eq_def)
        with False show False by simp
      qed
      with Cons.prems have "it \<in> set items" by simp
      from Cons.IH [OF this Cons.prems(2,3)] Inr False show ?thesis by simp
    qed
  qed
qed

text \<open>
  C5 (as the code has it).  Loading fails whenever an option that the filter key keeps
  has an id of the reserved list.  (Nothing compares the ids of two options, and an
  option the filter key prunes is not looked at.)
\<close>

theorem reserved_option_id_rejected:
  assumes "build_internal_config_panel
             (if fkey \<noteq> '''' then split_on CHR ''.'' fkey else []) Root toml = Inr cfg"
    and "it \<in> set (fst (iterate [''option''] cfg))"
    and "subscript_key (it_obj it) ''id'' = Inr (PStr k)"
    and "k \<in> set forbidden_keywords"
  shows "\<exists>e. load_schema E fkey toml = Inl e"
proof -
  obtain items err where it: "iterate [''option''] cfg = (items, err)"
    by (cases "iterate [''option''] cfg")
  with assms(2) have "it \<in> set items" by simp
  from check_forbidden_hit [OF this assms(3,4)]
  obtain e where "check_forbidden items err = Inl e"
    by blast
  with assms(1) it show ?thesis
    by (cases "check_version E toml"; cases "first_option cfg")
       (auto simp: load_schema_def Let_def split: sum.splits exn.splits)
qed

theorem reserved_option_id_rejected_witness:
  "(\<exists>e. load_schema std_env ''p1.s1'' reserved_beside_toml = Inl e)
   \<and> raised (load_schema std_env ''p1.s1'' reserved_beside_toml)
       = Some (YunohostError ''config_forbidden_keyword'' [(''keyword'', PStr ''type'')])"
proof -
  let ?opt = "PDict [(''type'', PStr ''string''), (''id'', PStr ''type''),
                     (''name'', PStr ''type''), (''optional'', PBool True)]"
  let ?sec = "PDict [(''name'', PStr ''''), (''services'', PList []), (''optional'', PBool True),
                     (''options'',
                      PList [PDict [(''type'', PStr ''string''), (''id'', PStr ''o1''),
                                    (''name'', PStr ''o1''), (''optional'', PBool True)], ?opt]),
                     (''id'', PStr ''s1'')]"
  let ?pan = "PDict [(''services'', PList []),
                     (''actions'', PDict [(''apply'', PDict [(''en'', PStr ''Apply'')])]),
                     (''sections'', PList [?sec]), (''id'', PStr ''p1''),
                     (''name'', PDict [(''en'', PStr ''P1'')])]"
  let ?cfg = "[(''version'', PFloat 1), (''panels'', PList [?pan])]"
  let ?it = "\<lparr> it_panel = ?pan, it_section = ?sec, it_obj = ?opt, it_path = (0, 0, 1) \<rparr>"
  have b: "build_internal_config_panel
             (if ''p1.s1'' \<noteq> '''' then split_on CHR ''.'' ''p1.s1'' else []) Root
             reserved_beside_toml = Inr ?cfg"
    by code_simp
  have i: "?it \<in> set (fst (iterate [''option''] ?cfg))"
    by code_simp
  have k: "subscript_key (it_obj ?it) ''id'' = Inr (PStr ''type'')"
    by code_simp
  have f: "''type'' \<in> set forbidden_keywords"
    by code_simp
  have r: "raised (load_schema std_env ''p1.s1'' reserved_beside_toml)
             = Some (YunohostError ''config_forbidden_keyword'' [(''keyword'', PStr ''type'')])"
    by code_simp
  show ?thesis
    using reserved_option_id_rejected [OF b i k f, of std_env] r by simp
qed

text \<open>
  C5 (as stated) fails: a schema whose two sections both hold an option \<^verbatim>\<open>o1\<close> is loaded
  without an error, and so is a schema with an option of the reserved id \<^verbatim>\<open>type\<close> when
  the filter key selects the option beside it.
\<close>

theorem duplicate_option_id_accepted_counterexample:
  "raised (load_schema std_env '''' two_sections_toml) = None
   \<and> raised (load_schema std_env ''p1.s1.o1'' reserved_beside_toml) = None
   \<and> ''type'' \<in> set forbidden_keywords"
  by code_simp

section \<open>The argument checks of \<^verbatim>\<open>set\<close>\<close>

lemma get_config_panel_frame:
  "get_config_panel E self w = (r, w') \<Longrightarrow>
     w' = w\<lparr>trace := trace w'\<rparr>
   \<and> (\<exists>t. trace w' = trace w @ t
          \<and> set t \<subseteq> {EvExists (config_path self), EvReadToml (config_path self)})
   \<and> (\<forall>s. r = Inr s \<longrightarrow> filter_key s = filter_key self)"
  by (auto simp: get_config_panel_def Let_def path_exists_def read_toml_def emit_def bindE_def
      split: if_splits prod.splits sum.splits option.splits fsnode.splits)

text \<open>
  C6 (as the code has it).  When \<^verbatim>\<open>set\<close> is given a value together with \<^verbatim>\<open>args\<close> or
  \<^verbatim>\<open>args_file\<close>, or a value with a key that does not have exactly two dots, it raises,
  and by then it has only looked for the schema file and read it: nothing but the trace
  has changed, and the trace has grown by the existence test and the read of the schema
  file at most, so the saved settings are neither read nor written.  Where the schema
  was loaded, the exception is a validation error.
\<close>

theorem set_arguments_checked_before_settings:
  assumes "val \<noteq> PNone"
    and "args_str \<noteq> None \<or> args_file \<noteq> None
         \<or> count_char CHR ''.'' (case key of None \<Rightarrow> '''' | Some k \<Rightarrow> k) \<noteq> 2"
    and "ConfigPanel_set E self key val args_str args_file oplog w = (r, w')"
  shows "(\<exists>e. r = Inl e
            \<and> ((\<exists>s w1. get_config_panel E
                          (self\<lparr>filter_key := (case key of None \<Rightarrow> '''' | Some k \<Rightarrow> k)\<rparr>) w
                         = (Inr s, w1))
                \<longrightarrow> is_YunohostValidationError e))
       \<and> w' = w\<lparr>trace := trace w'\<rparr>
       \<and> (\<exists>t. trace w' = trace w @ t
              \<and> set t \<subseteq> {EvExists (config_path self), EvReadToml (config_path self)})"
proof -
  let ?self = "self\<lparr>filter_key := (case key of None \<Rightarrow> '''' | Some k \<Rightarrow> k)\<rparr>"
  obtain r1 w1 where g: "get_config_panel E ?self w = (r1, w1)"
    by (cases "get_config_panel E ?self w")
  note c = get_config_panel_frame [OF g]
  show ?thesis
  proof (cases r1)
    case (Inl e)
    with g assms(3) have "r = Inl e" "w' = w1"
      by (simp_all add: ConfigPanel_set_def set_prepare_def Let_def)
    with c g Inl show ?thesis by auto
  next
    case (Inr s)
    with c have fk: "filter_key s = (case key of None \<Rightarrow> '''' | Some k \<Rightarrow> k)" by simp
    from g Inr assms fk have "(\<exists>e. r = Inl e \<and> is_YunohostValidationError e) \<and> w' = w1"
      by (auto simp: ConfigPanel_set_def set_prepare_def Let_def split: if_splits)
    with c g Inr show ?thesis by auto
  qed
qed

theorem set_arguments_checked_before_settings_witness:
  "PStr ''yes'' \<noteq> PNone
   \<and> (\<exists>e. fst (ConfigPanel_set std_env the_panel (Some ''p1.s1.o1'') (PStr ''yes'')
                 (Some ''o1=no'') None (Some OperationLogger)
                 (world_with (one_option_toml (PFloat 1) ''o1'' [(''type'', PStr ''boolean'')])
                    (Some (PDict [(''o1'', PInt 0)])))) = Inl e
          \<and> is_YunohostValidationError e)
   \<and> (\<exists>t. trace (snd (ConfigPanel_set std_env the_panel (Some ''p1.s1.o1'') (PStr ''yes'')
                 (Some ''o1=no'') None (Some OperationLogger)
                 (world_with (one_option_toml (PFloat 1) ''o1'' [(''type'', PStr ''boolean'')])
                    (Some (PDict [(''o1'', PInt 0)]))))) = t
          \<and> set t \<subseteq> {EvExists ''/etc/panel.toml'', EvReadToml ''/etc/panel.toml''})"
proof -
  let ?w = "world_with (one_option_toml (PFloat 1) ''o1'' [(''type'', PStr ''boolean'')])
              (Some (PDict [(''o1'', PInt 0)]))"
  let ?run = "ConfigPanel_set std_env the_panel (Some ''p1.s1.o1'') (PStr ''yes'')
                (Some ''o1=no'') None (Some OperationLogger) ?w"
  have v: "PStr ''yes'' \<noteq> PNone" by simp
  have a: "Some ''o1=no'' \<noteq> None \<or> (None :: string option) \<noteq> None
           \<or> count_char CHR ''.'' (case Some ''p1.s1.o1'' of None \<Rightarrow> '''' | Some k \<Rightarrow> k) \<noteq> 2"
    by simp
  have run: "?run = (fst ?run, snd ?run)" by simp
  have loaded: "raised (fst (get_config_panel std_env
                  (the_panel\<lparr>filter_key := (case Some ''p1.s1.o1'' of None \<Rightarrow> '''' | Some k \<Rightarrow> k)\<rparr>)
                  ?w)) = None"
    by code_simp
  then have ex: "\<exists>s w1. get_config_panel std_env
                  (the_panel\<lparr>filter_key := (case Some ''p1.s1.o1'' of None \<Rightarrow> '''' | Some k \<Rightarrow> k)\<rparr>)
                  ?w = (Inr s, w1)"
    by (cases "get_config_panel std_env
                  (the_panel\<lparr>filter_key := (case Some ''p1.s1.o1'' of None \<Rightarrow> '''' | Some k \<Rightarrow> k)\<rparr>)
                  ?w")
       (auto simp: raised_def split: sum.splits)
  have t0: "trace ?w = []" "config_path the_panel = ''/etc/panel.toml''"
    by (simp_all add: world_with_def initial_world_def the_panel_def ConfigPanel_init_def)
  show ?thesis
    using set_arguments_checked_before_settings [OF v a run] ex t0 by auto
qed

text \<open>
  C6 (as stated) fails: the validation error comes after the schema file has been looked
  for and read, and with a key of four segments the exception is not a validation error.
\<close>

theorem set_arguments_checked_after_schema_counterexample:
  "fst (ConfigPanel_set std_env the_panel (Some ''p1.s1.o1'') (PStr ''yes'')
          (Some ''o1=no'') None (Some OperationLogger)
          (world_with (one_option_toml (PFloat 1) ''o1'' [(''type'', PStr ''boolean'')])
             (Some (PDict [(''o1'', PInt 0)]))))
     = Inl (YunohostValidationError
         ''You should either provide a value, or a serie of args/args_file, but not both at the same time''
         [])
   \<and> trace (snd (ConfigPanel_set std_env the_panel (Some ''p1.s1.o1'') (PStr ''yes'')
          (Some ''o1=no'') None (Some OperationLogger)
          (world_with (one_option_toml (PFloat 1) ''o1'' [(''type'', PStr ''boolean'')])
             (Some (PDict [(''o1'', PInt 0)])))))
     = [EvExists ''/etc/panel.toml'', EvReadToml ''/etc/panel.toml'']
   \<and> fst (ConfigPanel_set std_env the_panel (Some ''p1.s1.o1.x'') (PStr ''yes'')
          None None (Some OperationLogger)
          (world_with (one_option_toml (PFloat 1) ''o1'' [(''type'', PStr ''boolean'')])
             (Some (PDict [(''o1'', PInt 0)]))))
     = Inl (YunohostError ''The filter key has too many sub-levels, the max is 3.''
              [(''filter_key'', PList [PStr ''p1'', PStr ''s1'', PStr ''o1'', PStr ''x''])])"
  by code_simp

section \<open>Password options with a default\<close>

text \<open>
  C8 (as the code has it).  The default of a password option is rejected when the
  question object is built, that is when \<^verbatim>\<open>set\<close> asks the questions of its section
  (after the schema is loaded and hydrated): for a password option with a name and a
  default other than \<^verbatim>\<open>None\<close> and the empty string, the step of
  \<^verbatim>\<open>ask_questions_and_parse_answers\<close> for it raises the validation error
  \<^verbatim>\<open>app_argument_password_no_default\<close> and changes nothing.
\<close>

theorem password_default_rejected_when_asked:
  assumes "map_of option ''type'' = Some (PStr ''password'')"
    and "map_of option ''name'' = Some (PStr k)"
    and "map_of option ''default'' = Some d"
    and "d \<noteq> PNone" and "d \<noteq> PStr ''''"
  shows "ask_one E (PDict answers) (PDict option) w
           = (Inl (YunohostValidationError ''app_argument_password_no_default''
                     [(''name'', PStr k)]), w)"
proof -
  have cls: "question_class_of (dict_get option ''type'' (PStr ''string'')) = Inr PasswordQuestion"
    using assms(1) by (simp add: dict_get_def question_class_of_def ARGUMENTS_TYPE_PARSERS_def)
  have pre: "prefilled_get (PDict answers) option = Inr (dict_get answers k PNone)"
    using assms(2) by (simp add: prefilled_get_def dict_getitem_def)
  let ?o = "dict_set option ''value'' (dict_get answers k PNone)"
  have nm: "dict_getitem ?o ''name'' = Inr (PStr k)"
    using assms(2) by (simp add: dict_getitem_def dict_set_def update_conv')
  have df: "dict_get ?o ''default'' PNone = d"
    using assms(3) by (simp add: dict_get_def dict_set_def update_conv')
  have ne: "\<not> py_eq d (PStr '''')"
    using assms(5) by (cases d) (auto simp: py_eq_def)
  have "new_question E PasswordQuestion ?o
          = Inl (YunohostValidationError ''app_argument_password_no_default'' [(''name'', PStr k)])"
    using nm df ne assms(4) by (simp add: new_question_def Question_init_def Let_def)
  with cls pre show ?thesis by (simp add: ask_one_def)
qed

theorem password_default_rejected_when_asked_witness:
  "fst (ask_one std_env (PDict [(''pw'', PStr ''Sup3rS3cret!'')])
          (PDict [(''type'', PStr ''password''), (''default'', PStr ''hunter2''),
                  (''id'', PStr ''pw''), (''name'', PStr ''pw''), (''optional'', PBool True),
                  (''current_value'', PStr ''hunter2'')])
          initial_world)
     = Inl (YunohostValidationError ''app_argument_password_no_default'' [(''name'', PStr ''pw'')])
   \<and> fst (ConfigPanel_set std_env the_panel (Some ''p1.s1.pw'') (PStr ''Sup3rS3cret!'')
            None None (Some OperationLogger)
            (world_with (one_option_toml (PFloat 1) ''pw''
                           [(''type'', PStr ''password''), (''default'', PStr ''hunter2'')]) None))
     = Inl (YunohostValidationError ''app_argument_password_no_default'' [(''name'', PStr ''pw'')])
   \<and> trace (snd (ConfigPanel_set std_env the_panel (Some ''p1.s1.pw'') (PStr ''Sup3rS3cret!'')
            None None (Some OperationLogger)
            (world_with (one_option_toml (PFloat 1) ''pw''
                           [(''type'', PStr ''password''), (''default'', PStr ''hunter2'')]) None)))
     = [EvExists ''/etc/panel.toml'', EvReadToml ''/etc/panel.toml'',
        EvExists ''/etc/settings.yml'']"
proof -
  let ?opt = "[(''type'', PStr ''password''), (''default'', PStr ''hunter2''),
               (''id'', PStr ''pw''), (''name'', PStr ''pw''), (''optional'', PBool True),
               (''current_value'', PStr ''hunter2'')]"
  have 1: "map_of ?opt ''type'' = Some (PStr ''password'')" by simp
  have 2: "map_of ?opt ''name'' = Some (PStr ''pw'')" by simp
  have 3: "map_of ?opt ''default'' = Some (PStr ''hunter2'')" by simp
  have 4: "PStr ''hunter2'' \<noteq> PNone" by simp
  have 5: "PStr ''hunter2'' \<noteq> PStr ''''" by simp
  have s: "fst (ConfigPanel_set std_env the_panel (Some ''p1.s1.pw'') (PStr ''Sup3rS3cret!'')
            None None (Some OperationLogger)
            (world_with (one_option_toml (PFloat 1) ''pw''
                           [(''type'', PStr ''password''), (''default'', PStr ''hunter2'')]) None))
     = Inl (YunohostValidationError ''app_argument_password_no_default'' [(''name'', PStr ''pw'')])
   \<and> trace (snd (ConfigPanel_set std_env the_panel (Some ''p1.s1.pw'') (PStr ''Sup3rS3cret!'')
            None None (Some OperationLogger)
            (world_with (one_option_toml (PFloat 1) ''pw''
                           [(''type'', PStr ''password''), (''default'', PStr ''hunter2'')]) None)))
     = [EvExists ''/etc/panel.toml'', EvReadToml ''/etc/panel.toml'',
        EvExists ''/etc/settings.yml'']"
    by code_simp
  show ?thesis
    using password_default_rejected_when_asked [OF 1 2 3 4 5,
        of std_env "[(''pw'', PStr ''Sup3rS3cret!'')]" initial_world] s
    by simp
qed

text \<open>
  C8 (as stated) fails: a schema whose password option declares the default
  \<^verbatim>\<open>hunter2\<close> is loaded without an error, and \<^verbatim>\<open>get\<close> on it answers.
\<close>

theorem password_default_loads_counterexample:
  "raised (fst (get_config_panel std_env (the_panel\<lparr>filter_key := ''p1.s1.pw''\<rparr>)
                  (world_with (one_option_toml (PFloat 1) ''pw''
                                 [(''type'', PStr ''password''), (''default'', PStr ''hunter2'')])
                     None))) = None
   \<and> fst (ConfigPanel_get std_env the_panel (Some ''p1.s1'') ''classic''
            (world_with (one_option_toml (PFloat 1) ''pw''
                           [(''type'', PStr ''password''), (''default'', PStr ''hunter2'')]) None))
     = Inr (PDict [(''p1.s1.pw'',
                    PDict [(''ask'', PNone), (''value'', PStr ''**************'')])])"
  by code_simp

section \<open>Reading one option\<close>

lemma get_config_panel_filter_key:
  "get_config_panel E s w0 = (Inr s', w1) \<Longrightarrow> filter_key s' = filter_key s"
  by (auto simp: get_config_panel_def Let_def bindE_def
      split: if_splits prod.splits sum.splits)

lemma load_current_values_filter_key:
  "load_current_values s w0 = (Inr s', w1) \<Longrightarrow> filter_key s' = filter_key s"
  by (auto simp: load_current_values_def Let_def bindE_def
      split: if_splits prod.splits sum.splits option.splits pyval.splits)

lemma hydrate_keeps:
  "hydrate E s = Inr s' \<Longrightarrow> filter_key s' = filter_key s \<and> cp_values s' = cp_values s"
  by (auto simp: hydrate_def bindP_def split: prod.splits sum.splits)

text \<open>
  C9.  When \<^verbatim>\<open>get\<close> is called in classic mode with a key of three segments and returns,
  what it returns is the value stored for the last segment in the values just read
  (the defaults updated with the saved settings), as it is: no \<^verbatim>\<open>humanize\<close>, no mask.
  For a password option this is the secret itself.
\<close>

theorem get_classic_option_is_raw:
  assumes "count_char CHR ''.'' key = 2"
    and "ConfigPanel_get E self (Some key) ''classic'' w = (Inr r, w')"
  shows "\<exists>self1 w1 self2.
           get_config_panel E (self\<lparr>filter_key := key\<rparr>) w = (Inr self1, w1)
         \<and> load_current_values self1 w1 = (Inr self2, w')
         \<and> r = dict_get (cp_values self2) (last (split_on CHR ''.'' key)) PNone"
proof -
  from assms(2) obtain self1 w1 where
    g: "get_config_panel E (self\<lparr>filter_key := key\<rparr>) w = (Inr self1, w1)"
    by (auto simp: ConfigPanel_get_def Let_def bindE_Inr_iff)
  with assms(2) have ne: "config self1 \<noteq> []"
    by (auto simp: ConfigPanel_get_def Let_def split: if_splits)
  with assms(2) g obtain self2 w2 where
    l: "load_current_values self1 w1 = (Inr self2, w2)"
    by (auto simp: ConfigPanel_get_def Let_def bindE_Inr_iff)
  with assms(2) g ne obtain self3 where
    h: "hydrate E self2 = Inr self3"
    by (auto simp: ConfigPanel_get_def Let_def bindE_Inr_iff)
  have "filter_key self3 = key"
    using get_config_panel_filter_key [OF g] load_current_values_filter_key [OF l]
      hydrate_keeps [OF h] by simp
  with assms g ne l h hydrate_keeps [OF h]
  have "r = dict_get (cp_values self2) (last (split_on CHR ''.'' key)) PNone \<and> w' = w2"
    by (simp add: ConfigPanel_get_def Let_def)
  with g l show ?thesis by blast
qed

theorem get_classic_option_is_raw_witness:
  "count_char CHR ''.'' ''p1.s1.pw'' = 2
   \<and> fst (ConfigPanel_get std_env the_panel (Some ''p1.s1.pw'') ''classic''
            (world_with (one_option_toml (PFloat 1) ''pw'' [(''type'', PStr ''password'')])
               (Some (PDict [(''pw'', PStr ''s3cret'')]))))
     = Inr (PStr ''s3cret'')
   \<and> fst (ConfigPanel_get std_env the_panel (Some ''p1.s1'') ''classic''
            (world_with (one_option_toml (PFloat 1) ''pw'' [(''type'', PStr ''password'')])
               (Some (PDict [(''pw'', PStr ''s3cret'')]))))
     = Inr (PDict [(''p1.s1.pw'',
                    PDict [(''ask'', PNone), (''value'', PStr ''**************'')])])
   \<and> (\<exists>self1 w1 (self2 :: ConfigPanel).
         get_config_panel std_env (the_panel\<lparr>filter_key := ''p1.s1.pw''\<rparr>)
           (world_with (one_option_toml (PFloat 1) ''pw'' [(''type'', PStr ''password'')])
              (Some (PDict [(''pw'', PStr ''s3cret'')]))) = (Inr self1, w1)
       \<and> PStr ''s3cret'' = dict_get (cp_values self2) (last (split_on CHR ''.'' ''p1.s1.pw'')) PNone)"
proof -
  let ?w = "world_with (one_option_toml (PFloat 1) ''pw'' [(''type'', PStr ''password'')])
              (Some (PDict [(''pw'', PStr ''s3cret'')]))"
  let ?run = "ConfigPanel_get std_env the_panel (Some ''p1.s1.pw'') ''classic'' ?w"
  have c: "count_char CHR ''.'' ''p1.s1.pw'' = 2" by code_simp
  have r: "fst ?run = Inr (PStr ''s3cret'')" by code_simp
  then have run: "?run = (Inr (PStr ''s3cret''), snd ?run)"
    by (cases ?run) simp
  have m: "fst (ConfigPanel_get std_env the_panel (Some ''p1.s1'') ''classic'' ?w)
     = Inr (PDict [(''p1.s1.pw'',
                    PDict [(''ask'', PNone), (''value'', PStr ''**************'')])])"
    by code_simp
  from get_classic_option_is_raw [OF c run]
  have "\<exists>self1 w1 (self2 :: ConfigPanel).
      get_config_panel std_env (the_panel\<lparr>filter_key := ''p1.s1.pw''\<rparr>) ?w = (Inr self1, w1)
    \<and> PStr ''s3cret'' = dict_get (cp_values self2) (last (split_on CHR ''.'' ''p1.s1.pw'')) PNone"
    by blast
  with c r m show ?thesis by (intro conjI)
qed

section \<open>What \<^verbatim>\<open>set\<close> does from the apply step on\<close>

lemma ok_result:
  "raised (fst p) = None \<Longrightarrow> p = (Inr (projr (fst p)), snd p)"
  by (cases p; cases "fst p") (auto simp: raised_def)

lemma path_exists_simps [simp]:
  "fst (path_exists p w) = (fs w p \<noteq> None)"
  "snd (path_exists p w) = emit (EvExists p) w"
  by (simp_all add: path_exists_def)

lemma emit_fields [simp]:
  "fs (emit e w) = fs w" "upload_dirs (emit e w) = upload_dirs w"
  "trace (emit e w) = trace w @ [e]" "inputs (emit e w) = inputs w"
  by (simp_all add: emit_def)

lemma rmtree_frame:
  assumes "rmtree E d w = (r, w')"
  shows "upload_dirs w' = upload_dirs w" and "trace w' = trace w @ [EvRmtree d]"
    and "fs w p = None \<Longrightarrow> fs w' p = None"
    and "r = Inr u \<Longrightarrow> fs w' d = None"
    and "r = Inl e \<Longrightarrow> rmtree_fault E d = Some e"
  using assms by (auto simp: rmtree_def split: option.splits)

lemma clean_dirs_keeps_none:
  "clean_dirs E ds w = (r, w') \<Longrightarrow> fs w p = None \<Longrightarrow> fs w' p = None"
proof (induction ds arbitrary: w)
  case Nil
  then show ?case by simp
next
  case (Cons a ds)
  show ?case
  proof (cases "fs w a \<noteq> None")
    case False
    with Cons.prems have "clean_dirs E ds (emit (EvExists a) w) = (r, w')"
      by (simp add: path_exists_def)
    from Cons.IH [OF this] Cons.prems(2) show ?thesis by simp
  next
    case True
    obtain ra wa where a: "rmtree E a (emit (EvExists a) w) = (ra, wa)"
      by (cases "rmtree E a (emit (EvExists a) w)")
    from rmtree_frame(3) [OF a, of p] Cons.prems(2) have n: "fs wa p = None" by simp
    show ?thesis
    proof (cases ra)
      case (Inl e)
      with Cons.prems(1) True a have "w' = wa" by (simp add: path_exists_def)
      with n show ?thesis by simp
    next
      case (Inr u)
      with Cons.prems(1) True a have "clean_dirs E ds wa = (r, w')"
        by (simp add: path_exists_def)
      from Cons.IH [OF this n] show ?thesis .
    qed
  qed
qed

lemma clean_dirs_removes:
  "clean_dirs E ds w = (Inr u, w') \<Longrightarrow> d \<in> set ds \<Longrightarrow> fs w' d = None"
proof (induction ds arbitrary: w)
  case Nil
  then show ?case by simp
next
  case (Cons a ds)
  show ?case
  proof (cases "fs w a \<noteq> None")
    case False
    with Cons.prems have c: "clean_dirs E ds (emit (EvExists a) w) = (Inr u, w')"
      by (simp add: path_exists_def)
    show ?thesis
    proof (cases "d = a")
      case True
      with False have "fs (emit (EvExists a) w) d = None" by simp
      from clean_dirs_keeps_none [OF c this] show ?thesis .
    next
      case False
      with Cons.prems(2) have "d \<in> set ds" by simp
      from Cons.IH [OF c this] show ?thesis .
    qed
  next
    case True
    obtain ra wa where a: "rmtree E a (emit (EvExists a) w) = (ra, wa)"
      by (cases "rmtree E a (emit (EvExists a) w)")
    from Cons.prems(1) True a obtain v where ra: "ra = Inr v"
      and c: "clean_dirs E ds wa = (Inr u, w')"
      by (cases ra) (simp_all add: path_exists_def)
    show ?thesis
    proof (cases "d = a")
      case True
      with rmtree_frame(4) [OF a ra] have "fs wa d = None" by simp
      from clean_dirs_keeps_none [OF c this] show ?thesis .
    next
      case False
      with Cons.prems(2) have "d \<in> set ds" by simp
      from Cons.IH [OF c this] show ?thesis .
    qed
  qed
qed

lemma clean_dirs_returns:
  "\<forall>d \<in> set ds. rmtree_fault E d = None \<Longrightarrow> \<exists>w'. clean_dirs E ds w = (Inr (), w')"
proof (induction ds arbitrary: w)
  case Nil
  then show ?case by simp
next
  case (Cons a ds)
  from Cons.prems have a: "rmtree_fault E a = None" and r: "\<forall>d \<in> set ds. rmtree_fault E d = None"
    by simp_all
  from Cons.IH [OF r] a show ?case
    by (simp add: path_exists_def rmtree_def)
qed

lemma clean_dirs_frame:
  "clean_dirs E ds w = (r, w') \<Longrightarrow>
     upload_dirs w' = upload_dirs w
   \<and> (\<exists>t. trace w' = trace w @ t \<and> operation_logger_calls t = [])"
proof (induction ds arbitrary: w)
  case Nil
  then show ?case by (simp add: operation_logger_calls_def)
next
  case (Cons a ds)
  show ?case
  proof (cases "fs w a \<noteq> None")
    case False
    with Cons.prems have "clean_dirs E ds (emit (EvExists a) w) = (r, w')"
      by (simp add: path_exists_def)
    from Cons.IH [OF this] obtain t where
      "upload_dirs w' = upload_dirs w" "trace w' = trace w @ (EvExists a # t)"
      "operation_logger_calls t = []"
      by auto
    then show ?thesis
      by (auto simp: operation_logger_calls_def)
  next
    case True
    obtain ra wa where a: "rmtree E a (emit (EvExists a) w) = (ra, wa)"
      by (cases "rmtree E a (emit (EvExists a) w)")
    from rmtree_frame(1,2) [OF a] have wa: "upload_dirs wa = upload_dirs w"
      "trace wa = trace w @ [EvExists a, EvRmtree a]"
      by simp_all
    show ?thesis
    proof (cases ra)
      case (Inl e)
      with Cons.prems True a have "w' = wa" by (simp add: path_exists_def)
      with wa show ?thesis by (auto simp: operation_logger_calls_def)
    next
      case (Inr u)
      with Cons.prems True a have "clean_dirs E ds wa = (r, w')"
        by (simp add: path_exists_def)
      from Cons.IH [OF this] wa obtain t where
        "upload_dirs w' = upload_dirs w" "trace w' = trace w @ (EvExists a # EvRmtree a # t)"
        "operation_logger_calls t = []"
        by auto
      then show ?thesis
        by (auto simp: operation_logger_calls_def)
    qed
  qed
qed

lemma write_to_yaml_frame:
  "write_to_yaml E p d w = (r, w') \<Longrightarrow>
     upload_dirs w' = upload_dirs w
   \<and> (\<exists>t. trace w' = trace w @ t \<and> operation_logger_calls t = [])
   \<and> (\<forall>u. r = Inr u \<longrightarrow> trace w' = trace w @ [EvWriteYaml p d])"
  by (auto simp: write_to_yaml_def operation_logger_calls_def split: option.splits)

lemma ConfigPanel_apply_frame:
  assumes "ConfigPanel_apply E self w = (r, w')"
  shows "upload_dirs w' = upload_dirs w"
    and "\<exists>t. trace w' = trace w @ t \<and> operation_logger_calls t = []"
    and "r = Inr u \<Longrightarrow>
         \<exists>sp d t. save_path self = Some sp \<and> trace w' = trace w @ t \<and> EvWriteYaml sp d \<in> set t"
proof -
  show "upload_dirs w' = upload_dirs w"
    using assms
    by (auto simp: ConfigPanel_apply_def Let_def path_exists_def
        split: option.splits if_splits sum.splits dest!: write_to_yaml_frame)
  show "\<exists>t. trace w' = trace w @ t \<and> operation_logger_calls t = []"
  proof (cases "save_path self")
    case None
    with assms show ?thesis
      by (simp add: ConfigPanel_apply_def operation_logger_calls_def)
  next
    case (Some sp)
    let ?w1 = "emit (EvExists (dirname sp)) w"
    let ?w2 = "if fs w (dirname sp) = None
               then (emit (EvMkdir (dirname sp)) ?w1)\<lparr>fs := (fs ?w1)(dirname sp \<mapsto> Dir)\<rparr>
               else ?w1"
    have t2: "\<exists>t. trace ?w2 = trace w @ t \<and> operation_logger_calls t = []"
      by (simp add: operation_logger_calls_def)
    have "w' = ?w2 \<or> (\<exists>d. write_to_yaml E sp d ?w2 = (r, w'))"
      using assms Some
      by (auto simp: ConfigPanel_apply_def Let_def path_exists_def
          split: option.splits if_splits sum.splits)
    then show ?thesis
    proof
      assume "w' = ?w2"
      with t2 show ?thesis by simp
    next
      assume "\<exists>d. write_to_yaml E sp d ?w2 = (r, w')"
      then obtain d where "write_to_yaml E sp d ?w2 = (r, w')" by blast
      from write_to_yaml_frame [OF this] obtain t' where
        t': "trace w' = trace ?w2 @ t'" "operation_logger_calls t' = []"
        by blast
      from t2 obtain t where t: "trace ?w2 = trace w @ t" "operation_logger_calls t = []"
        by blast
      from t t' have "trace w' = trace w @ (t @ t')" "operation_logger_calls (t @ t') = []"
        by (simp_all add: operation_logger_calls_def)
      then show ?thesis by blast
    qed
  qed
  show "\<exists>sp d t. save_path self = Some sp \<and> trace w' = trace w @ t \<and> EvWriteYaml sp d \<in> set t"
    if "r = Inr u"
    using assms that
    by (auto simp: ConfigPanel_apply_def Let_def path_exists_def
        split: option.splits if_splits sum.splits dest!: write_to_yaml_frame)
qed

lemma apply_handled_frame:
  assumes "apply_handled E self w = (r, w')"
  shows "upload_dirs w' = upload_dirs w"
    and "\<exists>t. trace w' = trace w @ t \<and> operation_logger_calls t = []"
    and "r = Inr u \<Longrightarrow>
         \<exists>sp d t. save_path self = Some sp \<and> trace w' = trace w @ t \<and> EvWriteYaml sp d \<in> set t"
    and "ConfigPanel_apply E self w = (Inl e, wa) \<Longrightarrow> r = Inl e"
proof -
  obtain ra wb where a: "ConfigPanel_apply E self w = (ra, wb)"
    by (cases "ConfigPanel_apply E self w")
  note f = ConfigPanel_apply_frame [OF a]
  from assms a f(1) show "upload_dirs w' = upload_dirs w"
    by (auto simp: apply_handled_def split: sum.splits if_splits)
  from f(2) obtain t where t: "trace wb = trace w @ t" "operation_logger_calls t = []"
    by blast
  from assms a have "w' = wb \<or> (\<exists>m. w' = emit (EvLogError m) wb)"
    by (auto simp: apply_handled_def config_apply_failed_def split: sum.splits if_splits)
  then show "\<exists>t. trace w' = trace w @ t \<and> operation_logger_calls t = []"
  proof
    assume "w' = wb"
    with t show ?thesis by blast
  next
    assume "\<exists>m. w' = emit (EvLogError m) wb"
    then obtain m where "w' = emit (EvLogError m) wb" by blast
    with t have "trace w' = trace w @ (t @ [EvLogError m])"
      "operation_logger_calls (t @ [EvLogError m]) = []"
      by (simp_all add: operation_logger_calls_def)
    then show ?thesis by blast
  qed
  show "\<exists>sp d t. save_path self = Some sp \<and> trace w' = trace w @ t \<and> EvWriteYaml sp d \<in> set t"
    if "r = Inr u"
  proof -
    from assms a that have "ra = Inr u" "w' = wb"
      by (auto simp: apply_handled_def split: sum.splits)
    with f(3) [of u] show ?thesis by simp
  qed
  show "r = Inl e" if "ConfigPanel_apply E self w = (Inl e, wa)"
    using assms that by (simp add: apply_handled_def)
qed

lemma apply_guarded_frame:
  assumes "apply_guarded E self w = (r, w')"
  shows "upload_dirs w' = upload_dirs w"
    and "\<exists>t. trace w' = trace w @ t \<and> operation_logger_calls t = []"
    and "r = Inr u \<Longrightarrow>
         \<exists>sp d t. save_path self = Some sp \<and> trace w' = trace w @ t \<and> EvWriteYaml sp d \<in> set t"
    and "\<forall>d \<in> set (upload_dirs w). rmtree_fault E d = None \<Longrightarrow>
         (\<forall>d \<in> set (upload_dirs w). fs w' d = None)
         \<and> (\<forall>e wa. ConfigPanel_apply E self w = (Inl e, wa) \<longrightarrow> r = Inl e)"
    and "apply_handled E self w = (rh, wh) \<Longrightarrow> clean_upload_dirs E wh = (Inl e, wc) \<Longrightarrow>
         r = Inl e \<and> w' = wc"
proof -
  obtain ra wa where a: "apply_handled E self w = (ra, wa)"
    by (cases "apply_handled E self w")
  obtain rc wb where c: "clean_dirs E (upload_dirs wa) wa = (rc, wb)"
    by (cases "clean_dirs E (upload_dirs wa) wa")
  note fa = apply_handled_frame [OF a]
  note fc = clean_dirs_frame [OF c]
  from assms a c have w': "w' = wb"
    by (auto simp: apply_guarded_def clean_upload_dirs_def split: sum.splits)
  from assms a c have r: "rc = Inr () \<Longrightarrow> r = ra"
    by (auto simp: apply_guarded_def clean_upload_dirs_def split: sum.splits)
  from w' fa(1) fc show "upload_dirs w' = upload_dirs w" by simp
  from fa(2) fc obtain t t' where
    t: "trace wa = trace w @ t" "operation_logger_calls t = []"
      "trace wb = trace wa @ t'" "operation_logger_calls t' = []"
    by blast
  then have tt: "trace wb = trace w @ (t @ t')" "operation_logger_calls (t @ t') = []"
    by (simp_all add: operation_logger_calls_def)
  with w' show "\<exists>t. trace w' = trace w @ t \<and> operation_logger_calls t = []" by blast
  show "\<exists>sp d t. save_path self = Some sp \<and> trace w' = trace w @ t \<and> EvWriteYaml sp d \<in> set t"
    if "r = Inr u"
  proof -
    from assms a c that have "ra = Inr u"
      by (auto simp: apply_guarded_def clean_upload_dirs_def split: sum.splits)
    from fa(3) [OF this] obtain sp d s where
      sp: "save_path self = Some sp" "trace wa = trace w @ s" "EvWriteYaml sp d \<in> set s"
      by blast
    with t(3) w' have "trace w' = trace w @ (s @ t')" "EvWriteYaml sp d \<in> set (s @ t')"
      by simp_all
    with sp(1) show ?thesis by blast
  qed
  show "(\<forall>d \<in> set (upload_dirs w). fs w' d = None)
         \<and> (\<forall>e wa. ConfigPanel_apply E self w = (Inl e, wa) \<longrightarrow> r = Inl e)"
    if h: "\<forall>d \<in> set (upload_dirs w). rmtree_fault E d = None"
  proof -
    from h fa(1) have "\<forall>d \<in> set (upload_dirs wa). rmtree_fault E d = None" by simp
    from clean_dirs_returns [OF this, of wa] c have rc: "rc = Inr ()" by simp
    with c have "clean_dirs E (upload_dirs wa) wa = (Inr (), wb)" by simp
    from clean_dirs_removes [OF this] fa(1) w'
    have 1: "\<forall>d \<in> set (upload_dirs w). fs w' d = None" by simp
    from r [OF rc] fa(4) have 2: "\<forall>e wa. ConfigPanel_apply E self w = (Inl e, wa) \<longrightarrow> r = Inl e"
      by blast
    from 1 2 show ?thesis by blast
  qed
  show "r = Inl e \<and> w' = wc"
    if "apply_handled E self w = (rh, wh)" "clean_upload_dirs E wh = (Inl e, wc)"
    using assms that by (simp add: apply_guarded_def)
qed

lemma reload_each_frame:
  "reload_each E self ss w = (r, w') \<Longrightarrow>
     fs w' = fs w \<and> upload_dirs w' = upload_dirs w
   \<and> (\<exists>t. trace w' = trace w @ t \<and> operation_logger_calls t = [])"
proof (induction ss arbitrary: w)
  case Nil
  then show ?case by (simp add: operation_logger_calls_def)
next
  case (Cons s ss)
  let ?s = "case app self of Some a \<Rightarrow> replace_str s ''__APP__'' a | None \<Rightarrow> s"
  show ?case
  proof (cases "service_reload_or_restart E ?s")
    case None
    with Cons.prems have "reload_each E self ss (emit (EvReload ?s) w) = (r, w')"
      by (simp add: Let_def)
    from Cons.IH [OF this] obtain t where
      "fs w' = fs w" "upload_dirs w' = upload_dirs w" "trace w' = trace w @ (EvReload ?s # t)"
      "operation_logger_calls t = []"
      by auto
    then show ?thesis
      by (auto simp: operation_logger_calls_def)
  next
    case (Some e)
    with Cons.prems have "w' = emit (EvReload ?s) w" by (auto simp: Let_def)
    then show ?thesis by (auto simp: operation_logger_calls_def)
  qed
qed

lemma reload_services_frame:
  "reload_services E self w = (r, w') \<Longrightarrow>
     fs w' = fs w \<and> upload_dirs w' = upload_dirs w
   \<and> (\<exists>t. trace w' = trace w @ t \<and> operation_logger_calls t = [])"
proof -
  assume a: "reload_services E self w = (r, w')"
  show ?thesis
  proof (cases "services_of (fst (iterate [''panel'', ''section'', ''option''] (config self)))
                  (snd (iterate [''panel'', ''section'', ''option''] (config self))) []")
    case (Inl e)
    with a have "w' = w" by (simp add: reload_services_def split: prod.splits)
    then show ?thesis by (simp add: operation_logger_calls_def)
  next
    case (Inr services)
    with a have "reload_each E self
                   (filter (\<lambda>s. s \<noteq> ''nginx'') services @ filter (\<lambda>s. s = ''nginx'') services) w
                 = (r, w')"
      by (simp add: reload_services_def split: prod.splits)
    from reload_each_frame [OF this] show ?thesis .
  qed
qed

lemma set_prepare_started:
  assumes "set_prepare E self key val args_str args_file oplog w = (Inr self1, w1)"
    and "oplog \<noteq> None"
  shows "\<exists>t. trace w1 = t @ [EvOperationStart]"
  using assms
  by (auto simp: set_prepare_def Let_def bindE_Inr_iff split: if_splits)

text \<open>
  C2 (as the code has it).  Once \<^verbatim>\<open>set\<close> has reached its apply step (the schema is
  loaded, the values are read, the questions are answered and the operation logger, if
  there is one, has just been started), then:
  \<^item> where \<^verbatim>\<open>shutil.rmtree\<close> raises on none of the upload directories recorded by the
    file questions, every one of them is gone from the file system when \<^verbatim>\<open>set\<close> returns
    or raises, and an exception of the apply step is the exception of \<^verbatim>\<open>set\<close>;
  \<^item> where the cleanup of the \<^verbatim>\<open>finally\<close> clause raises, its exception is the exception
    of \<^verbatim>\<open>set\<close>, in place of the outcome of the apply step, and \<^verbatim>\<open>set\<close> ends in the state
    the cleanup has left;
  \<^item> where \<^verbatim>\<open>set\<close> raises, nothing has been called on the operation logger since its
    start; where \<^verbatim>\<open>set\<close> returns, the one call since then is \<^verbatim>\<open>success()\<close>, last of all.
\<close>

theorem upload_dirs_removed_once_apply_is_reached:
  assumes "set_prepare E self key val args_str args_file oplog w = (Inr self1, w1)"
    and "ConfigPanel_set E self key val args_str args_file oplog w = (r, w')"
  shows "((\<forall>d \<in> set (upload_dirs w1). rmtree_fault E d = None) \<longrightarrow>
            (\<forall>d \<in> set (upload_dirs w1). fs w' d = None)
          \<and> (\<forall>e wa. ConfigPanel_apply E self1 w1 = (Inl e, wa) \<longrightarrow> r = Inl e))
       \<and> (\<forall>rh wh e wc. apply_handled E self1 w1 = (rh, wh)
             \<and> clean_upload_dirs E wh = (Inl e, wc) \<longrightarrow> r = Inl e \<and> w' = wc)
       \<and> (oplog \<noteq> None \<longrightarrow> (\<exists>t. trace w1 = t @ [EvOperationStart]))
       \<and> (\<forall>e. r = Inl e \<longrightarrow>
             (\<exists>t. trace w' = trace w1 @ t \<and> operation_logger_calls t = []))
       \<and> (\<forall>s. r = Inr s \<longrightarrow>
             (\<exists>t. trace w' = trace w1 @ t @ [EvOperationSuccess]
                  \<and> operation_logger_calls t = []))"
proof -
  obtain ra wa where a: "apply_guarded E self1 w1 = (ra, wa)"
    by (cases "apply_guarded E self1 w1")
  note f = apply_guarded_frame [OF a]
  from f(2) obtain ta where ta: "trace wa = trace w1 @ ta" "operation_logger_calls ta = []"
    by blast
  have 3: "oplog \<noteq> None \<longrightarrow> (\<exists>t. trace w1 = t @ [EvOperationStart])"
    using set_prepare_started [OF assms(1)] by blast
  show ?thesis
  proof (cases ra)
    case (Inl e)
    with assms a have rw: "r = Inl e" "w' = wa"
      by (simp_all add: ConfigPanel_set_def)
    have 1: "(\<forall>d \<in> set (upload_dirs w1). rmtree_fault E d = None) \<longrightarrow>
            (\<forall>d \<in> set (upload_dirs w1). fs w' d = None)
          \<and> (\<forall>e wa. ConfigPanel_apply E self1 w1 = (Inl e, wa) \<longrightarrow> r = Inl e)"
    proof (intro impI)
      assume "\<forall>d \<in> set (upload_dirs w1). rmtree_fault E d = None"
      from f(4) [OF this] rw Inl
      show "(\<forall>d \<in> set (upload_dirs w1). fs w' d = None)
          \<and> (\<forall>e wa. ConfigPanel_apply E self1 w1 = (Inl e, wa) \<longrightarrow> r = Inl e)"
        by simp
    qed
    have 2: "\<forall>rh wh e wc. apply_handled E self1 w1 = (rh, wh)
             \<and> clean_upload_dirs E wh = (Inl e, wc) \<longrightarrow> r = Inl e \<and> w' = wc"
      using f(5) rw Inl by blast
    have 4: "\<forall>e. r = Inl e \<longrightarrow>
             (\<exists>t. trace w' = trace w1 @ t \<and> operation_logger_calls t = [])"
      using ta rw by blast
    have 5: "\<forall>s. r = Inr s \<longrightarrow>
             (\<exists>t. trace w' = trace w1 @ t @ [EvOperationSuccess]
                  \<and> operation_logger_calls t = [])"
      using rw by simp
    from 1 2 3 4 5 show ?thesis by (intro conjI)
  next
    case (Inr u)
    obtain rb wb where b: "reload_services E self1 wa = (rb, wb)"
      by (cases "reload_services E self1 wa")
    from reload_services_frame [OF b] obtain tb where
      fsb: "fs wb = fs wa" and tb: "trace wb = trace wa @ tb" "operation_logger_calls tb = []"
      by blast
    from ta tb have tab: "trace wb = trace w1 @ (ta @ tb)"
      "operation_logger_calls (ta @ tb) = []"
      by (simp_all add: operation_logger_calls_def)
    have ends: "(\<exists>e. r = Inl e \<and> w' = wb)
                \<or> (\<exists>s. r = Inr s \<and> w' = emit EvOperationSuccess wb)"
      using assms a Inr b by (cases rb; cases oplog) (auto simp: ConfigPanel_set_def)
    then have fsw: "fs w' = fs wb" by auto
    have 1: "(\<forall>d \<in> set (upload_dirs w1). rmtree_fault E d = None) \<longrightarrow>
            (\<forall>d \<in> set (upload_dirs w1). fs w' d = None)
          \<and> (\<forall>e wa. ConfigPanel_apply E self1 w1 = (Inl e, wa) \<longrightarrow> r = Inl e)"
    proof (intro impI)
      assume "\<forall>d \<in> set (upload_dirs w1). rmtree_fault E d = None"
      from f(4) [OF this] Inr
      have "\<forall>d \<in> set (upload_dirs w1). fs wa d = None"
        "\<forall>e wa. ConfigPanel_apply E self1 w1 \<noteq> (Inl e, wa)"
        by auto
      with fsw fsb
      show "(\<forall>d \<in> set (upload_dirs w1). fs w' d = None)
          \<and> (\<forall>e wa. ConfigPanel_apply E self1 w1 = (Inl e, wa) \<longrightarrow> r = Inl e)"
        by simp
    qed
    have 2: "\<forall>rh wh e wc. apply_handled E self1 w1 = (rh, wh)
             \<and> clean_upload_dirs E wh = (Inl e, wc) \<longrightarrow> r = Inl e \<and> w' = wc"
      using f(5) Inr by blast
    have 4: "\<forall>e. r = Inl e \<longrightarrow>
             (\<exists>t. trace w' = trace w1 @ t \<and> operation_logger_calls t = [])"
      using ends tab by auto
    have 5: "\<forall>s. r = Inr s \<longrightarrow>
             (\<exists>t. trace w' = trace w1 @ t @ [EvOperationSuccess]
                  \<and> operation_logger_calls t = [])"
    proof (intro allI impI)
      fix s assume "r = Inr s"
      with ends have "w' = emit EvOperationSuccess wb" by auto
      with tab have "trace w' = trace w1 @ (ta @ tb) @ [EvOperationSuccess]" by simp
      with tab(2) show "\<exists>t. trace w' = trace w1 @ t @ [EvOperationSuccess]
                  \<and> operation_logger_calls t = []"
        by blast
    qed
    from 1 2 3 4 5 show ?thesis by (intro conjI)
  qed
qed

theorem upload_dirs_removed_once_apply_is_reached_witness:
  "upload_dirs (snd (set_prepare (upload_env (Some (OSError ''No space left on device'')))
                       the_panel (Some ''p1.s1'') PNone (Some ''f1=aGk='') None
                       (Some OperationLogger) (upload_world file_toml None)))
     = [''/tmp/ynh_filequestion_0'']
   \<and> fs (snd (ConfigPanel_set (upload_env (Some (OSError ''No space left on device'')))
                the_panel (Some ''p1.s1'') PNone (Some ''f1=aGk='') None
                (Some OperationLogger) (upload_world file_toml None)))
        ''/tmp/ynh_filequestion_0'' = None
   \<and> fst (ConfigPanel_set (upload_env (Some (OSError ''No space left on device'')))
            the_panel (Some ''p1.s1'') PNone (Some ''f1=aGk='') None
            (Some OperationLogger) (upload_world file_toml None))
     = Inl (OSError ''No space left on device'')"
proof -
  let ?E = "upload_env (Some (OSError ''No space left on device''))"
  let ?p = "set_prepare ?E the_panel (Some ''p1.s1'') PNone (Some ''f1=aGk='') None
              (Some OperationLogger) (upload_world file_toml None)"
  let ?run = "ConfigPanel_set ?E the_panel (Some ''p1.s1'') PNone (Some ''f1=aGk='') None
                (Some OperationLogger) (upload_world file_toml None)"
  have "raised (fst ?p) = None" by code_simp
  then have p: "?p = (Inr (projr (fst ?p)), snd ?p)" by (rule ok_result)
  have run: "?run = (fst ?run, snd ?run)" by simp
  have u: "upload_dirs (snd ?p) = [''/tmp/ynh_filequestion_0'']" by code_simp
  have e: "fst ?run = Inl (OSError ''No space left on device'')" by code_simp
  have "rmtree_fault ?E ''/tmp/ynh_filequestion_0'' = None"
    by (simp add: upload_env_def std_env_def)
  with u have "\<forall>d \<in> set (upload_dirs (snd ?p)). rmtree_fault ?E d = None" by simp
  with upload_dirs_removed_once_apply_is_reached [OF p run]
  have "\<forall>d \<in> set (upload_dirs (snd ?p)). fs (snd ?run) d = None" by blast
  with u have "fs (snd ?run) ''/tmp/ynh_filequestion_0'' = None" by simp
  with u e show ?thesis by (intro conjI)
qed

text \<open>
  C2 (as stated) fails.  When the write of the settings fails, \<^verbatim>\<open>set\<close> raises with the
  operation logger started and nothing else called on it.  When the second question of a
  section is refused after a file question has made its upload directory, \<^verbatim>\<open>set\<close>
  raises with the directory still there: that exit path has no cleanup.  And when the
  write of the settings fails and then the removal of the first of two upload
  directories fails, \<^verbatim>\<open>set\<close> raises the error of the removal, not that of the write, and
  the second directory, which the cleanup has not come to, is still there.
\<close>

theorem set_failure_cleanup_counterexample:
  "fst (ConfigPanel_set (upload_env (Some (OSError ''No space left on device''))) the_panel
          (Some ''p1.s1.o1'') (PStr ''yes'') None None (Some OperationLogger)
          (world_with (one_option_toml (PFloat 1) ''o1'' [(''type'', PStr ''boolean'')])
             (Some (PDict [(''o1'', PInt 0)]))))
     = Inl (OSError ''No space left on device'')
   \<and> trace (snd (ConfigPanel_set (upload_env (Some (OSError ''No space left on device'')))
          the_panel (Some ''p1.s1.o1'') (PStr ''yes'') None None (Some OperationLogger)
          (world_with (one_option_toml (PFloat 1) ''o1'' [(''type'', PStr ''boolean'')])
             (Some (PDict [(''o1'', PInt 0)])))))
     = [EvExists ''/etc/panel.toml'', EvReadToml ''/etc/panel.toml'',
        EvExists ''/etc/settings.yml'', EvReadYaml ''/etc/settings.yml'',
        EvOperationStart, EvExists ''/etc'', EvLogError ''config_apply_failed'']
   \<and> fst (ConfigPanel_set (upload_env None) the_panel (Some ''p1.s1'') PNone
          (Some ''f1=aGk=&n1=abc'') None (Some OperationLogger)
          (upload_world file_number_toml (Some (PDict [(''n1'', PInt 3)]))))
     = Inl (YunohostValidationError ''app_argument_invalid''
              [(''name'', PStr ''n1''), (''error'', PStr ''invalid_number'')])
   \<and> upload_dirs (snd (ConfigPanel_set (upload_env None) the_panel (Some ''p1.s1'') PNone
          (Some ''f1=aGk=&n1=abc'') None (Some OperationLogger)
          (upload_world file_number_toml (Some (PDict [(''n1'', PInt 3)])))))
     = [''/tmp/ynh_filequestion_0'']
   \<and> fs (snd (ConfigPanel_set (upload_env None) the_panel (Some ''p1.s1'') PNone
          (Some ''f1=aGk=&n1=abc'') None (Some OperationLogger)
          (upload_world file_number_toml (Some (PDict [(''n1'', PInt 3)])))))
        ''/tmp/ynh_filequestion_0''
     = Some Dir
   \<and> trace (snd (ConfigPanel_set (upload_env None) the_panel (Some ''p1.s1'') PNone
          (Some ''f1=aGk=&n1=abc'') None (Some OperationLogger)
          (upload_world file_number_toml (Some (PDict [(''n1'', PInt 3)])))))
     = [EvExists ''/etc/panel.toml'', EvReadToml ''/etc/panel.toml'',
        EvExists ''/etc/settings.yml'', EvReadYaml ''/etc/settings.yml'',
        EvMkdir ''/tmp/ynh_filequestion_0'', EvWriteFile ''/tmp/ynh_filequestion_0/tmp0'']
   \<and> fst (ConfigPanel_set busy_env the_panel (Some ''p1.s1'') PNone
          (Some ''f1=aGk=&f2=aGk='') None (Some OperationLogger) two_uploads_world)
     = Inl (OSError ''Device or resource busy'')
   \<and> fs (snd (ConfigPanel_set busy_env the_panel (Some ''p1.s1'') PNone
          (Some ''f1=aGk=&f2=aGk='') None (Some OperationLogger) two_uploads_world))
        ''/tmp/ynh_filequestion_1''
     = Some Dir
   \<and> trace (snd (ConfigPanel_set busy_env the_panel (Some ''p1.s1'') PNone
          (Some ''f1=aGk=&f2=aGk='') None (Some OperationLogger) two_uploads_world))
     = [EvExists ''/etc/panel.toml'', EvReadToml ''/etc/panel.toml'',
        EvExists ''/etc/settings.yml'',
        EvMkdir ''/tmp/ynh_filequestion_0'', EvWriteFile ''/tmp/ynh_filequestion_0/tmp0'',
        EvMkdir ''/tmp/ynh_filequestion_1'', EvWriteFile ''/tmp/ynh_filequestion_1/tmp1'',
        EvOperationStart, EvExists ''/etc'', EvLogError ''config_apply_failed'',
        EvExists ''/tmp/ynh_filequestion_0'', EvRmtree ''/tmp/ynh_filequestion_0'']"
  by code_simp

section \<open>\<^verbatim>\<open>set\<close> without an operation logger\<close>

text \<open>
  C10.  With \<^verbatim>\<open>operation_logger=None\<close>, \<^verbatim>\<open>set\<close> never returns; and whenever everything up
  to and including the reload of the services has gone well, it raises the attribute
  error of \<^verbatim>\<open>operation_logger.success()\<close> in the state the reload has left, in which the
  settings have been written since the apply step began.
\<close>

theorem set_without_logger_fails_at_the_end:
  "fst (ConfigPanel_set E self key val args_str args_file None w) \<noteq> Inr self'
   \<and> (set_prepare E self key val args_str args_file None w = (Inr self1, w1)
      \<longrightarrow> apply_guarded E self1 w1 = (Inr (), w2)
      \<longrightarrow> reload_services E self1 w2 = (Inr (), w3)
      \<longrightarrow> ConfigPanel_set E self key val args_str args_file None w
            = (Inl (AttributeError ''NoneType object has no attribute success''), w3)
          \<and> (\<exists>sp d t. save_path self1 = Some sp \<and> trace w3 = trace w1 @ t
                       \<and> EvWriteYaml sp d \<in> set t))"
proof (intro conjI impI)
  show "fst (ConfigPanel_set E self key val args_str args_file None w) \<noteq> Inr self'"
    by (auto simp: ConfigPanel_set_def bindE_def split: prod.splits sum.splits)
next
  assume p: "set_prepare E self key val args_str args_file None w = (Inr self1, w1)"
    and a: "apply_guarded E self1 w1 = (Inr (), w2)"
    and r: "reload_services E self1 w2 = (Inr (), w3)"
  then show "ConfigPanel_set E self key val args_str args_file None w
            = (Inl (AttributeError ''NoneType object has no attribute success''), w3)"
    by (simp add: ConfigPanel_set_def)
  from apply_guarded_frame(3) [OF a refl] obtain sp d t where
    sp: "save_path self1 = Some sp" "trace w2 = trace w1 @ t" "EvWriteYaml sp d \<in> set t"
    by blast
  from reload_services_frame [OF r] obtain t' where "trace w3 = trace w2 @ t'" by blast
  with sp have "trace w3 = trace w1 @ (t @ t')" "EvWriteYaml sp d \<in> set (t @ t')" by simp_all
  with sp(1) show "\<exists>sp d t. save_path self1 = Some sp \<and> trace w3 = trace w1 @ t
                       \<and> EvWriteYaml sp d \<in> set t"
    by blast
qed

theorem set_without_logger_fails_at_the_end_witness:
  "fst (ConfigPanel_set std_env the_panel (Some ''p1.s1.o1'') (PStr ''yes'') None None None
          (world_with (one_option_toml (PFloat 1) ''o1'' [(''type'', PStr ''boolean'')])
             (Some (PDict [(''o1'', PInt 0)]))))
     = Inl (AttributeError ''NoneType object has no attribute success'')
   \<and> fs (snd (ConfigPanel_set std_env the_panel (Some ''p1.s1.o1'') (PStr ''yes'') None None None
          (world_with (one_option_toml (PFloat 1) ''o1'' [(''type'', PStr ''boolean'')])
             (Some (PDict [(''o1'', PInt 0)]))))) ''/etc/settings.yml''
     = Some (Yaml (PDict [(''o1'', PInt 1)]))"
proof -
  let ?w = "world_with (one_option_toml (PFloat 1) ''o1'' [(''type'', PStr ''boolean'')])
              (Some (PDict [(''o1'', PInt 0)]))"
  let ?p = "set_prepare std_env the_panel (Some ''p1.s1.o1'') (PStr ''yes'') None None None ?w"
  let ?a = "apply_guarded std_env (projr (fst ?p)) (snd ?p)"
  let ?r = "reload_services std_env (projr (fst ?p)) (snd ?a)"
  let ?run = "ConfigPanel_set std_env the_panel (Some ''p1.s1.o1'') (PStr ''yes'') None None None ?w"
  have "raised (fst ?p) = None" by code_simp
  then have p: "?p = (Inr (projr (fst ?p)), snd ?p)" by (rule ok_result)
  have "raised (fst ?a) = None" by code_simp
  then have a: "?a = (Inr (), snd ?a)" using ok_result [of ?a] by simp
  have "raised (fst ?r) = None" by code_simp
  then have r: "?r = (Inr (), snd ?r)" using ok_result [of ?r] by simp
  have f: "fs (snd ?run) ''/etc/settings.yml'' = Some (Yaml (PDict [(''o1'', PInt 1)]))"
    by code_simp
  from set_without_logger_fails_at_the_end [of std_env the_panel "Some ''p1.s1.o1''"
      "PStr ''yes''" None None ?w _ "projr (fst ?p)" "snd ?p" "snd ?a" "snd ?r"] p a r
  have "?run = (Inl (AttributeError ''NoneType object has no attribute success''), snd ?r)"
    by blast
  then have "fst ?run = Inl (AttributeError ''NoneType object has no attribute success'')"
    by simp
  with f show ?thesis by (intro conjI)
qed

section \<open>The resolution loop is bounded\<close>

lemma logged_exceptions_simps [simp]:
  "logged_exceptions [] = []"
  "logged_exceptions (t @ u) = logged_exceptions t @ logged_exceptions u"
  "logged_exceptions (EvLogException e # t) = e # logged_exceptions t"
  "logged_exceptions (EvExists p # t) = logged_exceptions t"
  "logged_exceptions (EvDisplay x # t) = logged_exceptions t"
  "logged_exceptions (EvPrompt x # t) = logged_exceptions t"
  "logged_exceptions (EvMkdir p # t) = logged_exceptions t"
  "logged_exceptions (EvReadFile p # t) = logged_exceptions t"
  "logged_exceptions (EvWriteFile p # t) = logged_exceptions t"
  by (simp_all add: logged_exceptions_def)

lemma quiet_refl [simp]: "quiet w w"
  by (simp add: quiet_def)



lemma quiet_emit [simp]:
  "quiet w (emit (EvExists p) w)" "quiet w (emit (EvDisplay x) w)"
  "quiet w (emit (EvPrompt x) w)"
  "quiet w ((emit (EvPrompt x) w)\<lparr>inputs := i\<rparr>)"
  by (simp_all add: quiet_def emit_def)













lemma apply_default_class [simp]: "q_class (apply_default q) = q_class q"
  by (simp add: apply_default_def Let_def)


















lemma upt_0_5: "[0 ..< 5] = [0, 1, 2, 3, 4 :: nat]"
  by (simp add: upt_rec)




section \<open>Writing and reading back one boolean option\<close>

text \<open>The run of \<^verbatim>\<open>set("p1.s1.o1", value="yes")\<close> on the schema with the one boolean
  option, step by step.\<close>

lemma split_key3: "split_on CHR ''.'' ''p1.s1.o1'' = [''p1'', ''s1'', ''o1'']"
  by code_simp

lemma count_key3: "count_char CHR ''.'' ''p1.s1.o1'' = 2"
  by code_simp

lemma load_bool: "load_schema std_env ''p1.s1.o1'' bool_toml = Inr (bool_config bool_option)"
  by code_simp

lemma load_schema_env:
  "dict_getitem toml ''version'' = Inr (PFloat r) \<Longrightarrow> load_schema E k toml = load_schema E' k toml"
  by (simp add: load_schema_def check_version_def py_float_def)

lemma load_bool_schema: "load_schema E ''p1.s1.o1'' bool_toml = Inr (bool_config bool_option)"
proof -
  have "dict_getitem bool_toml ''version'' = Inr (PFloat 1)"
    by (simp add: bool_toml_def one_option_toml_def dict_getitem_def)
  from load_schema_env [OF this, of E "''p1.s1.o1''" std_env] show ?thesis
    by (simp add: load_bool)
qed

lemma bool_panel_object_fields:
  "config_path (bool_panel_object m) = ''/etc/panel.toml''"
  "save_path (bool_panel_object m) = Some ''/etc/settings.yml''"
  "save_mode (bool_panel_object m) = Some m"
  "new_values (bool_panel_object m) = []"
  by (simp_all add: bool_panel_object_def ConfigPanel_init_def)

lemma stage_load:
  assumes "config_path s = ''/etc/panel.toml''" and "filter_key s = ''p1.s1.o1''"
    and "fs w ''/etc/panel.toml'' = Some (Toml bool_toml)"
  shows "get_config_panel E s w
           = (Inr (s\<lparr>config := bool_config bool_option\<rparr>),
              emit (EvReadToml ''/etc/panel.toml'') (emit (EvExists ''/etc/panel.toml'') w))"
  using assms
  by (simp add: get_config_panel_def split_key3 path_exists_def read_toml_def
      load_bool_schema del: split_on.simps)

lemma iterate_option:
  "iterate [''option''] (bool_config opt)
     = ([\<lparr> it_panel = bool_panel opt, it_section = bool_section opt, it_obj = PDict opt,
            it_path = (0, 0, 0) \<rparr>], None)"
  by (simp add: iterate_def bool_config_def bool_panel_def bool_section_def dict_get_def
      py_get_def py_iter_def)

lemma iterate_panel_section:
  "iterate [''panel'', ''section''] (bool_config opt)
     = ([\<lparr> it_panel = bool_panel opt, it_section = PNone, it_obj = bool_panel opt,
            it_path = (0, 0, 0) \<rparr>,
         \<lparr> it_panel = bool_panel opt, it_section = bool_section opt, it_obj = bool_section opt,
            it_path = (0, 0, 0) \<rparr>], None)"
  by (simp add: iterate_def bool_config_def bool_panel_def bool_section_def dict_get_def
      py_get_def py_iter_def)

lemma iterate_all:
  "iterate [''panel'', ''section'', ''option''] (bool_config opt)
     = ([\<lparr> it_panel = bool_panel opt, it_section = PNone, it_obj = bool_panel opt,
            it_path = (0, 0, 0) \<rparr>,
         \<lparr> it_panel = bool_panel opt, it_section = bool_section opt, it_obj = bool_section opt,
            it_path = (0, 0, 0) \<rparr>,
         \<lparr> it_panel = bool_panel opt, it_section = bool_section opt, it_obj = PDict opt,
            it_path = (0, 0, 0) \<rparr>], None)"
  by (simp add: iterate_def bool_config_def bool_panel_def bool_section_def dict_get_def
      py_get_def py_iter_def)

lemma update_bool_option:
  "update_option (bool_config opt) (0, 0, 0) (PDict opt') = bool_config opt'"
  by (simp add: update_option_def upd_key_def upd_nth_def dict_set_def bool_config_def
      bool_panel_def bool_section_def)

lemma default_values_bool:
  "config s = bool_config bool_option \<Longrightarrow> get_default_values s = Inr []"
  by (simp add: get_default_values_def iterate_option bool_option_def)

lemma default_values_hydrated:
  "config s = bool_config (hydrated v) \<Longrightarrow> get_default_values s = Inr []"
  by (simp add: get_default_values_def iterate_option bool_option_def hydrated_def)

lemma stage_values:
  assumes "save_path s = Some ''/etc/settings.yml''"
    and "config s = bool_config bool_option"
    and "fs w ''/etc/settings.yml'' = Some (Yaml (PDict [(''o1'', v)]))"
  shows "load_current_values s w
           = (Inr (s\<lparr>cp_values := [(''o1'', v)]\<rparr>),
              emit (EvReadYaml ''/etc/settings.yml'') (emit (EvExists ''/etc/settings.yml'') w))"
  using assms
  by (simp add: load_current_values_def path_exists_def default_values_bool dict_update_def
      dict_set_def)

lemma hydrate_bool_option:
  "\<forall>d. v \<noteq> PDict d \<Longrightarrow> hydrate_option E [(''o1'', v)] bool_option = Inr (hydrated v)"
  by (cases v)
     (simp_all add: hydrate_option_def bool_option_def hydrated_def dict_getitem_def
        dict_contains_def dict_subscript_def dict_update_def dict_set_def)

lemma stage_hydrate:
  assumes "config s = bool_config bool_option" and "cp_values s = [(''o1'', v)]"
    and "\<forall>d. v \<noteq> PDict d"
  shows "hydrate E s = Inr (s\<lparr>config := bool_config (hydrated v)\<rparr>)"
  using assms
  by (simp add: hydrate_def iterate_option hydrate_bool_option update_bool_option)

lemma strip_yes: "strip ''yes'' = ''yes''"
  by code_simp

lemma lower_yes: "lower ''yes'' = ''yes''"
  by code_simp

lemma lower_one: "lower (str_of_int 1) = ''1''"
  by code_simp

lemma lower_zero: "lower (str_of_int 0) = ''0''"
  by code_simp

lemma new_bool_question:
  "new_question E BooleanQuestion (dict_set (hydrated v) ''value'' (PStr ''yes''))
     = Inr (bool_question v (PStr ''yes''))"
  by (simp add: new_question_def Question_init_def hydrated_def bool_option_def dict_set_def
      dict_getitem_def dict_get_def py_eq_def class_pattern_def bool_question_def)

lemma normalize_yes:
  assumes "''yes'' \<in> set (yes_answers w)" and "''1'' \<notin> set (no_answers w)"
    and "''0'' \<notin> set (yes_answers w)"
  shows "normalize E BooleanQuestion (PStr ''yes'') (question_dict (bool_question v (PStr ''yes''))) w
           = (Inr (PInt 1), w\<lparr>yes_answers := yes_answers w @ [''1''],
                                 no_answers := no_answers w @ [''0'']\<rparr>)"
  using assms
  by (simp add: normalize_def BooleanQuestion_normalize_def question_dict_def bool_question_def
      dict_get_def py_str_def strip_yes lower_yes lower_one lower_zero)

lemma prevalidate_one:
  "prevalidate E (bool_question v (PInt 1)) w = (Inr (bool_question v (PInt 1)), w)"
  by (simp add: prevalidate_def Question_prevalidate_def bool_question_def is_empty_value_def
      py_in_list_def py_eq_def check_choices_def check_pattern_def)

lemma bool_question_value [simp]:
  "(bool_question v a)\<lparr>q_value := b\<rparr> = bool_question v b"
  "q_class (bool_question v a) = BooleanQuestion"
  "q_value (bool_question v a) = a"
  "q_name (bool_question v a) = PStr ''o1''"
  by (simp_all add: bool_question_def)

lemma display_bool_question:
  assumes "interactive E \<longrightarrow> (\<exists>t. value_for_locale E (PDict [(''en'', PStr ''o1'')]) = PStr t)"
  shows "display_or_prompt E (bool_question v (PStr ''yes'')) w
           = (Inr (bool_question v (PStr ''yes'')), w)"
proof (cases "interactive E")
  case False
  then show ?thesis by (simp add: display_or_prompt_def)
next
  case True
  with assms obtain t where "value_for_locale E (PDict [(''en'', PStr ''o1'')]) = PStr t"
    by blast
  then have "format_text_for_user_input_in_cli E (bool_question v (PStr ''yes''))
               = Inr (PStr (t @ '' [yes | no]''))"
    by (simp add: format_text_for_user_input_in_cli_def Question_format_text_def str_add_def
        bool_question_def)
  with True show ?thesis
    by (simp add: display_or_prompt_def readonly_def)
qed

lemma ask_bool_question:
  assumes "interactive E \<longrightarrow> (\<exists>t. value_for_locale E (PDict [(''en'', PStr ''o1'')]) = PStr t)"
    and "''yes'' \<in> set (yes_answers w)" and "''1'' \<notin> set (no_answers w)"
    and "''0'' \<notin> set (yes_answers w)"
  shows "ask_if_needed E (bool_question v (PStr ''yes'')) w
           = (Inr (bool_question v (PInt 1)),
              w\<lparr>yes_answers := yes_answers w @ [''1''], no_answers := no_answers w @ [''0'']\<rparr>)"
proof -
  have d: "apply_default (bool_question v (PStr ''yes'')) = bool_question v (PStr ''yes'')"
    by (simp add: apply_default_def is_empty_value_def py_in_list_def py_eq_def)
  have n: "normalize_and_validate E (bool_question v (PStr ''yes'')) w
             = (Inr (bool_question v (PInt 1)),
                w\<lparr>yes_answers := yes_answers w @ [''1''], no_answers := no_answers w @ [''0'']\<rparr>)"
    by (simp add: normalize_and_validate_def normalize_yes [OF assms(2-4)] prevalidate_one)
  have p: "post_parse_value E (bool_question v (PInt 1)) w' = (Inr (PInt 1), w')" for w'
    by (simp add: post_parse_value_def Question_post_parse_value_def)
       (simp add: bool_question_def)
  show ?thesis
    by (simp add: ask_if_needed_def upt_0_5 display_bool_question [OF assms(1)] d n p)
qed

lemma ask_bool_questions:
  assumes "interactive E \<longrightarrow> (\<exists>t. value_for_locale E (PDict [(''en'', PStr ''o1'')]) = PStr t)"
    and "''yes'' \<in> set (yes_answers w)" and "''1'' \<notin> set (no_answers w)"
    and "''0'' \<notin> set (yes_answers w)"
  shows "ask_questions_and_parse_answers E (PList [PDict (hydrated v)])
           (PDict [(''o1'', PStr ''yes'')]) w
           = (Inr [bool_question v (PInt 1)],
              w\<lparr>yes_answers := yes_answers w @ [''1''], no_answers := no_answers w @ [''0'']\<rparr>)"
proof -
  have c: "question_class_of (dict_get (hydrated v) ''type'' (PStr ''string'')) = Inr BooleanQuestion"
    by (simp add: hydrated_def bool_option_def dict_get_def question_class_of_def
        ARGUMENTS_TYPE_PARSERS_def)
  have g: "prefilled_get (PDict [(''o1'', PStr ''yes'')]) (hydrated v) = Inr (PStr ''yes'')"
    by (simp add: prefilled_get_def hydrated_def bool_option_def dict_getitem_def dict_get_def)
  show ?thesis
    by (simp add: ask_questions_and_parse_answers_def py_iter_def ask_one_def c g
        new_bool_question ask_bool_question [OF assms])
qed

lemma display_header_scoped:
  "filter_key s = ''p1.s1.o1'' \<Longrightarrow> display_header E s m w = w"
  by (simp add: display_header_def count_key3)

lemma stage_ask:
  assumes "interactive E \<longrightarrow> (\<exists>t. value_for_locale E (PDict [(''en'', PStr ''o1'')]) = PStr t)"
    and "''yes'' \<in> set (yes_answers w)" and "''1'' \<notin> set (no_answers w)"
    and "''0'' \<notin> set (yes_answers w)"
    and "config s = bool_config (hydrated v)" and "filter_key s = ''p1.s1.o1''"
    and "args s = [(''o1'', PStr ''yes'')]" and "new_values s = []"
  shows "ask E s w
           = (Inr (s\<lparr>new_values := [(''o1'', PInt 1)]\<rparr>),
              w\<lparr>yes_answers := yes_answers w @ [''1''], no_answers := no_answers w @ [''0'']\<rparr>)"
proof -
  have e: "\<not> py_eq (bool_panel opt) (bool_section opt)" for opt
    by (simp add: py_eq_def bool_panel_def bool_section_def)
  have n: "subscript_key (bool_panel opt) ''name'' = Inr (PDict [(''en'', PStr ''P1'')])" for opt
    by (simp add: subscript_key_def bool_panel_def dict_getitem_def)
  have m: "subscript_key (bool_section opt) ''name'' = Inr (PStr '''')" for opt
    by (simp add: subscript_key_def bool_section_def dict_getitem_def)
  have o: "subscript_key (bool_section opt) ''options'' = Inr (PList [PDict opt])" for opt
    by (simp add: subscript_key_def bool_section_def dict_getitem_def)
  have i: "''i18n'' \<notin> set (map fst (bool_config opt))" for opt
    by (simp add: bool_config_def)
  have h: "display_header E (s\<lparr>config := c\<rparr>) msg w' = w'" for c msg w'
    using assms(6) by (simp add: display_header_scoped)
  show ?thesis
    using assms(5-8) i [of "hydrated v"]
    by (simp add: ask_def iterate_panel_section py_eq_def [of "bool_panel (hydrated v)" "bool_panel (hydrated v)"]
        e n m o h ask_bool_questions [OF assms(1-4)] dict_update_def dict_set_def Let_def
        del: set_map)
qed

lemma stage_apply:
  assumes "write_fault E = None" and "upload_dirs w = []"
    and "save_path s = Some ''/etc/settings.yml''" and "save_mode s = Some m"
    and "config s = bool_config (hydrated v)"
    and "cp_values s = [(''o1'', v)]" and "new_values s = [(''o1'', PInt 1)]"
  shows "\<exists>w'. apply_guarded E s w = (Inr (), w')
           \<and> fs w' ''/etc/settings.yml'' = Some (Yaml (PDict [(''o1'', PInt 1)]))
           \<and> fs w' ''/etc/panel.toml'' = fs w ''/etc/panel.toml''"
proof -
  have d: "dirname ''/etc/settings.yml'' = ''/etc''"
    by code_simp
  have k: "\<not> py_eq PNone (PInt 1)"
    by (simp add: py_eq_def)
  show ?thesis
    using assms
    by (simp add: apply_guarded_def apply_handled_def ConfigPanel_apply_def d path_exists_def
        write_to_yaml_def dict_update_def dict_set_def clean_upload_dirs_def Let_def
        default_values_hydrated dict_get_def k)
qed

lemma stage_reload:
  assumes "config s = bool_config (hydrated v)"
  shows "reload_services E s w = (Inr (), w)"
  using assms
  by (simp add: reload_services_def iterate_all py_get_def py_iter_def bool_panel_def
      bool_section_def hydrated_def bool_option_def dict_get_def)

lemma emit_answers [simp]:
  "yes_answers (emit e w) = yes_answers w" "no_answers (emit e w) = no_answers w"
  by (simp_all add: emit_def)

lemma stage_prepare:
  assumes "interactive E \<longrightarrow> (\<exists>t. value_for_locale E (PDict [(''en'', PStr ''o1'')]) = PStr t)"
    and "fs w ''/etc/panel.toml'' = Some (Toml bool_toml)"
    and "fs w ''/etc/settings.yml'' = Some (Yaml (PDict [(''o1'', v)]))"
    and "\<forall>d. v \<noteq> PDict d"
    and "''yes'' \<in> set (yes_answers w)" and "''1'' \<notin> set (no_answers w)"
    and "''0'' \<notin> set (yes_answers w)"
  shows "\<exists>s' w'. set_prepare E (bool_panel_object m) (Some ''p1.s1.o1'') (PStr ''yes'') None None
                    (Some l) w = (Inr s', w')
           \<and> config s' = bool_config (hydrated v) \<and> cp_values s' = [(''o1'', v)]
           \<and> new_values s' = [(''o1'', PInt 1)]
           \<and> config_path s' = ''/etc/panel.toml'' \<and> save_path s' = Some ''/etc/settings.yml''
           \<and> save_mode s' = Some m
           \<and> fs w' = fs w \<and> upload_dirs w' = upload_dirs w"
proof -
  let ?s0 = "(bool_panel_object m)\<lparr>filter_key := ''p1.s1.o1''\<rparr>"
  let ?w1 = "emit (EvReadToml ''/etc/panel.toml'') (emit (EvExists ''/etc/panel.toml'') w)"
  let ?s1 = "?s0\<lparr>config := bool_config bool_option\<rparr>"
  let ?s2 = "?s1\<lparr>args := [(''o1'', PStr ''yes'')]\<rparr>"
  let ?w3 = "emit (EvReadYaml ''/etc/settings.yml'') (emit (EvExists ''/etc/settings.yml'') ?w1)"
  let ?s3 = "?s2\<lparr>cp_values := [(''o1'', v)]\<rparr>"
  let ?s4 = "?s3\<lparr>config := bool_config (hydrated v)\<rparr>"
  let ?s5 = "?s4\<lparr>new_values := [(''o1'', PInt 1)]\<rparr>"
  let ?w5 = "?w3\<lparr>yes_answers := yes_answers ?w3 @ [''1''], no_answers := no_answers ?w3 @ [''0'']\<rparr>"
  have 1: "get_config_panel E ?s0 w = (Inr ?s1, ?w1)"
    by (rule stage_load) (simp_all add: bool_panel_object_fields assms(2))
  have 2: "parse_args E ?s1 (PStr ''yes'') None None ?w1 = (Inr ?s2, ?w1)"
    by (simp add: parse_args_def split_key3 Let_def del: split_on.simps)
  have 3: "load_current_values ?s2 ?w1 = (Inr ?s3, ?w3)"
    by (rule stage_values) (simp_all add: bool_panel_object_fields assms(3))
  have 4: "hydrate E ?s3 = Inr ?s4"
    by (rule stage_hydrate) (simp_all add: assms(4))
  have 5: "ask E ?s4 ?w3 = (Inr ?s5, ?w5)"
    by (rule stage_ask) (simp_all add: assms bool_panel_object_fields)
  have n: "bool_config bool_option \<noteq> []"
    by (simp add: bool_config_def)
  have "set_prepare E (bool_panel_object m) (Some ''p1.s1.o1'') (PStr ''yes'') None None (Some l) w
          = (Inr ?s5, emit EvOperationStart ?w5)"
    unfolding set_prepare_def Let_def option.case 1 bindE_Inr
    using 2 3 4 5 by (simp add: n count_key3)
  moreover have "config ?s5 = bool_config (hydrated v)" "cp_values ?s5 = [(''o1'', v)]"
    "new_values ?s5 = [(''o1'', PInt 1)]" "config_path ?s5 = ''/etc/panel.toml''"
    "save_path ?s5 = Some ''/etc/settings.yml''" "save_mode ?s5 = Some m"
    "fs (emit EvOperationStart ?w5) = fs w" "upload_dirs (emit EvOperationStart ?w5) = upload_dirs w"
    by (simp_all add: bool_panel_object_fields)
  ultimately show ?thesis
    by blast
qed

lemma set_bool_yes:
  assumes "interactive E \<longrightarrow> (\<exists>t. value_for_locale E (PDict [(''en'', PStr ''o1'')]) = PStr t)"
    and "write_fault E = None"
    and "fs w ''/etc/panel.toml'' = Some (Toml bool_toml)"
    and "fs w ''/etc/settings.yml'' = Some (Yaml (PDict [(''o1'', v)]))"
    and "\<forall>d. v \<noteq> PDict d"
    and "''yes'' \<in> set (yes_answers w)" and "''1'' \<notin> set (no_answers w)"
    and "''0'' \<notin> set (yes_answers w)" and "upload_dirs w = []"
  shows "\<exists>s' w'. ConfigPanel_set E (bool_panel_object m) (Some ''p1.s1.o1'') (PStr ''yes'') None None
                    (Some l) w = (Inr s', w')
           \<and> config_path s' = ''/etc/panel.toml'' \<and> save_path s' = Some ''/etc/settings.yml''
           \<and> fs w' ''/etc/panel.toml'' = Some (Toml bool_toml)
           \<and> fs w' ''/etc/settings.yml'' = Some (Yaml (PDict [(''o1'', PInt 1)]))"
proof -
  from stage_prepare [OF assms(1,3-8), of m l] obtain s1 w1 where
    p: "set_prepare E (bool_panel_object m) (Some ''p1.s1.o1'') (PStr ''yes'') None None (Some l) w
          = (Inr s1, w1)"
    and s1: "config s1 = bool_config (hydrated v)" "cp_values s1 = [(''o1'', v)]"
      "new_values s1 = [(''o1'', PInt 1)]" "config_path s1 = ''/etc/panel.toml''"
      "save_path s1 = Some ''/etc/settings.yml''" "save_mode s1 = Some m"
    and w1: "fs w1 = fs w" "upload_dirs w1 = upload_dirs w"
    by blast
  from w1 assms(9) have u1: "upload_dirs w1 = []" by simp
  from stage_apply [OF assms(2) u1 s1(5,6,1,2,3)] w1 obtain w2 where
    a: "apply_guarded E s1 w1 = (Inr (), w2)"
    and w2: "fs w2 ''/etc/settings.yml'' = Some (Yaml (PDict [(''o1'', PInt 1)]))"
      "fs w2 ''/etc/panel.toml'' = fs w ''/etc/panel.toml''"
    by auto
  have r: "reload_services E s1 w2 = (Inr (), w2)"
    by (rule stage_reload) (rule s1(1))
  have "ConfigPanel_set E (bool_panel_object m) (Some ''p1.s1.o1'') (PStr ''yes'') None None
          (Some l) w = (Inr s1, emit EvOperationSuccess w2)"
    by (simp add: ConfigPanel_set_def p a r)
  with s1 w2 assms(3) show ?thesis
    by simp
qed

lemma get_bool:
  assumes "config_path s = ''/etc/panel.toml''" and "save_path s = Some ''/etc/settings.yml''"
    and "fs w ''/etc/panel.toml'' = Some (Toml bool_toml)"
    and "fs w ''/etc/settings.yml'' = Some (Yaml (PDict [(''o1'', v)]))"
    and "\<forall>d. v \<noteq> PDict d"
  shows "fst (ConfigPanel_get E s (Some ''p1.s1.o1'') ''classic'' w) = Inr v"
proof -
  let ?s0 = "s\<lparr>filter_key := ''p1.s1.o1''\<rparr>"
  let ?w1 = "emit (EvReadToml ''/etc/panel.toml'') (emit (EvExists ''/etc/panel.toml'') w)"
  let ?s1 = "?s0\<lparr>config := bool_config bool_option\<rparr>"
  let ?w3 = "emit (EvReadYaml ''/etc/settings.yml'') (emit (EvExists ''/etc/settings.yml'') ?w1)"
  let ?s3 = "?s1\<lparr>cp_values := [(''o1'', v)]\<rparr>"
  let ?s4 = "?s3\<lparr>config := bool_config (hydrated v)\<rparr>"
  have 1: "get_config_panel E ?s0 w = (Inr ?s1, ?w1)"
    by (rule stage_load) (simp_all add: assms)
  have 3: "load_current_values ?s1 ?w1 = (Inr ?s3, ?w3)"
    by (rule stage_values) (simp_all add: assms)
  have 4: "hydrate E ?s3 = Inr ?s4"
    by (rule stage_hydrate) (simp_all add: assms(5))
  have n: "bool_config bool_option \<noteq> []"
    by (simp add: bool_config_def)
  show ?thesis
    unfolding ConfigPanel_get_def Let_def option.case 1 bindE_Inr
    using 3 4 by (simp add: n count_key3 split_key3 dict_get_def del: split_on.simps)
qed

text \<open>
  C1 (as the code has it).  The schema has one panel \<^verbatim>\<open>p1\<close>, one section \<^verbatim>\<open>s1\<close> and one
  option \<^verbatim>\<open>o1\<close> of type boolean without a default.  The saved settings hold a value for
  \<^verbatim>\<open>o1\<close> already, any value that is not a mapping, and nothing else.  The panel object is
  as the constructor builds it, with the attribute \<^verbatim>\<open>save_mode\<close> then set, to any mode.
  The write of the settings does not fail, no upload directory is recorded, and the answer
  lists of \<^verbatim>\<open>BooleanQuestion\<close> know \<^verbatim>\<open>yes\<close> and have neither \<^verbatim>\<open>1\<close> among the no-answers
  nor \<^verbatim>\<open>0\<close> among the yes-answers, as in a fresh process; in an interactive terminal the
  text of the question translates to a string.  Then \<^verbatim>\<open>set("p1.s1.o1", value="yes")\<close> with
  an operation logger returns, the settings file holds \<^verbatim>\<open>{"o1": 1}\<close> afterwards, and a
  following \<^verbatim>\<open>get("p1.s1.o1")\<close> in classic mode returns 1, on a new panel object as on
  the one \<^verbatim>\<open>set\<close> has worked on.
\<close>

theorem set_yes_then_get_one:
  assumes "interactive E \<longrightarrow> (\<exists>t. value_for_locale E (PDict [(''en'', PStr ''o1'')]) = PStr t)"
    and "write_fault E = None"
    and "fs w ''/etc/panel.toml''
           = Some (Toml (one_option_toml (PFloat 1) ''o1'' [(''type'', PStr ''boolean'')]))"
    and "fs w ''/etc/settings.yml'' = Some (Yaml (PDict [(''o1'', v)]))"
    and "\<forall>d. v \<noteq> PDict d"
    and "''yes'' \<in> set (yes_answers w)" and "''1'' \<notin> set (no_answers w)"
    and "''0'' \<notin> set (yes_answers w)" and "upload_dirs w = []"
  shows "\<exists>self' w'.
           ConfigPanel_set E (bool_panel_object mode) (Some ''p1.s1.o1'') (PStr ''yes'') None None
             (Some OperationLogger) w = (Inr self', w')
           \<and> fs w' ''/etc/settings.yml'' = Some (Yaml (PDict [(''o1'', PInt 1)]))
           \<and> fst (ConfigPanel_get E (bool_panel_object mode) (Some ''p1.s1.o1'') ''classic'' w')
               = Inr (PInt 1)
           \<and> fst (ConfigPanel_get E self' (Some ''p1.s1.o1'') ''classic'' w') = Inr (PInt 1)"
proof -
  from assms(3) have t: "fs w ''/etc/panel.toml'' = Some (Toml bool_toml)"
    by (simp add: bool_toml_def)
  from set_bool_yes [OF assms(1,2) t assms(4-9), of mode OperationLogger] obtain s' w' where
    r: "ConfigPanel_set E (bool_panel_object mode) (Some ''p1.s1.o1'') (PStr ''yes'') None None
          (Some OperationLogger) w = (Inr s', w')"
    and s: "config_path s' = ''/etc/panel.toml''" "save_path s' = Some ''/etc/settings.yml''"
    and w: "fs w' ''/etc/panel.toml'' = Some (Toml bool_toml)"
      "fs w' ''/etc/settings.yml'' = Some (Yaml (PDict [(''o1'', PInt 1)]))"
    by blast
  have "fst (ConfigPanel_get E (bool_panel_object mode) (Some ''p1.s1.o1'') ''classic'' w')
          = Inr (PInt 1)"
    by (rule get_bool [OF _ _ w]) (simp_all add: bool_panel_object_fields)
  moreover have "fst (ConfigPanel_get E s' (Some ''p1.s1.o1'') ''classic'' w') = Inr (PInt 1)"
    by (rule get_bool [OF s w]) simp
  ultimately show ?thesis
    using r w(2) by blast
qed

theorem set_yes_then_get_one_witness:
  "raised (fst (ConfigPanel_set std_env (bool_panel_object ''diff'') (Some ''p1.s1.o1'')
                  (PStr ''yes'') None None (Some OperationLogger)
                  (world_with (one_option_toml (PFloat 1) ''o1'' [(''type'', PStr ''boolean'')])
                     (Some (PDict [(''o1'', PInt 0)]))))) = None
   \<and> fs (snd (ConfigPanel_set std_env (bool_panel_object ''diff'') (Some ''p1.s1.o1'')
                  (PStr ''yes'') None None (Some OperationLogger)
                  (world_with (one_option_toml (PFloat 1) ''o1'' [(''type'', PStr ''boolean'')])
                     (Some (PDict [(''o1'', PInt 0)]))))) ''/etc/settings.yml''
     = Some (Yaml (PDict [(''o1'', PInt 1)]))
   \<and> fst (ConfigPanel_get std_env (bool_panel_object ''diff'') (Some ''p1.s1.o1'') ''classic''
            (snd (ConfigPanel_set std_env (bool_panel_object ''diff'') (Some ''p1.s1.o1'')
                    (PStr ''yes'') None None (Some OperationLogger)
                    (world_with (one_option_toml (PFloat 1) ''o1'' [(''type'', PStr ''boolean'')])
                       (Some (PDict [(''o1'', PInt 0)]))))))
     = Inr (PInt 1)"
proof -
  let ?w = "world_with (one_option_toml (PFloat 1) ''o1'' [(''type'', PStr ''boolean'')])
              (Some (PDict [(''o1'', PInt 0)]))"
  have "interactive std_env \<longrightarrow>
          (\<exists>t. value_for_locale std_env (PDict [(''en'', PStr ''o1'')]) = PStr t)"
    "write_fault std_env = None"
    by (simp_all add: interactive_def std_env_def)
  moreover have "fs ?w ''/etc/panel.toml''
      = Some (Toml (one_option_toml (PFloat 1) ''o1'' [(''type'', PStr ''boolean'')]))"
    "fs ?w ''/etc/settings.yml'' = Some (Yaml (PDict [(''o1'', PInt 0)]))"
    "''yes'' \<in> set (yes_answers ?w)" "''1'' \<notin> set (no_answers ?w)"
    "''0'' \<notin> set (yes_answers ?w)" "upload_dirs ?w = []"
    by (simp_all add: world_with_def initial_world_def initial_yes_answers_def
        initial_no_answers_def)
  moreover have "\<forall>d. PInt 0 \<noteq> PDict d"
    by simp
  ultimately obtain s' w' where
    "ConfigPanel_set std_env (bool_panel_object ''diff'') (Some ''p1.s1.o1'') (PStr ''yes'')
       None None (Some OperationLogger) ?w = (Inr s', w')"
    "fs w' ''/etc/settings.yml'' = Some (Yaml (PDict [(''o1'', PInt 1)]))"
    "fst (ConfigPanel_get std_env (bool_panel_object ''diff'') (Some ''p1.s1.o1'') ''classic'' w')
       = Inr (PInt 1)"
    using set_yes_then_get_one [of std_env ?w "PInt 0" "''diff''"] by blast
  then show ?thesis
    by (simp add: raised_def)
qed

text \<open>
  C1 (as stated) fails.  With empty saved settings the option has no value to be hydrated
  with: \<^verbatim>\<open>set\<close> raises before it asks anything, and nothing is saved.  And on a panel
  object as the constructor alone builds it, \<^verbatim>\<open>_apply\<close> finds no attribute
  \<^verbatim>\<open>save_mode\<close>: with a value saved for the option, \<^verbatim>\<open>set\<close> raises the attribute error
  after the question is answered, and the settings are as they were.
\<close>

theorem set_on_empty_settings_counterexample:
  "fst (ConfigPanel_set std_env the_panel (Some ''p1.s1.o1'') (PStr ''yes'') None None
          (Some OperationLogger)
          (world_with (one_option_toml (PFloat 1) ''o1'' [(''type'', PStr ''boolean'')]) None))
     = Inl (not_initialized std_env (PStr ''o1''))
   \<and> fs (snd (ConfigPanel_set std_env the_panel (Some ''p1.s1.o1'') (PStr ''yes'') None None
          (Some OperationLogger)
          (world_with (one_option_toml (PFloat 1) ''o1'' [(''type'', PStr ''boolean'')]) None)))
        ''/etc/settings.yml''
     = None
   \<and> fst (ConfigPanel_set std_env the_panel (Some ''p1.s1.o1'') (PStr ''yes'') None None
          (Some OperationLogger)
          (world_with (one_option_toml (PFloat 1) ''o1'' [(''type'', PStr ''boolean'')])
             (Some (PDict []))))
     = Inl (not_initialized std_env (PStr ''o1''))
   \<and> fst (ConfigPanel_set std_env
            (ConfigPanel_init ''/etc/panel.toml'' (Some ''/etc/settings.yml''))
            (Some ''p1.s1.o1'') (PStr ''yes'') None None (Some OperationLogger)
            (world_with (one_option_toml (PFloat 1) ''o1'' [(''type'', PStr ''boolean'')])
               (Some (PDict [(''o1'', PInt 0)]))))
     = Inl (AttributeError ''ConfigPanel object has no attribute save_mode'')
   \<and> fs (snd (ConfigPanel_set std_env
            (ConfigPanel_init ''/etc/panel.toml'' (Some ''/etc/settings.yml''))
            (Some ''p1.s1.o1'') (PStr ''yes'') None None (Some OperationLogger)
            (world_with (one_option_toml (PFloat 1) ''o1'' [(''type'', PStr ''boolean'')])
               (Some (PDict [(''o1'', PInt 0)])))))
        ''/etc/settings.yml''
     = Some (Yaml (PDict [(''o1'', PInt 0)]))"
  by code_simp

section \<open>Boolean normalization\<close>

text \<open>
  C3 (as the code has it).  In a fresh process, and with yes and no tokens that pass the
  two assertions of \<^verbatim>\<open>BooleanQuestion.normalize\<close>, the result on a string depends on
  the string stripped and lower-cased: one of the six yes words or the lower-cased yes
  token gives the yes value; otherwise one of the six no words or the lower-cased no
  token gives the no value; otherwise the empty string and \<^verbatim>\<open>none\<close> give \<^verbatim>\<open>None\<close>;
  anything else fails with the choice error.
\<close>

theorem BooleanQuestion_normalize_cases:
  assumes "yes_answers w = initial_yes_answers" and "no_answers w = initial_no_answers"
    and "y = lower (py_str E (dict_get option ''yes'' (PInt 1)))"
    and "n = lower (py_str E (dict_get option ''no'' (PInt 0)))"
    and "y \<notin> set initial_no_answers"
    and "n \<notin> set initial_yes_answers"
    and "v = lower (strip s)"
  shows "fst (BooleanQuestion_normalize E (PStr s) option w) =
     (if v \<in> set initial_yes_answers \<or> v = y then Inr (dict_get option ''yes'' (PInt 1))
      else if v \<in> set initial_no_answers \<or> v = n then Inr (dict_get option ''no'' (PInt 0))
      else if v = ''none'' \<or> v = '''' then Inr PNone
      else Inl (choice_invalid (dict_get option ''name'' PNone) (PStr v)))"
  using assms
  by (simp add: BooleanQuestion_normalize_def Let_def py_str_def)

theorem BooleanQuestion_normalize_cases_witness:
  "fst (BooleanQuestion_normalize std_env (PStr '' Enabled '')
          [(''yes'', PStr ''enabled''), (''no'', PStr ''disabled'')] initial_world)
     = Inr (PStr ''enabled'')
   \<and> fst (BooleanQuestion_normalize std_env (PStr ''OFF'')
          [(''yes'', PStr ''enabled''), (''no'', PStr ''disabled'')] initial_world)
     = Inr (PStr ''disabled'')
   \<and> fst (BooleanQuestion_normalize std_env (PStr ''maybe'')
          [(''yes'', PStr ''enabled''), (''no'', PStr ''disabled'')] initial_world)
     = Inl (choice_invalid PNone (PStr ''maybe''))"
proof -
  let ?opt = "[(''yes'', PStr ''enabled''), (''no'', PStr ''disabled'')]"
  have fresh: "yes_answers initial_world = initial_yes_answers"
    "no_answers initial_world = initial_no_answers"
    by (simp_all add: initial_world_def)
  have y: "''enabled'' = lower (py_str std_env (dict_get ?opt ''yes'' (PInt 1)))"
    by (simp add: dict_get_def py_str_def lower_def lower_char_def)
  have n: "''disabled'' = lower (py_str std_env (dict_get ?opt ''no'' (PInt 0)))"
    by (simp add: dict_get_def py_str_def lower_def lower_char_def)
  have ay: "''enabled'' \<notin> set initial_no_answers"
    by (simp add: initial_no_answers_def)
  have an: "''disabled'' \<notin> set initial_yes_answers"
    by (simp add: initial_yes_answers_def)
  have v1: "''enabled'' = lower (strip '' Enabled '')"
    by (simp add: strip_def strip_chars_def isspace_def lower_def lower_char_def)
  have v2: "''off'' = lower (strip ''OFF'')"
    by (simp add: strip_def strip_chars_def isspace_def lower_def lower_char_def)
  have v3: "''maybe'' = lower (strip ''maybe'')"
    by (simp add: strip_def strip_chars_def isspace_def lower_def lower_char_def)
  show ?thesis
    using BooleanQuestion_normalize_cases [OF fresh y n ay an v1]
      BooleanQuestion_normalize_cases [OF fresh y n ay an v2]
      BooleanQuestion_normalize_cases [OF fresh y n ay an v3]
    by (simp add: dict_get_def initial_yes_answers_def initial_no_answers_def)
qed

text \<open>
  C3 (as stated) fails: \<^verbatim>\<open>"none"\<close> is a non-empty input, is none of the twelve words and
  is not a token, and normalizes to \<^verbatim>\<open>None\<close> instead of failing; \<^verbatim>\<open>"YES"\<close> is not one
  of the listed words either, and gives the yes value.
\<close>

theorem BooleanQuestion_normalize_none_counterexample:
  "fst (BooleanQuestion_normalize std_env (PStr ''none'') [] initial_world) = Inr PNone
   \<and> fst (BooleanQuestion_normalize std_env (PStr ''YES'') [] initial_world) = Inr (PInt 1)
   \<and> ''none'' \<notin> set initial_yes_answers \<union> set initial_no_answers \<union> {''1'', ''0''}
   \<and> ''YES'' \<notin> set initial_yes_answers \<union> set initial_no_answers \<union> {''1'', ''0''}"
  by code_simp

end
